(* ===== verification/AirQ_Prelude.thy ===== *)
theory AirQ_Prelude
  imports Complex_Main "HOL-Library.Sublist"
begin

text \<open>
  Shared vocabulary of the development: the exceptions of \<^verbatim>\<open>src/src/build.py\<close> as
  values, a result type with its sequencing combinators, the facts on stable sorting,
  filtering and list prefixes that the component theories rely on, and Python's
  \<^verbatim>\<open>round(x, ndigits)\<close> on exact reals.

  Numbers. Python's \<^verbatim>\<open>float\<close> and \<^verbatim>\<open>decimal.Decimal\<close> values are modelled
  as \<^typ>\<open>real\<close>: every arithmetic step is exact, so rounding error, overflow, infinities
  and NaN of IEEE doubles are outside the model. Python's \<^verbatim>\<open>int\<close> and SQLite's
  INTEGER are \<^typ>\<open>int\<close>.
\<close>

section \<open>Fact collections\<close>

named_theorems result_simps "rewrite rules of the result combinators"
named_theorems frame "fields and tables an operation leaves unchanged"
named_theorems inv_defs "definitions of the invariants, for unfolding"

section \<open>Exceptions as values\<close>

text \<open>
  One constructor per exception class that the modelled code can raise:
  \<^item> \<open>IntegrityError\<close>: \<^verbatim>\<open>sqlite3.IntegrityError\<close>, a PRIMARY KEY or UNIQUE
    constraint fails on INSERT;
  \<^item> \<open>OperationalError\<close>: \<^verbatim>\<open>sqlite3.OperationalError\<close>, the statement names a
    column that the table does not have;
  \<^item> \<open>ProgrammingError\<close>: \<^verbatim>\<open>sqlite3.ProgrammingError\<close>, the number of bound
    values differs from the number of placeholders;
  \<^item> \<open>InterfaceError\<close>: \<^verbatim>\<open>sqlite3.InterfaceError\<close>, a bound value has a type that
    SQLite cannot store;
  \<^item> \<open>ValueError\<close>: \<^verbatim>\<open>math.sqrt\<close> or \<^verbatim>\<open>math.asin\<close> outside their domain,
    \<^verbatim>\<open>float\<close> of a string that is not a number;
  \<^item> \<open>TypeError\<close>: an operation on a value of the wrong type, as \<^verbatim>\<open>None < 1.0\<close>;
  \<^item> \<open>KeyError\<close>: \<^verbatim>\<open>d[k]\<close> on a dictionary without the key \<^verbatim>\<open>k\<close>;
  \<^item> \<open>OverflowError\<close>: an integer too large for a float or for SQLite;
  \<^item> \<open>InvalidCoordinate\<close>: the encoder of the spatial key rejects a coordinate;
  \<^item> \<open>IndexError\<close>: \<^verbatim>\<open>fields[i]\<close> on a list of at most \<^verbatim>\<open>i\<close> elements;
  \<^item> \<open>AttributeError\<close>: \<^verbatim>\<open>result.get\<close> on a value that is not a dictionary;
  \<^item> \<open>InvalidOperation\<close>: \<^verbatim>\<open>decimal.InvalidOperation\<close>, \<^verbatim>\<open>Decimal\<close> of a string that
    is not a number;
  \<^item> \<open>JSONDecodeError\<close>: the text of a response or of a file is not JSON;
  \<^item> \<open>HTTPError\<close>: \<^verbatim>\<open>raise_for_status\<close> on a response with an error status;
  \<^item> \<open>BadZipFile\<close>: \<^verbatim>\<open>zipfile.ZipFile\<close> on a file that is not an archive;
  \<^item> \<open>FileNotFoundError\<close>: a file that is opened for reading does not exist;
  \<^item> \<open>RequestException\<close>: \<^verbatim>\<open>requests.get\<close> could not get or read a response.
\<close>

datatype error =
    IntegrityError
  | OperationalError
  | ProgrammingError
  | InterfaceError
  | ValueError
  | TypeError
  | KeyError
  | OverflowError
  | InvalidCoordinate
  | IndexError
  | AttributeError
  | InvalidOperation
  | JSONDecodeError
  | HTTPError
  | BadZipFile
  | FileNotFoundError
  | RequestException

type_synonym 'a result = "error + 'a"

abbreviation ok :: "'a result \<Rightarrow> bool" where
  "ok r \<equiv> \<not> isl r"

definition bind_result :: "'a result \<Rightarrow> ('a \<Rightarrow> 'b result) \<Rightarrow> 'b result" where
  "bind_result m f = (case m of Inl e \<Rightarrow> Inl e | Inr x \<Rightarrow> f x)"

text \<open>
  A list comprehension whose element expression may raise: the elements are evaluated
  in order and the first exception ends the comprehension.
\<close>

primrec map_result :: "('a \<Rightarrow> 'b result) \<Rightarrow> 'a list \<Rightarrow> 'b list result" where
  "map_result f [] = Inr []"
| "map_result f (x # xs) =
     bind_result (f x) (\<lambda>y. bind_result (map_result f xs) (\<lambda>ys. Inr (y # ys)))"

lemma bind_result_Inl [simp, result_simps]: "bind_result (Inl e) f = Inl e"
  by (simp add: bind_result_def)

lemma bind_result_Inr [simp, result_simps]: "bind_result (Inr x) f = f x"
  by (simp add: bind_result_def)

lemma bind_result_eq_Inr [result_simps]:
  "bind_result m f = Inr y \<longleftrightarrow> (\<exists>x. m = Inr x \<and> f x = Inr y)"
  by (cases m) simp_all

lemma bind_result_eq_Inl [result_simps]:
  "bind_result m f = Inl e \<longleftrightarrow> m = Inl e \<or> (\<exists>x. m = Inr x \<and> f x = Inl e)"
  by (cases m) simp_all

lemma bind_result_assoc:
  "bind_result (bind_result m f) g = bind_result m (\<lambda>x. bind_result (f x) g)"
  by (cases m) simp_all

lemma ok_iff_Inr: "ok r \<longleftrightarrow> (\<exists>x. r = Inr x)"
  by (cases r) simp_all

lemma map_result_total:
  "(\<And>x. x \<in> set xs \<Longrightarrow> f x = Inr (g x)) \<Longrightarrow> map_result f xs = Inr (map g xs)"
  by (induction xs) simp_all

lemma map_result_Inr_length:
  "map_result f xs = Inr ys \<Longrightarrow> length ys = length xs"
  by (induction xs arbitrary: ys) (auto simp: bind_result_eq_Inr)

lemma map_result_Inr_nth:
  "map_result f xs = Inr ys \<Longrightarrow> i < length xs \<Longrightarrow> f (xs ! i) = Inr (ys ! i)"
proof (induction xs arbitrary: ys i)
  case Nil
  then show ?case by simp
next
  case (Cons x xs)
  then obtain y ys' where y: "f x = Inr y" and ys': "map_result f xs = Inr ys'"
    and ys: "ys = y # ys'"
    by (auto simp: bind_result_eq_Inr)
  show ?case
  proof (cases i)
    case 0
    with y ys show ?thesis by simp
  next
    case (Suc j)
    with Cons.prems(2) have "j < length xs" by simp
    with ys' have "f (xs ! j) = Inr (ys' ! j)" by (rule Cons.IH)
    with Suc ys show ?thesis by simp
  qed
qed

lemma map_result_first_error:
  "f x = Inl e \<Longrightarrow> (\<And>y. y \<in> set xs \<Longrightarrow> ok (f y)) \<Longrightarrow> map_result f (xs @ x # zs) = Inl e"
proof (induction xs)
  case Nil
  then show ?case by simp
next
  case (Cons a xs)
  from Cons.prems(2)[of a] obtain b where "f a = Inr b"
    by (auto simp: ok_iff_Inr)
  moreover from Cons have "map_result f (xs @ x # zs) = Inl e" by simp
  ultimately show ?case by simp
qed

section \<open>Stable sorting by a key\<close>

text \<open>
  Python's \<^verbatim>\<open>sorted(xs, key=k)\<close> is a stable sort by \<open>k\<close>; so is
  \<^const>\<open>sort_key\<close>, and a stable sort by a key is unique, so the two agree on every
  input. The library gives \<open>sorted_sort_key\<close>, \<open>set_sort\<close>, \<open>length_sort\<close> and
  \<open>sort_key_stable\<close>; the facts below are the ones it lacks.
\<close>

lemma distinct_map_sort_key [simp]:
  "distinct (map g (sort_key f xs)) \<longleftrightarrow> distinct (map g xs)"
  by (simp add: distinct_map)

lemma sort_key_sorted_id:
  "sorted (map f xs) \<Longrightarrow> sort_key f xs = xs"
  by (induction xs) (auto simp: insort_is_Cons)

lemma sort_key_idem [simp]: "sort_key f (sort_key f xs) = sort_key f xs"
  by (simp add: sort_key_sorted_id)

lemma sorted_map_takeWhile:
  "sorted (map f xs) \<Longrightarrow> sorted (map f (takeWhile P xs))"
  by (induction xs) (auto dest: set_takeWhileD)

lemma sorted_map_take:
  "sorted (map f xs) \<Longrightarrow> sorted (map f (take n xs))"
  by (simp flip: take_map)

lemma takeWhile_less_sorted_filter:
  fixes f :: "'a \<Rightarrow> 'b::linorder"
  shows "sorted (map f xs) \<Longrightarrow> takeWhile (\<lambda>x. f x < c) xs = filter (\<lambda>x. f x < c) xs"
proof (induction xs)
  case Nil
  then show ?case by simp
next
  case (Cons x xs)
  show ?case
  proof (cases "f x < c")
    case True
    with Cons show ?thesis by simp
  next
    case False
    with Cons.prems have "\<forall>y \<in> set xs. \<not> f y < c" by fastforce
    then have "filter (\<lambda>x. f x < c) xs = []" by (simp add: filter_empty_conv)
    with False show ?thesis by simp
  qed
qed

text \<open>
  Cutting a list at the first element that fails a test, and after at most \<open>m\<close>
  elements: the cut of \<open>xs @ ys\<close> is the cut of \<open>xs\<close> unless all of \<open>xs\<close> survives.
\<close>

lemma take_takeWhile_append_cut:
  assumes "length (take m (takeWhile P xs)) \<noteq> length xs"
  shows "take m (takeWhile P (xs @ ys)) = take m (takeWhile P xs)"
proof (cases "\<forall>x \<in> set xs. P x")
  case True
  then have tw: "takeWhile P xs = xs" by simp
  with assms have "m < length xs" by simp
  with True show ?thesis by (simp add: tw)
next
  case False
  then obtain x where "x \<in> set xs" and "\<not> P x" by blast
  then show ?thesis by simp
qed

lemma take_takeWhile_all:
  assumes "length (take m (takeWhile P xs)) = length xs"
  shows "take m (takeWhile P xs) = xs" and "length xs \<le> m"
    and "take m (takeWhile P (xs @ ys)) = xs @ take (m - length xs) (takeWhile P ys)"
proof -
  have le: "length (takeWhile P xs) \<le> length xs" by (rule length_takeWhile_le)
  with assms have len: "length (takeWhile P xs) = length xs" and m: "length xs \<le> m"
    by simp_all
  have "takeWhile P xs = take (length (takeWhile P xs)) xs" by (rule takeWhile_eq_take)
  with len have tw: "takeWhile P xs = xs" by simp
  then have all: "\<forall>x \<in> set xs. P x" by simp
  from m show "length xs \<le> m" .
  from m show "take m (takeWhile P xs) = xs" by (simp add: tw)
  from all m show "take m (takeWhile P (xs @ ys)) = xs @ take (m - length xs) (takeWhile P ys)"
    by simp
qed

lemma set_take_takeWhile: "x \<in> set (take m (takeWhile P xs)) \<Longrightarrow> x \<in> set xs \<and> P x"
  by (auto dest: in_set_takeD set_takeWhileD)

section \<open>Prefixes of a key\<close>

text \<open>
  The widening loop of the matcher shortens its key by one symbol per round; after
  \<open>k\<close> rounds it holds the prefix of length \<open>length gh - k\<close>.
\<close>

lemma butlast_take_eq: "n \<le> length xs \<Longrightarrow> butlast (take n xs) = take (n - 1) xs"
  by (simp add: butlast_take)

lemma prefix_butlast: "prefix (butlast xs) xs"
  by (metis append_butlast_last_id butlast.simps(1) prefixI prefix_bot.bot_least)

lemma prefix_take_iff:
  "prefix p xs \<longleftrightarrow> length p \<le> length xs \<and> take (length p) xs = p"
  by (auto simp: prefix_def dest: prefix_length_le intro: append_take_drop_id [symmetric])
    (metis append_take_drop_id)

lemma list_all_zip_eq_take:
  "length p \<le> length xs \<Longrightarrow> list_all (\<lambda>(a, b). a = b) (zip xs p) \<longleftrightarrow> take (length p) xs = p"
proof (induction p arbitrary: xs)
  case Nil
  then show ?case by simp
next
  case (Cons a p)
  then show ?case by (cases xs) auto
qed

lemma length_lcp_le: "length (longest_common_prefix xs ys) \<le> length xs"
  by (rule prefix_length_le) (rule longest_common_prefix_prefix1)

lemma length_lcp_eq_iff:
  "length (longest_common_prefix xs ys) = length xs \<longleftrightarrow> prefix xs ys"
proof
  assume "length (longest_common_prefix xs ys) = length xs"
  moreover have "prefix (longest_common_prefix xs ys) xs"
    by (rule longest_common_prefix_prefix1)
  ultimately have "longest_common_prefix xs ys = xs"
    by (simp add: prefix_take_iff)
  then show "prefix xs ys" by (metis longest_common_prefix_prefix2)
next
  assume "prefix xs ys"
  then have "prefix xs (longest_common_prefix xs ys)"
    by (intro longest_common_prefix_max_prefix) simp_all
  then have "length xs \<le> length (longest_common_prefix xs ys)" by (rule prefix_length_le)
  with length_lcp_le [of xs ys] show "length (longest_common_prefix xs ys) = length xs"
    by simp
qed

lemma length_lcp_snoc:
  "length (longest_common_prefix (g @ [c]) x) =
     (if prefix (g @ [c]) x then Suc (length g) else length (longest_common_prefix g x))"
proof (induction g arbitrary: x)
  case Nil
  then show ?case by (cases x) auto
next
  case (Cons a g)
  then show ?case by (cases x) auto
qed

section \<open>Python's \<^verbatim>\<open>round\<close>\<close>

text \<open>
  \<^verbatim>\<open>round(x, ndigits)\<close> rounds to the nearest multiple of \<open>10 ^ (- ndigits)\<close>, a tie
  to the even neighbour. On exact reals this is \<open>round_half_even\<close> of the scaled value.
\<close>

definition round_half_even :: "real \<Rightarrow> int" where
  "round_half_even x =
     (let f = \<lfloor>x\<rfloor>; d = x - of_int f
      in if d < 1 / 2 then f else if 1 / 2 < d then f + 1
         else if even f then f else f + 1)"

definition py_round :: "real \<Rightarrow> nat \<Rightarrow> real" where
  "py_round x ndigits = of_int (round_half_even (x * 10 ^ ndigits)) / 10 ^ ndigits"

lemma round_half_even_of_int [simp]: "round_half_even (of_int n) = n"
  by (simp add: round_half_even_def)

lemma round_half_even_error: "\<bar>of_int (round_half_even x) - x\<bar> \<le> 1 / 2"
  unfolding round_half_even_def Let_def by (auto simp: abs_le_iff)

lemma py_round_error: "\<bar>py_round x n - x\<bar> \<le> 1 / (2 * 10 ^ n)"
proof -
  have "\<bar>of_int (round_half_even (x * 10 ^ n)) - x * 10 ^ n\<bar> \<le> 1 / 2"
    by (rule round_half_even_error)
  then have "\<bar>of_int (round_half_even (x * 10 ^ n)) - x * 10 ^ n\<bar> / 10 ^ n \<le> (1 / 2) / 10 ^ n"
    by (rule divide_right_mono) simp
  moreover have "py_round x n - x = (of_int (round_half_even (x * 10 ^ n)) - x * 10 ^ n) / 10 ^ n"
    by (simp add: py_round_def field_simps)
  ultimately show ?thesis by simp
qed

lemma py_round_idem [simp]: "py_round (py_round x n) n = py_round x n"
  by (simp add: py_round_def)

section \<open>Partitions of a list by a key\<close>

lemma length_filter_disj:
  "(\<And>x. x \<in> set xs \<Longrightarrow> \<not> (P x \<and> Q x)) \<Longrightarrow>
   length (filter (\<lambda>x. P x \<or> Q x) xs) = length (filter P xs) + length (filter Q xs)"
  by (induction xs) auto

lemma length_concat_classes:
  "distinct Ls \<Longrightarrow>
   length (concat (map (\<lambda>L. filter (\<lambda>x. f x = L \<and> Q x) xs) Ls)) =
   length (filter (\<lambda>x. f x \<in> set Ls \<and> Q x) xs)"
proof (induction Ls)
  case (Cons L Ls)
  have "length (filter (\<lambda>x. f x \<in> set (L # Ls) \<and> Q x) xs) =
        length (filter (\<lambda>x. (f x = L \<and> Q x) \<or> (f x \<in> set Ls \<and> Q x)) xs)"
    by (intro arg_cong [where f = length] filter_cong) auto
  also have "\<dots> = length (filter (\<lambda>x. f x = L \<and> Q x) xs) +
                   length (filter (\<lambda>x. f x \<in> set Ls \<and> Q x) xs)"
    using Cons.prems by (intro length_filter_disj) auto
  finally show ?case using Cons by simp
qed simp

lemma set_concat_classes:
  "set (concat (map (\<lambda>L. filter (\<lambda>x. f x = L \<and> Q x) xs) Ls)) =
   {x \<in> set xs. f x \<in> set Ls \<and> Q x}"
  by auto

lemma sorted_wrt_concat_classes:
  assumes "sorted_wrt (\<lambda>K L. lev L < (lev K :: nat)) Ls"
    and "\<And>L. L \<in> set Ls \<Longrightarrow> sorted_wrt R (F L)"
    and "\<And>L x. L \<in> set Ls \<Longrightarrow> x \<in> set (F L) \<Longrightarrow> key x = lev L"
  shows "sorted_wrt (\<lambda>x y. key y < key x \<or> key x = key y \<and> R x y) (concat (map F Ls))"
  using assms
proof (induction Ls)
  case (Cons L Ls)
  have "sorted_wrt (\<lambda>x y. key y < key x \<or> key x = key y \<and> R x y) (F L)"
    using Cons.prems(2) [of L] Cons.prems(3) [of L]
    by (auto intro: sorted_wrt_mono_rel [of _ R])
  moreover have "key y < key x" if "x \<in> set (F L)" "K \<in> set Ls" "y \<in> set (F K)" for x y K
    using that Cons.prems(1) Cons.prems(3) [of L x] Cons.prems(3) [of K y] by auto
  ultimately show ?case using Cons by (auto simp: sorted_wrt_append)
qed simp

lemma find_key:
  "distinct (map f xs) \<Longrightarrow> x \<in> set xs \<Longrightarrow> find (\<lambda>y. f y = f x) xs = Some x"
  by (induction xs) (auto simp: rev_image_eqI)

lemma distinct_map_iff_sorted_wrt:
  "distinct (map f xs) \<longleftrightarrow> sorted_wrt (\<lambda>x y. f x \<noteq> f y) xs"
  by (induction xs) auto

lemma distinct_map_insort_key:
  "distinct (map f (insort_key f x xs)) \<longleftrightarrow> f x \<notin> f ` set xs \<and> distinct (map f xs)"
  by (induction xs) (auto simp: set_insort_key)

lemma concat_map_single:
  "distinct Ls \<Longrightarrow> L \<in> set Ls \<Longrightarrow> (\<And>K. K \<in> set Ls \<Longrightarrow> K \<noteq> L \<Longrightarrow> F K = []) \<Longrightarrow>
   concat (map F Ls) = F L"
proof (induction Ls)
  case (Cons K Ls)
  show ?case
  proof (cases "K = L")
    case True
    with Cons.prems have "F J = []" if "J \<in> set Ls" for J using that by auto
    then have "concat (map F Ls) = []" by simp
    with True show ?thesis by simp
  next
    case False
    with Cons show ?thesis by simp
  qed
qed simp

end
