(* ===== verification/Haversine.thy ===== *)
theory Haversine
  imports AirQ_Prelude
begin

text \<open>
  The distance function of the matcher: \<^verbatim>\<open>haversine_distance\<close> of
  \<^verbatim>\<open>src/src/build.py\<close>, lines 13 to 30. The model keeps the code's order of
  operations and the two library calls that can raise (\<^verbatim>\<open>math.sqrt\<close> of a negative
  number, \<^verbatim>\<open>math.asin\<close> outside \<open>[-1, 1]\<close>) as results. The lemmas show that
  neither raises in exact arithmetic, that the function is the great-circle distance
  on a sphere of radius 6371 km (symmetric, zero on coincident points, at most half the
  circumference, the spherical law of cosines), and give its closed form along a
  meridian and along the equator, where it can be evaluated on concrete coordinates.
\<close>

section \<open>The library calls\<close>

definition radians :: "real \<Rightarrow> real" where
  "radians x = x * pi / 180"

definition py_sqrt :: "real \<Rightarrow> real result" where
  "py_sqrt x = (if x < 0 then Inl ValueError else Inr (sqrt x))"

definition py_asin :: "real \<Rightarrow> real result" where
  "py_asin x = (if x < - 1 \<or> 1 < x then Inl ValueError else Inr (arcsin x))"

section \<open>The function\<close>

definition haversine_distance :: "real \<Rightarrow> real \<Rightarrow> real \<Rightarrow> real \<Rightarrow> real result" where
  "haversine_distance lon1 lat1 lon2 lat2 =
     (let (lon1, lat1, lon2, lat2) = (radians lon1, radians lat1, radians lon2, radians lat2);
          dlon = lon2 - lon1;
          dlat = lat2 - lat1;
          a = (sin (dlat / 2))\<^sup>2 + cos lat1 * cos lat2 * (sin (dlon / 2))\<^sup>2
      in bind_result (py_sqrt a) (\<lambda>s.
         bind_result (py_asin s) (\<lambda>t.
           let c = 2 * t; r = 6371 in Inr (c * r))))"

section \<open>The reference: great-circle distance\<close>

text \<open>
  \<open>hav_a\<close> is the haversine of the central angle between two points given in radians;
  \<open>great_circle_km\<close> is the distance the specification asks for, with no error case.
\<close>

definition hav_a :: "real \<Rightarrow> real \<Rightarrow> real \<Rightarrow> real \<Rightarrow> real" where
  "hav_a lon1 lat1 lon2 lat2 =
     (sin ((lat2 - lat1) / 2))\<^sup>2 + cos lat1 * cos lat2 * (sin ((lon2 - lon1) / 2))\<^sup>2"

definition great_circle_km :: "real \<Rightarrow> real \<Rightarrow> real \<Rightarrow> real \<Rightarrow> real" where
  "great_circle_km lon1 lat1 lon2 lat2 =
     6371 * (2 * arcsin (sqrt (hav_a (radians lon1) (radians lat1) (radians lon2) (radians lat2))))"

section \<open>The argument of the square root and of the arc sine\<close>

lemma sin_half_sq: "(sin (x / 2))\<^sup>2 = (1 - cos x) / (2::real)"
  using cos_double_sin [of "x / 2"] by simp

lemma cos_half_sq: "(cos (x / 2))\<^sup>2 = (1 + cos x) / (2::real)"
  using cos_double_cos [of "x / 2"] by simp

lemma sin_sq_le_1: "(sin (x::real))\<^sup>2 \<le> 1"
  by (simp add: abs_square_le_1)

lemma cos_sq_le_1: "(cos (x::real))\<^sup>2 \<le> 1"
  by (simp add: abs_square_le_1)

lemma hav_a_cosines:
  "hav_a lon1 lat1 lon2 lat2 =
     (1 - (sin lat1 * sin lat2 + cos lat1 * cos lat2 * cos (lon2 - lon1))) / 2"
  unfolding hav_a_def sin_half_sq cos_diff [of lat2 lat1] by (simp add: field_simps)

text \<open>
  The haversine as a convex combination, with weight \<open>sin\<^sup>2 (dlon / 2)\<close>, of two
  squares: this bounds it without any assumption on the latitudes.
\<close>

lemma hav_a_convex:
  "hav_a lon1 lat1 lon2 lat2 =
     (1 - (sin ((lon2 - lon1) / 2))\<^sup>2) * (sin ((lat2 - lat1) / 2))\<^sup>2
     + (sin ((lon2 - lon1) / 2))\<^sup>2 * (cos ((lat2 + lat1) / 2))\<^sup>2"
proof -
  have c: "(cos ((lat2 + lat1) / 2))\<^sup>2 = (1 + cos (lat2 + lat1)) / 2"
    by (rule cos_half_sq)
  show ?thesis
    unfolding hav_a_def c sin_half_sq [of "lat2 - lat1"] cos_diff [of lat2 lat1]
      cos_add [of lat2 lat1]
    by (simp add: field_simps)
qed

lemma hav_a_nonneg [simp]: "0 \<le> hav_a lon1 lat1 lon2 lat2"
  unfolding hav_a_convex
  by (intro add_nonneg_nonneg mult_nonneg_nonneg) (simp_all add: sin_sq_le_1)

lemma hav_a_le_1 [simp]: "hav_a lon1 lat1 lon2 lat2 \<le> 1"
proof -
  let ?u = "(sin ((lon2 - lon1) / 2))\<^sup>2"
  have "(1 - ?u) * (sin ((lat2 - lat1) / 2))\<^sup>2 \<le> (1 - ?u) * 1"
    by (intro mult_left_mono) (simp_all add: sin_sq_le_1)
  moreover have "?u * (cos ((lat2 + lat1) / 2))\<^sup>2 \<le> ?u * 1"
    by (intro mult_left_mono) (simp_all add: cos_sq_le_1)
  ultimately show ?thesis unfolding hav_a_convex by simp
qed

lemma hav_a_sym: "hav_a lon1 lat1 lon2 lat2 = hav_a lon2 lat2 lon1 lat1"
  by (simp add: hav_a_cosines cos_diff mult.commute)

lemma hav_a_same [simp]: "hav_a lon lat lon lat = 0"
  by (simp add: hav_a_def)


section \<open>The code computes the reference\<close>

lemma py_sqrt_nonneg [simp]: "0 \<le> x \<Longrightarrow> py_sqrt x = Inr (sqrt x)"
  by (simp add: py_sqrt_def)

lemma py_asin_unit [simp]: "- 1 \<le> x \<Longrightarrow> x \<le> 1 \<Longrightarrow> py_asin x = Inr (arcsin x)"
  by (auto simp: py_asin_def)

lemma sqrt_unit: "0 \<le> x \<Longrightarrow> x \<le> 1 \<Longrightarrow> - 1 \<le> sqrt x \<and> sqrt x \<le> 1"
  by (simp add: order_trans [of "- 1" 0])

lemma haversine_distance_eq:
  "haversine_distance lon1 lat1 lon2 lat2 = Inr (great_circle_km lon1 lat1 lon2 lat2)"
proof -
  let ?a = "hav_a (radians lon1) (radians lat1) (radians lon2) (radians lat2)"
  have "py_sqrt ?a = Inr (sqrt ?a)" by simp
  moreover have "py_asin (sqrt ?a) = Inr (arcsin (sqrt ?a))"
    using sqrt_unit [of ?a] by simp
  ultimately show ?thesis
    by (simp add: haversine_distance_def great_circle_km_def hav_a_def [symmetric] Let_def)
qed

section \<open>Properties of the distance\<close>

lemma great_circle_km_sym:
  "great_circle_km lon1 lat1 lon2 lat2 = great_circle_km lon2 lat2 lon1 lat1"
  by (simp add: great_circle_km_def hav_a_sym [of "radians lon1"])

lemma great_circle_km_same [simp]: "great_circle_km lon lat lon lat = 0"
  by (simp add: great_circle_km_def)

lemma great_circle_km_nonneg [simp]: "0 \<le> great_circle_km lon1 lat1 lon2 lat2"
  unfolding great_circle_km_def
  by (intro mult_nonneg_nonneg arcsin_nonneg) simp_all

lemma great_circle_km_le: "great_circle_km lon1 lat1 lon2 lat2 \<le> 6371 * pi"
proof -
  let ?s = "sqrt (hav_a (radians lon1) (radians lat1) (radians lon2) (radians lat2))"
  have "arcsin ?s \<le> pi / 2"
    using sqrt_unit [of "hav_a (radians lon1) (radians lat1) (radians lon2) (radians lat2)"]
    by (intro arcsin_ubound) simp_all
  then show ?thesis by (simp add: great_circle_km_def)
qed

text \<open>The central angle \<open>d / 6371\<close> satisfies the spherical law of cosines.\<close>

lemma cos_great_circle_km:
  "cos (great_circle_km lon1 lat1 lon2 lat2 / 6371) =
     sin (radians lat1) * sin (radians lat2)
     + cos (radians lat1) * cos (radians lat2) * cos (radians lon2 - radians lon1)"
proof -
  let ?a = "hav_a (radians lon1) (radians lat1) (radians lon2) (radians lat2)"
  have s: "sin (arcsin (sqrt ?a)) = sqrt ?a"
    using sqrt_unit [of ?a] by (intro sin_arcsin) simp_all
  have "cos (2 * arcsin (sqrt ?a)) = 1 - 2 * (sin (arcsin (sqrt ?a)))\<^sup>2"
    by (rule cos_double_sin)
  also have "\<dots> = 1 - 2 * ?a" by (simp add: s)
  also have "\<dots> = sin (radians lat1) * sin (radians lat2)
     + cos (radians lat1) * cos (radians lat2) * cos (radians lon2 - radians lon1)"
    by (simp add: hav_a_cosines field_simps)
  finally show ?thesis by (simp add: great_circle_km_def)
qed

section \<open>Closed forms on a meridian and on the equator\<close>

lemma arcsin_abs_sin_half:
  assumes "\<bar>x\<bar> \<le> pi"
  shows "arcsin (sqrt ((sin (x / 2))\<^sup>2)) = \<bar>x\<bar> / 2"
proof -
  have "sqrt ((sin (x / 2))\<^sup>2) = \<bar>sin (x / 2)\<bar>" by simp
  also have "\<dots> = sin (\<bar>x\<bar> / 2)"
  proof (cases "0 \<le> x")
    case True
    with assms have "0 \<le> sin (x / 2)" by (intro sin_ge_zero) simp_all
    with True show ?thesis by simp
  next
    case False
    with assms have "0 \<le> sin (- x / 2)" by (intro sin_ge_zero) simp_all
    with False show ?thesis by simp
  qed
  finally have "arcsin (sqrt ((sin (x / 2))\<^sup>2)) = arcsin (sin (\<bar>x\<bar> / 2))" by simp
  also have "\<dots> = \<bar>x\<bar> / 2" using assms by (intro arcsin_sin) simp_all
  finally show ?thesis .
qed

lemma radians_diff: "radians a - radians b = radians (a - b)"
  by (simp add: radians_def diff_divide_distrib left_diff_distrib)

lemma abs_radians: "\<bar>radians x\<bar> = radians \<bar>x\<bar>"
  by (simp add: radians_def abs_mult)

lemma radians_le_pi: "\<bar>x\<bar> \<le> 180 \<Longrightarrow> \<bar>radians x\<bar> \<le> pi"
  by (simp add: radians_def abs_mult)

lemma great_circle_km_meridian:
  assumes "\<bar>lat2 - lat1\<bar> \<le> 180"
  shows "great_circle_km lon lat1 lon lat2 = 6371 * radians \<bar>lat2 - lat1\<bar>"
proof -
  have "\<bar>radians (lat2 - lat1)\<bar> \<le> pi" using assms by (rule radians_le_pi)
  then have "arcsin (sqrt ((sin (radians (lat2 - lat1) / 2))\<^sup>2)) = \<bar>radians (lat2 - lat1)\<bar> / 2"
    by (rule arcsin_abs_sin_half)
  then show ?thesis
    by (simp add: great_circle_km_def hav_a_def radians_diff abs_radians)
qed

lemma great_circle_km_equator:
  assumes "\<bar>lon2 - lon1\<bar> \<le> 180"
  shows "great_circle_km lon1 0 lon2 0 = 6371 * radians \<bar>lon2 - lon1\<bar>"
proof -
  have "\<bar>radians (lon2 - lon1)\<bar> \<le> pi" using assms by (rule radians_le_pi)
  then have "arcsin (sqrt ((sin (radians (lon2 - lon1) / 2))\<^sup>2)) = \<bar>radians (lon2 - lon1)\<bar> / 2"
    by (rule arcsin_abs_sin_half)
  then show ?thesis
    by (simp add: great_circle_km_def hav_a_def radians_diff abs_radians radians_def [of 0])
qed

section \<open>Deciding comparisons on the equator\<close>

text \<open>
  One degree of arc is \<open>6371 * pi / 180\<close> km. With \<open>2 \<le> pi\<close> and \<open>pi < 4\<close> an arc of
  at most a sixth of a degree is shorter than 25 km and an arc of at least two fifths of
  a degree is not; between two arcs the longer one is the farther one.
\<close>

lemma radians_le_iff [simp]: "radians x \<le> radians y \<longleftrightarrow> x \<le> y"
  by (simp add: radians_def divide_le_cancel)

lemma radians_less_iff [simp]: "radians x < radians y \<longleftrightarrow> x < y"
  by (simp add: radians_def divide_less_cancel)

lemma arc_lt_25: "x \<le> 1 / 6 \<Longrightarrow> 6371 * radians x < 25"
proof -
  assume "x \<le> 1 / 6"
  then have "x * pi \<le> 1 / 6 * pi" by (intro mult_right_mono) simp_all
  also have "\<dots> < 1 / 6 * 4" using pi_less_4 by simp
  finally show ?thesis by (simp add: radians_def)
qed

lemma arc_ge_25: "2 / 5 \<le> x \<Longrightarrow> 25 \<le> 6371 * radians x"
proof -
  assume "2 / 5 \<le> x"
  then have "2 / 5 * 2 \<le> x * pi" using pi_ge_two by (intro mult_mono) simp_all
  then show ?thesis by (simp add: radians_def)
qed

section \<open>Properties of the code\<close>

text \<open>
  Claim C4. \<^verbatim>\<open>haversine_distance\<close> never raises: for all coordinates the arguments of
  \<^verbatim>\<open>math.sqrt\<close> and \<^verbatim>\<open>math.asin\<close> are in their domains, and the value returned
  is the great-circle distance on a sphere of radius 6371 km.
\<close>

theorem haversine_distance_great_circle:
  "haversine_distance lon1 lat1 lon2 lat2 = Inr (great_circle_km lon1 lat1 lon2 lat2)"
  by (rule haversine_distance_eq)

lemma haversine_distance_symmetric:
  "haversine_distance lon1 lat1 lon2 lat2 = haversine_distance lon2 lat2 lon1 lat1"
  by (simp add: haversine_distance_eq great_circle_km_sym)

lemma haversine_distance_coincident: "haversine_distance lon lat lon lat = Inr 0"
  by (simp add: haversine_distance_eq)

lemma haversine_distance_range:
  "\<exists>x. haversine_distance lon1 lat1 lon2 lat2 = Inr x \<and> 0 \<le> x \<and> x \<le> 6371 * pi"
  by (simp add: haversine_distance_eq great_circle_km_le)

text \<open>
  Claim C34. \<^verbatim>\<open>haversine_distance\<close> behaves as a distance: it is symmetric in its two
  points, it is 0 from a point to itself, and it is never negative and never more than
  half the circumference of the sphere, 6371 times pi.
\<close>

theorem haversine_distance_metric:
  "haversine_distance lon1 lat1 lon2 lat2 = haversine_distance lon2 lat2 lon1 lat1 \<and>
   haversine_distance lon1 lat1 lon1 lat1 = Inr 0 \<and>
   (\<exists>x. haversine_distance lon1 lat1 lon2 lat2 = Inr x \<and> 0 \<le> x \<and> x \<le> 6371 * pi)"
  using haversine_distance_symmetric [of lon1 lat1 lon2 lat2]
    haversine_distance_coincident [of lon1 lat1] haversine_distance_range [of lon1 lat1 lon2 lat2]
  by simp

end
