(* ===== verification/Database.thy ===== *)
theory Database
  imports AirQ_Prelude
begin

text \<open>
  The SQLite database of \<^verbatim>\<open>src/src/build.py\<close>: the four tables of \<^verbatim>\<open>create_db\<close>
  (lines 54 to 131) as records and lists of rows, and every SQL statement the program
  executes as one operation on the database value, with the constraint violations of
  the schema as errors.

  \<^item> A table is the list of its rows in rowid order, the order in which SQLite scans a
    table when the statement has no ORDER BY and no index applies. \<^verbatim>\<open>sensors.id\<close>
    is INTEGER PRIMARY KEY, hence the rowid itself: an insert puts the row at its place
    by id. The other tables get increasing rowids: an insert appends.
  \<^item> The 12 columns \<^verbatim>\<open>geohash_bit_1\<close> to \<^verbatim>\<open>geohash_bit_12\<close> of a row are one
    \<^typ>\<open>string\<close> of 12 characters (\<open>sensor_geohash\<close>, \<open>zipcode_geohash\<close>); column
    \<open>i\<close> is the character at index \<open>i - 1\<close>.
  \<^item> AUTOINCREMENT keeps the largest rowid ever used in \<^verbatim>\<open>sqlite_sequence\<close>
    (\<open>zipcodes_seq\<close>, \<open>cities_seq\<close>); the next rowid is one more than the larger of
    that and the largest rowid in the table. Rowids are unbounded integers here; SQLite
    stops at \<open>2^63 - 1\<close>.
  \<^item> Foreign keys are declared but not enforced (SQLite's default), so no operation
    checks them; that the program keeps them is part of \<open>program_inv\<close>.
\<close>

section \<open>Rows and tables\<close>

record sensor_row =
  sensor_id :: int
  sensor_latitude :: real
  sensor_longitude :: real
  sensor_geohash :: string

record zipcode_row =
  zipcode_id :: int
  zipcode_city_id :: int
  zipcode_code :: string
  zipcode_latitude :: real
  zipcode_longitude :: real
  zipcode_geohash :: string

record city_row =
  city_id :: int
  city_name :: string
  city_state_code :: string

record link_row =
  link_sensor_id :: int
  link_zipcode_id :: int
  link_distance :: real

record db =
  sensors :: "sensor_row list"
  zipcodes :: "zipcode_row list"
  zipcodes_seq :: int
  cities :: "city_row list"
  cities_seq :: int
  sensors_zipcodes :: "link_row list"

abbreviation sensor_ids :: "db \<Rightarrow> int list" where
  "sensor_ids d \<equiv> map sensor_id (sensors d)"

abbreviation zipcode_ids :: "db \<Rightarrow> int list" where
  "zipcode_ids d \<equiv> map zipcode_id (zipcodes d)"

abbreviation city_ids :: "db \<Rightarrow> int list" where
  "city_ids d \<equiv> map city_id (cities d)"

abbreviation link_key :: "link_row \<Rightarrow> int \<times> int" where
  "link_key l \<equiv> (link_sensor_id l, link_zipcode_id l)"

abbreviation city_key :: "city_row \<Rightarrow> string \<times> string" where
  "city_key c \<equiv> (city_name c, city_state_code c)"

section \<open>Creating the tables\<close>

text \<open>
  \<^verbatim>\<open>create_db\<close> runs four CREATE TABLE statements on the file \<^verbatim>\<open>airq.db\<close>, which
  \<^verbatim>\<open>sqlite3.connect\<close> creates when it is missing. The argument is the content of that
  file, if there is one: on an existing database the first CREATE TABLE raises.
\<close>

definition empty_db :: db where
  "empty_db = \<lparr>sensors = [], zipcodes = [], zipcodes_seq = 0,
               cities = [], cities_seq = 0, sensors_zipcodes = []\<rparr>"

definition create_db :: "db option \<Rightarrow> db result" where
  "create_db file = (case file of None \<Rightarrow> Inr empty_db | Some d \<Rightarrow> Inl OperationalError)"

section \<open>Statements\<close>

definition next_rowid :: "int \<Rightarrow> int list \<Rightarrow> int" where
  "next_rowid seq ids = fold max ids seq + 1"

text \<open>\<^verbatim>\<open>INSERT INTO sensors VALUES(?, \<dots>)\<close> with 15 placeholders (lines 275 to 288).\<close>

definition insert_sensor :: "db \<Rightarrow> int \<Rightarrow> real \<Rightarrow> real \<Rightarrow> string \<Rightarrow> db result" where
  "insert_sensor d sid lat lon gh =
     (if 3 + length gh \<noteq> 15 then Inl ProgrammingError
      else if sid \<in> set (sensor_ids d) then Inl IntegrityError
      else Inr (d\<lparr>sensors := insort_key sensor_id
                  \<lparr>sensor_id = sid, sensor_latitude = lat, sensor_longitude = lon,
                   sensor_geohash = gh\<rparr> (sensors d)\<rparr>))"

text \<open>
  \<^verbatim>\<open>INSERT INTO zipcodes(zipcode, city_id, latitude, longitude, geohash_bit_1, \<dots>)\<close>
  with 16 placeholders, and \<^verbatim>\<open>cursor.lastrowid\<close> (lines 211 to 227).
\<close>

definition insert_zipcode ::
  "db \<Rightarrow> string \<Rightarrow> int \<Rightarrow> real \<Rightarrow> real \<Rightarrow> string \<Rightarrow> (int \<times> db) result" where
  "insert_zipcode d zipcode cid lat lon gh =
     (if 4 + length gh \<noteq> 16 then Inl ProgrammingError
      else if zipcode \<in> zipcode_code ` set (zipcodes d) then Inl IntegrityError
      else let zid = next_rowid (zipcodes_seq d) (zipcode_ids d)
           in Inr (zid, d\<lparr>zipcodes := zipcodes d @
                     [\<lparr>zipcode_id = zid, zipcode_city_id = cid, zipcode_code = zipcode,
                       zipcode_latitude = lat, zipcode_longitude = lon,
                       zipcode_geohash = gh\<rparr>],
                    zipcodes_seq := zid\<rparr>))"

text \<open>
  \<^verbatim>\<open>SELECT id FROM cities WHERE name=? AND state_code=?\<close> and \<^verbatim>\<open>fetchone\<close>
  (lines 188 to 191): the first matching row in rowid order, if any.
\<close>

definition select_city :: "db \<Rightarrow> string \<Rightarrow> string \<Rightarrow> int option" where
  "select_city d name state =
     (case filter (\<lambda>c. city_name c = name \<and> city_state_code c = state) (cities d) of
        [] \<Rightarrow> None
      | c # _ \<Rightarrow> Some (city_id c))"

text \<open>
  \<^verbatim>\<open>INSERT INTO cities(name, state_code) VALUES(?, ?)\<close> and \<^verbatim>\<open>cursor.lastrowid\<close>
  (lines 194 to 197). The table has no UNIQUE constraint: the statement cannot fail.
\<close>

definition insert_city :: "db \<Rightarrow> string \<Rightarrow> string \<Rightarrow> int \<times> db" where
  "insert_city d name state =
     (let cid = next_rowid (cities_seq d) (city_ids d)
      in (cid, d\<lparr>cities := cities d @
                  [\<lparr>city_id = cid, city_name = name, city_state_code = state\<rparr>],
                cities_seq := cid\<rparr>))"

text \<open>
  \<^verbatim>\<open>INSERT INTO sensors_zipcodes VALUES (?, ?, ?)\<close> (lines 180 to 183); the primary
  key of the table is the pair \<^verbatim>\<open>(sensor_id, zipcode_id)\<close>.
\<close>

definition insert_sensor_zipcode :: "db \<Rightarrow> int \<Rightarrow> int \<Rightarrow> real \<Rightarrow> db result" where
  "insert_sensor_zipcode d sid zid distance =
     (if (sid, zid) \<in> link_key ` set (sensors_zipcodes d) then Inl IntegrityError
      else Inr (d\<lparr>sensors_zipcodes := sensors_zipcodes d @
                  [\<lparr>link_sensor_id = sid, link_zipcode_id = zid, link_distance = distance\<rparr>]\<rparr>))"

text \<open>
  The WHERE clause \<^verbatim>\<open>geohash_bit_1=? AND \<dots> AND geohash_bit_n=?\<close> that the matcher
  builds from the \<open>n\<close> symbols of its key (line 162), on the 12 columns of one row.
\<close>

definition geohash_matches :: "string \<Rightarrow> string \<Rightarrow> bool" where
  "geohash_matches gh cols \<longleftrightarrow> list_all (\<lambda>(c, g). c = g) (zip cols gh)"

text \<open>
  \<^verbatim>\<open>SELECT id, latitude, longitude FROM sensors WHERE \<dots>\<close>, with
  \<^verbatim>\<open>AND id NOT IN (\<dots>)\<close> when the set of excluded ids is not empty, and
  \<^verbatim>\<open>fetchall\<close> (lines 161 to 166 and 170). A key of more than 12 symbols names a
  column \<^verbatim>\<open>geohash_bit_13\<close>, which the table does not have.
\<close>

definition select_sensors :: "db \<Rightarrow> string \<Rightarrow> int set \<Rightarrow> (int \<times> real \<times> real) list result" where
  "select_sensors d gh excl =
     (if 12 < length gh then Inl OperationalError
      else Inr (map (\<lambda>r. (sensor_id r, sensor_latitude r, sensor_longitude r))
                 (filter (\<lambda>r. geohash_matches gh (sensor_geohash r) \<and>
                               (if excl = {} then True else sensor_id r \<notin> excl))
                    (sensors d))))"

section \<open>Invariants\<close>

text \<open>
  \<open>schema_inv\<close>: what the schema makes SQLite enforce (primary keys, the UNIQUE
  column, 12 key columns per row, the AUTOINCREMENT sequences).
  \<open>program_inv\<close>: what only the program keeps (one city per name and state, the foreign
  keys, and the two bounds on the links of a postal code).
\<close>

definition schema_inv :: "db \<Rightarrow> bool" where
  "schema_inv d \<longleftrightarrow>
     sorted (sensor_ids d) \<and> distinct (sensor_ids d) \<and>
     list_all (\<lambda>r. length (sensor_geohash r) = 12) (sensors d) \<and>
     distinct (zipcode_ids d) \<and> distinct (map zipcode_code (zipcodes d)) \<and>
     list_all (\<lambda>z. zipcode_id z \<le> zipcodes_seq d) (zipcodes d) \<and>
     list_all (\<lambda>z. length (zipcode_geohash z) = 12) (zipcodes d) \<and>
     distinct (city_ids d) \<and>
     list_all (\<lambda>c. city_id c \<le> cities_seq d) (cities d) \<and>
     distinct (map link_key (sensors_zipcodes d))"

definition links_of :: "db \<Rightarrow> int \<Rightarrow> link_row list" where
  "links_of d zid = filter (\<lambda>l. link_zipcode_id l = zid) (sensors_zipcodes d)"

definition program_inv :: "db \<Rightarrow> bool" where
  "program_inv d \<longleftrightarrow>
     distinct (map city_key (cities d)) \<and>
     list_all (\<lambda>z. zipcode_city_id z \<in> set (city_ids d)) (zipcodes d) \<and>
     list_all (\<lambda>l. link_sensor_id l \<in> set (sensor_ids d) \<and>
                    link_zipcode_id l \<in> set (zipcode_ids d) \<and>
                    link_distance l < 25) (sensors_zipcodes d) \<and>
     list_all (\<lambda>z. length (links_of d (zipcode_id z)) \<le> 25) (zipcodes d)"

definition db_inv :: "db \<Rightarrow> bool" where
  "db_inv d \<longleftrightarrow> schema_inv d \<and> program_inv d"

lemmas db_inv_defs [inv_defs] = db_inv_def schema_inv_def program_inv_def

section \<open>Facts about the statements\<close>

lemma fold_max_ge: "(s::int) \<le> fold max ids s"
  by (induction ids arbitrary: s) (auto intro: order_trans [OF max.cobounded2])

lemma fold_max_mem_le: "i \<in> set ids \<Longrightarrow> (i::int) \<le> fold max ids s"
proof (induction ids arbitrary: s)
  case Nil
  then show ?case by simp
next
  case (Cons a ids)
  show ?case
  proof (cases "i = a")
    case True
    have "max a s \<le> fold max ids (max a s)" by (rule fold_max_ge)
    with True show ?thesis by simp
  next
    case False
    with Cons show ?thesis by simp
  qed
qed

lemma fold_max_bounded: "\<forall>i \<in> set ids. i \<le> s \<Longrightarrow> fold max ids s = (s::int)"
  by (induction ids) (simp_all add: max_absorb2)

lemma next_rowid_fresh: "next_rowid seq ids \<notin> set ids"
  using fold_max_mem_le [of "next_rowid seq ids" ids seq] by (auto simp: next_rowid_def)

lemma next_rowid_gt: "i \<in> set ids \<Longrightarrow> i < next_rowid seq ids"
  using fold_max_mem_le [of i ids seq] by (simp add: next_rowid_def)

lemma next_rowid_gt_seq: "seq < next_rowid seq ids"
  using fold_max_ge [of seq ids] by (simp add: next_rowid_def)

lemma next_rowid_bounded: "\<forall>i \<in> set ids. i \<le> seq \<Longrightarrow> next_rowid seq ids = seq + 1"
  by (simp add: next_rowid_def fold_max_bounded)

lemma insert_sensor_zipcode_Inr:
  "insert_sensor_zipcode d sid zid distance = Inr d' \<longleftrightarrow>
     (sid, zid) \<notin> link_key ` set (sensors_zipcodes d) \<and>
     d' = d\<lparr>sensors_zipcodes := sensors_zipcodes d @
             [\<lparr>link_sensor_id = sid, link_zipcode_id = zid, link_distance = distance\<rparr>]\<rparr>"
  by (auto simp: insert_sensor_zipcode_def)

lemma insert_sensor_zipcode_Inl:
  "insert_sensor_zipcode d sid zid distance = Inl e \<longleftrightarrow>
     (sid, zid) \<in> link_key ` set (sensors_zipcodes d) \<and> e = IntegrityError"
  by (auto simp: insert_sensor_zipcode_def)

lemma select_sensors_Inr:
  "length gh \<le> 12 \<Longrightarrow>
   select_sensors d gh excl =
     Inr (map (\<lambda>r. (sensor_id r, sensor_latitude r, sensor_longitude r))
            (filter (\<lambda>r. geohash_matches gh (sensor_geohash r) \<and> sensor_id r \<notin> excl)
               (sensors d)))"
  by (cases "excl = {}") (simp_all add: select_sensors_def)

lemma select_sensors_Inl: "12 < length gh \<Longrightarrow> select_sensors d gh excl = Inl OperationalError"
  by (simp add: select_sensors_def)

lemma geohash_matches_take:
  "length gh \<le> length cols \<Longrightarrow> geohash_matches gh cols \<longleftrightarrow> take (length gh) cols = gh"
  by (simp add: geohash_matches_def list_all_zip_eq_take)

lemma geohash_matches_prefix:
  "length gh \<le> length cols \<Longrightarrow> geohash_matches gh cols \<longleftrightarrow> prefix gh cols"
  by (simp add: geohash_matches_take prefix_take_iff)

lemma geohash_matches_Nil [simp]: "geohash_matches [] cols"
  by (simp add: geohash_matches_def)

lemma select_city_None:
  "select_city d name state = None \<longleftrightarrow> (name, state) \<notin> city_key ` set (cities d)"
proof -
  have "select_city d name state = None \<longleftrightarrow>
      filter (\<lambda>c. city_name c = name \<and> city_state_code c = state) (cities d) = []"
    by (simp add: select_city_def split: list.splits)
  also have "\<dots> \<longleftrightarrow> (name, state) \<notin> city_key ` set (cities d)"
    by (auto simp: filter_empty_conv)
  finally show ?thesis .
qed

lemma select_city_Some:
  "select_city d name state = Some cid \<Longrightarrow>
   \<exists>c \<in> set (cities d). city_id c = cid \<and> city_name c = name \<and> city_state_code c = state"
proof -
  assume "select_city d name state = Some cid"
  then obtain c cs where
    "filter (\<lambda>c. city_name c = name \<and> city_state_code c = state) (cities d) = c # cs"
    and "city_id c = cid"
    by (auto simp: select_city_def split: list.splits)
  then have "c \<in> set (filter (\<lambda>c. city_name c = name \<and> city_state_code c = state) (cities d))"
    by simp
  with \<open>city_id c = cid\<close> show ?thesis by auto
qed

section \<open>Inserting a sensor\<close>

lemma insert_sensor_Inr:
  "insert_sensor d sid lat lon gh = Inr d' \<longleftrightarrow>
     length gh = 12 \<and> sid \<notin> set (sensor_ids d) \<and>
     d' = d\<lparr>sensors := insort_key sensor_id
             \<lparr>sensor_id = sid, sensor_latitude = lat, sensor_longitude = lon,
              sensor_geohash = gh\<rparr> (sensors d)\<rparr>"
  by (auto simp: insert_sensor_def)

lemma insert_sensor_Inl:
  "insert_sensor d sid lat lon gh = Inl e \<longleftrightarrow>
     length gh \<noteq> 12 \<and> e = ProgrammingError \<or>
     length gh = 12 \<and> sid \<in> set (sensor_ids d) \<and> e = IntegrityError"
  by (auto simp: insert_sensor_def)

lemma db_inv_insert_sensor:
  assumes "db_inv d" and "insert_sensor d sid lat lon gh = Inr d'"
  shows "db_inv d'"
proof -
  from assms(2) have d': "length gh = 12" "sid \<notin> set (sensor_ids d)"
    "d' = d\<lparr>sensors := insort_key sensor_id
             \<lparr>sensor_id = sid, sensor_latitude = lat, sensor_longitude = lon,
              sensor_geohash = gh\<rparr> (sensors d)\<rparr>"
    by (simp_all add: insert_sensor_Inr)
  have "schema_inv d'"
    using assms(1) d'(1,2)
    by (auto simp: db_inv_def schema_inv_def d'(3) sorted_insort_key distinct_map_insort_key
        set_insort_key list_all_iff)
  moreover have "program_inv d'"
    using assms(1)
    by (auto simp: db_inv_def program_inv_def d'(3) set_insort_key list_all_iff links_of_def)
  ultimately show ?thesis by (simp add: db_inv_def)
qed

lemma insert_sensor_frame:
  assumes "insert_sensor d sid lat lon gh = Inr d'"
  shows "zipcodes d' = zipcodes d" and "zipcodes_seq d' = zipcodes_seq d"
    and "cities d' = cities d" and "cities_seq d' = cities_seq d"
    and "sensors_zipcodes d' = sensors_zipcodes d"
    and "set (sensors d') = insert \<lparr>sensor_id = sid, sensor_latitude = lat,
           sensor_longitude = lon, sensor_geohash = gh\<rparr> (set (sensors d))"
  using assms by (auto simp: insert_sensor_Inr set_insort_key)

section \<open>The empty database\<close>

lemma empty_db_simps [simp]:
  "sensors empty_db = []" "zipcodes empty_db = []" "zipcodes_seq empty_db = 0"
  "cities empty_db = []" "cities_seq empty_db = 0" "sensors_zipcodes empty_db = []"
  by (simp_all add: empty_db_def)

lemma db_inv_empty_db: "db_inv empty_db"
  by (simp add: db_inv_defs empty_db_def)

lemma create_db_fresh: "create_db None = Inr empty_db"
  by (simp add: create_db_def)

lemma create_db_existing: "create_db (Some d) = Inl OperationalError"
  by (simp add: create_db_def)

end
