(* ===== verification/Matcher.thy ===== *)
theory Matcher
  imports Database Haversine
begin

text \<open>
  The proximity matcher: \<^verbatim>\<open>create_sensors_zipcodes\<close> of \<^verbatim>\<open>src/src/build.py\<close>,
  lines 156 to 184. For one postal code it asks the \<^verbatim>\<open>sensors\<close> table for the rows
  that share the first \<open>n\<close> symbols of the postal code's geohash, \<open>n\<close> from the length
  of the key down to 1, leaves out the sensors it has linked already, sorts the answer
  by distance, and inserts one link per sensor until a sensor is 25 km away or more, or
  25 sensors are linked: then the whole function returns.

  \<^item> \<open>insert_new_sensors\<close> is the inner \<^verbatim>\<open>for\<close> loop, \<open>create_sensors_zipcodes_loop\<close>
    the \<^verbatim>\<open>while gh:\<close> loop, \<open>create_sensors_zipcodes\<close> the function. The state is
    the Python set \<^verbatim>\<open>sensors\<close> (here \<open>selected\<close>) and the database behind the
    cursor. The loop ends because each round pops one symbol off the key.
  \<^item> \<open>nearest_sensors\<close> is the specification: the sensors that share exactly \<open>L\<close>
    leading symbols with the key form ring \<open>L\<close>; the rings are listed from the innermost
    outwards, each sorted by distance; the result is what comes before the first
    sensor at 25 km or more, cut after 25 entries.
  \<^item> The lemmas show that the code inserts exactly \<open>nearest_sensors\<close>
    (\<open>create_sensors_zipcodes_loop_closed_form\<close>), and derive the bounds on radius and
    count, soundness and completeness of the links, the frame, the errors, and that the
    invariant of the database is kept.
\<close>

section \<open>The code\<close>

datatype loop_exit = Returned | Exhausted

fun insert_new_sensors ::
  "int \<Rightarrow> (int \<times> real) list \<Rightarrow> int set \<Rightarrow> db \<Rightarrow> (loop_exit \<times> int set \<times> db) result" where
  "insert_new_sensors zid [] selected cur = Inr (Exhausted, selected, cur)"
| "insert_new_sensors zid ((sid, distance) # new_sensors) selected cur =
     (if 25 \<le> distance then Inr (Returned, selected, cur)
      else if 25 \<le> card selected then Inr (Returned, selected, cur)
      else bind_result (insert_sensor_zipcode cur sid zid distance)
             (insert_new_sensors zid new_sensors (insert sid selected)))"

definition with_distance :: "real \<Rightarrow> real \<Rightarrow> int \<times> real \<times> real \<Rightarrow> (int \<times> real) result" where
  "with_distance latitude longitude r =
     (case r of (sid, lat, lon) \<Rightarrow>
        bind_result (haversine_distance longitude latitude lon lat) (\<lambda>distance.
          Inr (sid, distance)))"

function create_sensors_zipcodes_loop ::
  "int \<Rightarrow> real \<Rightarrow> real \<Rightarrow> string \<Rightarrow> int set \<Rightarrow> db \<Rightarrow> db result" where
  "create_sensors_zipcodes_loop zid latitude longitude gh selected cur =
     (if gh = [] then Inr cur
      else
        bind_result (select_sensors cur gh selected) (\<lambda>rows.
        bind_result (map_result (with_distance latitude longitude) rows) (\<lambda>ds.
        bind_result (insert_new_sensors zid (sort_key snd ds) selected cur)
          (\<lambda>(exit, selected', cur').
             case exit of
               Returned \<Rightarrow> Inr cur'
             | Exhausted \<Rightarrow>
                 create_sensors_zipcodes_loop zid latitude longitude (butlast gh)
                   selected' cur'))))"
  by pat_completeness auto
termination
  by (relation "measure (\<lambda>(zid, latitude, longitude, gh, selected, cur). length gh)") auto

declare create_sensors_zipcodes_loop.simps [simp del]

definition create_sensors_zipcodes ::
  "db \<Rightarrow> int \<Rightarrow> string \<Rightarrow> real \<Rightarrow> real \<Rightarrow> string \<Rightarrow> db result" where
  "create_sensors_zipcodes cur zid zipcode latitude longitude gh =
     create_sensors_zipcodes_loop zid latitude longitude gh {} cur"

section \<open>The specification\<close>

definition sensor_distance :: "real \<Rightarrow> real \<Rightarrow> sensor_row \<Rightarrow> int \<times> real" where
  "sensor_distance latitude longitude r =
     (sensor_id r, great_circle_km longitude latitude (sensor_longitude r) (sensor_latitude r))"

definition shared_level :: "string \<Rightarrow> sensor_row \<Rightarrow> nat" where
  "shared_level gh r = length (longest_common_prefix gh (sensor_geohash r))"

definition cell_ring :: "string \<Rightarrow> int set \<Rightarrow> sensor_row list \<Rightarrow> nat \<Rightarrow> sensor_row list" where
  "cell_ring gh excl rows L =
     filter (\<lambda>r. shared_level gh r = L \<and> sensor_id r \<notin> excl) rows"

definition candidates ::
  "real \<Rightarrow> real \<Rightarrow> string \<Rightarrow> int set \<Rightarrow> sensor_row list \<Rightarrow> (int \<times> real) list" where
  "candidates latitude longitude gh excl rows =
     concat (map (\<lambda>L. sort_key snd (map (sensor_distance latitude longitude)
                                        (cell_ring gh excl rows L)))
               (rev [1..<Suc (length gh)]))"

abbreviation in_range :: "int \<times> real \<Rightarrow> bool" where
  "in_range p \<equiv> snd p < 25"

definition nearest_sensors ::
  "real \<Rightarrow> real \<Rightarrow> string \<Rightarrow> sensor_row list \<Rightarrow> (int \<times> real) list" where
  "nearest_sensors latitude longitude gh rows =
     take 25 (takeWhile in_range (candidates latitude longitude gh {} rows))"

definition link_of :: "int \<Rightarrow> int \<times> real \<Rightarrow> link_row" where
  "link_of zid p = \<lparr>link_sensor_id = fst p, link_zipcode_id = zid, link_distance = snd p\<rparr>"

definition add_links :: "db \<Rightarrow> int \<Rightarrow> (int \<times> real) list \<Rightarrow> db" where
  "add_links d zid ps = d\<lparr>sensors_zipcodes := sensors_zipcodes d @ map (link_of zid) ps\<rparr>"

text \<open>
  Preconditions. \<open>sensors_wf\<close> is the part of the schema the matcher relies on: ids
  are a key of the table and every row has its 12 key columns. \<open>links_within\<close> ties
  the set \<open>selected\<close> to the database: every sensor already linked to the postal code
  is in the set, so that no insert hits the primary key.
\<close>

definition sensors_wf :: "sensor_row list \<Rightarrow> bool" where
  "sensors_wf rows \<longleftrightarrow>
     distinct (map sensor_id rows) \<and> list_all (\<lambda>r. length (sensor_geohash r) = 12) rows"

definition links_within :: "db \<Rightarrow> int \<Rightarrow> int set \<Rightarrow> bool" where
  "links_within d zid selected \<longleftrightarrow>
     list_all (\<lambda>l. link_zipcode_id l = zid \<longrightarrow> link_sensor_id l \<in> selected)
       (sensors_zipcodes d)"

section \<open>Appending links\<close>

lemma add_links_Nil [simp]: "add_links d zid [] = d"
  by (simp add: add_links_def)

lemma add_links_append [simp]:
  "add_links (add_links d zid ps) zid qs = add_links d zid (ps @ qs)"
  by (simp add: add_links_def)

lemma add_links_frame [simp, frame]:
  "sensors (add_links d zid ps) = sensors d"
  "zipcodes (add_links d zid ps) = zipcodes d"
  "zipcodes_seq (add_links d zid ps) = zipcodes_seq d"
  "cities (add_links d zid ps) = cities d"
  "cities_seq (add_links d zid ps) = cities_seq d"
  by (simp_all add: add_links_def)

lemma sensors_zipcodes_add_links [simp]:
  "sensors_zipcodes (add_links d zid ps) = sensors_zipcodes d @ map (link_of zid) ps"
  by (simp add: add_links_def)

lemma link_of_simps [simp]:
  "link_sensor_id (link_of zid p) = fst p"
  "link_zipcode_id (link_of zid p) = zid"
  "link_distance (link_of zid p) = snd p"
  by (simp_all add: link_of_def)

lemma add_links_inject [simp]: "add_links d zid ps = add_links d zid qs \<longleftrightarrow> ps = qs"
proof
  assume "add_links d zid ps = add_links d zid qs"
  then have "sensors_zipcodes (add_links d zid ps) = sensors_zipcodes (add_links d zid qs)"
    by simp
  then have "map (link_of zid) ps = map (link_of zid) qs" by simp
  moreover have "inj (link_of zid)"
    by (auto simp: inj_def link_of_def prod_eq_iff)
  ultimately show "ps = qs" by (simp add: inj_map_eq_map)
qed simp

lemma links_within_add_links:
  assumes "links_within d zid selected"
  shows "links_within (add_links d zid ps) zid (selected \<union> fst ` set ps)"
  unfolding links_within_def list_all_iff
proof (intro ballI impI)
  fix l
  assume "l \<in> set (sensors_zipcodes (add_links d zid ps))" and z: "link_zipcode_id l = zid"
  then consider "l \<in> set (sensors_zipcodes d)" | p where "p \<in> set ps" "l = link_of zid p"
    by auto
  then show "link_sensor_id l \<in> selected \<union> fst ` set ps"
  proof cases
    case 1
    with assms z show ?thesis by (simp add: links_within_def list_all_iff)
  next
    case 2
    then show ?thesis by simp
  qed
qed

lemma links_within_mono:
  "links_within d zid selected \<Longrightarrow> selected \<subseteq> selected' \<Longrightarrow> links_within d zid selected'"
  by (auto simp: links_within_def list_all_iff)

lemma insert_sensor_zipcode_fresh:
  "links_within d zid selected \<Longrightarrow> sid \<notin> selected \<Longrightarrow>
   insert_sensor_zipcode d sid zid distance = Inr (add_links d zid [(sid, distance)])"
  by (auto simp: insert_sensor_zipcode_Inr links_within_def list_all_iff add_links_def link_of_def)

section \<open>The inner loop inserts a cut of its batch\<close>

lemma insert_new_sensors_closed_form:
  assumes "distinct (map fst cs)" and "fst ` set cs \<inter> selected = {}"
    and "finite selected" and "links_within d zid selected"
  shows "insert_new_sensors zid cs selected d =
     (let added = take (25 - card selected) (takeWhile in_range cs)
      in Inr (if length added = length cs then Exhausted else Returned,
              selected \<union> fst ` set added, add_links d zid added))"
  using assms
proof (induction cs arbitrary: selected d)
  case Nil
  then show ?case by simp
next
  case (Cons c cs)
  obtain sid distance where c: "c = (sid, distance)" by (cases c)
  show ?case
  proof (cases "25 \<le> distance \<or> 25 \<le> card selected")
    case True
    then show ?thesis by (auto simp: c)
  next
    case False
    from Cons.prems c have fresh: "sid \<notin> selected" by auto
    with Cons.prems have ins: "insert_sensor_zipcode d sid zid distance =
        Inr (add_links d zid [(sid, distance)])"
      by (intro insert_sensor_zipcode_fresh)
    have card: "card (insert sid selected) = Suc (card selected)"
      using fresh Cons.prems(3) by simp
    have "links_within (add_links d zid [(sid, distance)]) zid
        (selected \<union> fst ` set [(sid, distance)])"
      using Cons.prems(4) by (rule links_within_add_links)
    then have lw: "links_within (add_links d zid [(sid, distance)]) zid (insert sid selected)"
      by simp
    have IH: "insert_new_sensors zid cs (insert sid selected) (add_links d zid [(sid, distance)]) =
      (let added = take (25 - card (insert sid selected)) (takeWhile in_range cs)
       in Inr (if length added = length cs then Exhausted else Returned,
              insert sid selected \<union> fst ` set added,
              add_links (add_links d zid [(sid, distance)]) zid added))"
      using Cons.prems c lw by (intro Cons.IH) auto
    from False have m: "25 - card selected = Suc (24 - card selected)" by arith
    show ?thesis
      using False by (simp add: c ins IH card m Let_def)
  qed
qed

section \<open>Levels and rings\<close>

lemma shared_level_le: "shared_level gh r \<le> length gh"
  by (simp add: shared_level_def length_lcp_le)

lemma shared_level_snoc:
  "shared_level (g @ [c]) r =
     (if prefix (g @ [c]) (sensor_geohash r) then Suc (length g) else shared_level g r)"
  by (simp add: shared_level_def length_lcp_snoc)

lemma geohash_matches_level:
  "length gh \<le> length (sensor_geohash r) \<Longrightarrow>
   geohash_matches gh (sensor_geohash r) \<longleftrightarrow> shared_level gh r = length gh"
  by (simp add: geohash_matches_prefix shared_level_def length_lcp_eq_iff)

lemma sensors_wf_geohash:
  "sensors_wf rows \<Longrightarrow> r \<in> set rows \<Longrightarrow> length (sensor_geohash r) = 12"
  by (simp add: sensors_wf_def list_all_iff)

lemma sensors_wf_inj: "sensors_wf rows \<Longrightarrow> inj_on sensor_id (set rows)"
  by (simp add: sensors_wf_def distinct_map)

lemma select_ring:
  assumes "sensors_wf rows" and "length gh \<le> 12"
  shows "filter (\<lambda>r. geohash_matches gh (sensor_geohash r) \<and> sensor_id r \<notin> selected) rows =
     cell_ring gh selected rows (length gh)"
  unfolding cell_ring_def
  using assms by (intro filter_cong refl) (simp add: geohash_matches_level sensors_wf_geohash)

lemma set_cell_ring [simp]:
  "set (cell_ring gh excl rows L) =
     {r \<in> set rows. shared_level gh r = L \<and> sensor_id r \<notin> excl}"
  by (auto simp: cell_ring_def)

lemma distinct_cell_ring_ids:
  "sensors_wf rows \<Longrightarrow> distinct (map sensor_id (cell_ring gh excl rows L))"
  by (simp add: sensors_wf_def cell_ring_def distinct_map_filter)

lemma cell_ring_ids_excl: "sensor_id ` set (cell_ring gh excl rows L) \<inter> excl = {}"
  by auto

text \<open>
  Once the innermost ring is excluded, the rings of the shortened key are the
  remaining rings of the key.
\<close>

lemma cell_ring_butlast:
  assumes wf: "sensors_wf rows" and L: "L \<le> length g"
  shows "cell_ring g (selected \<union> sensor_id ` set (cell_ring (g @ [c]) selected rows (Suc (length g))))
           rows L
         = cell_ring (g @ [c]) selected rows L"
  unfolding cell_ring_def
proof (intro filter_cong refl)
  fix r
  assume r: "r \<in> set rows"
  let ?top = "filter (\<lambda>r. shared_level (g @ [c]) r = Suc (length g) \<and> sensor_id r \<notin> selected) rows"
  have inj: "inj_on sensor_id (set rows)" using wf by (rule sensors_wf_inj)
  have mem: "sensor_id r \<in> sensor_id ` set ?top \<longleftrightarrow>
      shared_level (g @ [c]) r = Suc (length g) \<and> sensor_id r \<notin> selected"
    using r inj by (auto dest: inj_onD)
  have le: "shared_level g r \<le> length g" by (rule shared_level_le)
  have nt: "sensor_id r \<notin> selected \<union> sensor_id ` set ?top \<longleftrightarrow>
      sensor_id r \<notin> selected \<and> shared_level (g @ [c]) r \<noteq> Suc (length g)"
    by (simp only: Un_iff mem) blast
  have "shared_level (g @ [c]) r = Suc (length g) \<or> shared_level (g @ [c]) r = shared_level g r"
    by (simp add: shared_level_snoc)
  with L le show "(shared_level g r = L \<and> sensor_id r \<notin> selected \<union> sensor_id ` set ?top) \<longleftrightarrow>
        (shared_level (g @ [c]) r = L \<and> sensor_id r \<notin> selected)"
    unfolding nt by auto
qed

section \<open>Distances and candidates\<close>

lemma fst_sensor_distance [simp]: "fst (sensor_distance latitude longitude r) = sensor_id r"
  by (simp add: sensor_distance_def)

lemma fst_comp_sensor_distance [simp]: "fst \<circ> sensor_distance latitude longitude = sensor_id"
  by (simp add: fun_eq_iff)

lemma snd_sensor_distance:
  "snd (sensor_distance latitude longitude r) =
     great_circle_km longitude latitude (sensor_longitude r) (sensor_latitude r)"
  by (simp add: sensor_distance_def)

lemma with_distance_eq:
  "with_distance latitude longitude (sensor_id r, sensor_latitude r, sensor_longitude r) =
     Inr (sensor_distance latitude longitude r)"
  by (simp add: with_distance_def sensor_distance_def haversine_distance_eq)

lemma with_distance_ok: "with_distance latitude longitude r = Inr (fst r,
    great_circle_km longitude latitude (snd (snd r)) (fst (snd r)))"
  by (cases r) (simp add: with_distance_def haversine_distance_eq)

lemma distances_eq:
  "map_result (with_distance latitude longitude)
     (map (\<lambda>r. (sensor_id r, sensor_latitude r, sensor_longitude r)) rows) =
   Inr (map (sensor_distance latitude longitude) rows)"
  by (induction rows) (simp_all add: with_distance_eq)

lemma candidates_Nil [simp]: "candidates latitude longitude [] excl rows = []"
  by (simp add: candidates_def)

lemma candidates_snoc:
  "candidates latitude longitude (g @ [c]) excl rows =
     sort_key snd (map (sensor_distance latitude longitude)
                     (cell_ring (g @ [c]) excl rows (Suc (length g))))
     @ concat (map (\<lambda>L. sort_key snd (map (sensor_distance latitude longitude)
                                          (cell_ring (g @ [c]) excl rows L)))
                 (rev [1..<Suc (length g)]))"
  by (simp add: candidates_def)

lemma candidates_butlast:
  assumes "sensors_wf rows"
  shows "candidates latitude longitude g
           (selected \<union> sensor_id ` set (cell_ring (g @ [c]) selected rows (Suc (length g)))) rows =
         concat (map (\<lambda>L. sort_key snd (map (sensor_distance latitude longitude)
                                            (cell_ring (g @ [c]) selected rows L)))
                   (rev [1..<Suc (length g)]))"
  unfolding candidates_def
proof (intro arg_cong [where f = concat] map_cong refl)
  fix L
  assume "L \<in> set (rev [1..<Suc (length g)])"
  then have "L \<le> length g" by auto
  with assms show "sort_key snd (map (sensor_distance latitude longitude) (cell_ring g
        (selected \<union> sensor_id ` set (cell_ring (g @ [c]) selected rows (Suc (length g)))) rows L)) =
      sort_key snd (map (sensor_distance latitude longitude) (cell_ring (g @ [c]) selected rows L))"
    by (simp only: cell_ring_butlast)
qed

section \<open>One round of the outer loop\<close>

lemma create_sensors_zipcodes_loop_Nil [simp]:
  "create_sensors_zipcodes_loop zid latitude longitude [] selected d = Inr d"
  by (simp add: create_sensors_zipcodes_loop.simps)

lemma create_sensors_zipcodes_loop_snoc:
  "create_sensors_zipcodes_loop zid latitude longitude (g @ [c]) selected d =
     bind_result (select_sensors d (g @ [c]) selected) (\<lambda>rows.
     bind_result (map_result (with_distance latitude longitude) rows) (\<lambda>ds.
     bind_result (insert_new_sensors zid (sort_key snd ds) selected d)
       (\<lambda>(exit, selected', d').
          case exit of
            Returned \<Rightarrow> Inr d'
          | Exhausted \<Rightarrow> create_sensors_zipcodes_loop zid latitude longitude g selected' d')))"
  by (subst create_sensors_zipcodes_loop.simps) (simp cong: loop_exit.case_cong)

lemma create_sensors_zipcodes_loop_round:
  fixes latitude longitude :: real
  assumes "sensors_wf (sensors d)" and "length (g @ [c]) \<le> 12"
    and "finite selected" and "links_within d zid selected"
  defines "cs \<equiv> sort_key snd (map (sensor_distance latitude longitude)
                     (cell_ring (g @ [c]) selected (sensors d) (Suc (length g))))"
  defines "added \<equiv> take (25 - card selected) (takeWhile in_range cs)"
  shows "create_sensors_zipcodes_loop zid latitude longitude (g @ [c]) selected d =
      (if length added = length cs
       then create_sensors_zipcodes_loop zid latitude longitude g
              (selected \<union> fst ` set added) (add_links d zid added)
       else Inr (add_links d zid added))"
proof -
  let ?top = "cell_ring (g @ [c]) selected (sensors d) (Suc (length g))"
  have sel: "select_sensors d (g @ [c]) selected =
      Inr (map (\<lambda>r. (sensor_id r, sensor_latitude r, sensor_longitude r)) ?top)"
    using assms(1,2) select_ring [of "sensors d" "g @ [c]" selected]
    by (simp add: select_sensors_Inr)
  have dist: "distinct (map fst cs)"
    using assms(1) by (simp add: cs_def distinct_cell_ring_ids)
  have "fst ` set cs = sensor_id ` set ?top" by (simp add: cs_def image_image)
  then have disj: "fst ` set cs \<inter> selected = {}"
    using cell_ring_ids_excl [of "g @ [c]" selected "sensors d" "Suc (length g)"] by simp
  have inner: "insert_new_sensors zid cs selected d =
      Inr (if length added = length cs then Exhausted else Returned,
           selected \<union> fst ` set added, add_links d zid added)"
    using insert_new_sensors_closed_form [OF dist disj assms(3,4)]
    by (simp add: Let_def added_def)
  show ?thesis
    by (simp add: create_sensors_zipcodes_loop_snoc sel distances_eq cs_def [symmetric] inner)
qed


text \<open>The round that links its whole ring: what the next round starts from.\<close>

lemma create_sensors_zipcodes_loop_round_all:
  fixes latitude longitude :: real
  assumes "sensors_wf (sensors d)" and "length (g @ [c]) \<le> 12"
    and "finite selected" and "links_within d zid selected"
  defines "inner \<equiv> cell_ring (g @ [c]) selected (sensors d) (Suc (length g))"
  defines "cs \<equiv> sort_key snd (map (sensor_distance latitude longitude) inner)"
  assumes all: "length (take (25 - card selected) (takeWhile in_range cs)) = length cs"
  shows "create_sensors_zipcodes_loop zid latitude longitude (g @ [c]) selected d =
      create_sensors_zipcodes_loop zid latitude longitude g
        (selected \<union> sensor_id ` set inner) (add_links d zid cs)"
    and "card (selected \<union> sensor_id ` set inner) = card selected + length cs"
    and "links_within (add_links d zid cs) zid (selected \<union> sensor_id ` set inner)"
proof -
  have ids: "fst ` set cs = sensor_id ` set inner" by (simp add: cs_def image_image)
  have "distinct (map fst cs)"
    using assms(1) by (simp add: cs_def inner_def distinct_cell_ring_ids)
  then have "card (fst ` set cs) = length cs"
    by (metis distinct_card length_map set_map)
  moreover have "sensor_id ` set inner \<inter> selected = {}"
    unfolding inner_def by (rule cell_ring_ids_excl)
  ultimately show "card (selected \<union> sensor_id ` set inner) = card selected + length cs"
    using assms(3) by (simp add: ids card_Un_disjoint Int_commute)
  show "links_within (add_links d zid cs) zid (selected \<union> sensor_id ` set inner)"
    using links_within_add_links [OF assms(4), of cs] by (simp only: ids)
  note round = create_sensors_zipcodes_loop_round [OF assms(1-4), of latitude longitude,
      folded inner_def cs_def]
  from all have "take (25 - card selected) (takeWhile in_range cs) = cs"
    by (rule take_takeWhile_all(1))
  then show "create_sensors_zipcodes_loop zid latitude longitude (g @ [c]) selected d =
      create_sensors_zipcodes_loop zid latitude longitude g
        (selected \<union> sensor_id ` set inner) (add_links d zid cs)"
    by (simp only: round ids simp_thms if_True)
qed


section \<open>The closed form\<close>

lemma create_sensors_zipcodes_loop_closed_form:
  assumes "sensors_wf (sensors d)" and "length gh \<le> 12"
    and "finite selected" and "links_within d zid selected"
  shows "create_sensors_zipcodes_loop zid latitude longitude gh selected d =
     Inr (add_links d zid
            (take (25 - card selected)
               (takeWhile in_range (candidates latitude longitude gh selected (sensors d)))))"
  using assms
proof (induction gh arbitrary: selected d rule: rev_induct)
  case Nil
  then show ?case by simp
next
  case (snoc c g)
  let ?S = "sensors d"
  let ?top = "cell_ring (g @ [c]) selected ?S (Suc (length g))"
  let ?cs = "sort_key snd (map (sensor_distance latitude longitude) ?top)"
  let ?rest = "concat (map (\<lambda>L. sort_key snd (map (sensor_distance latitude longitude)
                                     (cell_ring (g @ [c]) selected ?S L)))
                        (rev [1..<Suc (length g)]))"
  let ?m = "25 - card selected"
  have cand: "candidates latitude longitude (g @ [c]) selected ?S = ?cs @ ?rest"
    by (rule candidates_snoc)
  show ?case
  proof (cases "length (take ?m (takeWhile in_range ?cs)) = length ?cs")
    case False
    then have "take ?m (takeWhile in_range (?cs @ ?rest)) = take ?m (takeWhile in_range ?cs)"
      by (rule take_takeWhile_append_cut)
    with False show ?thesis
      by (simp add: create_sensors_zipcodes_loop_round [OF snoc.prems] cand)
  next
    case True
    note next_round = create_sensors_zipcodes_loop_round_all [OF snoc.prems True]
    let ?sel' = "selected \<union> sensor_id ` set ?top"
    let ?d' = "add_links d zid ?cs"
    have IH: "create_sensors_zipcodes_loop zid latitude longitude g ?sel' ?d' =
        Inr (add_links ?d' zid (take (25 - card ?sel')
               (takeWhile in_range (candidates latitude longitude g ?sel' (sensors ?d')))))"
      using snoc.prems next_round(3) by (intro snoc.IH) simp_all
    have rest: "candidates latitude longitude g ?sel' ?S = ?rest"
      using snoc.prems(1) by (rule candidates_butlast)
    have "create_sensors_zipcodes_loop zid latitude longitude (g @ [c]) selected d =
        Inr (add_links ?d' zid (take (?m - length ?cs) (takeWhile in_range ?rest)))"
      by (simp only: next_round(1,2) IH add_links_frame rest diff_diff_left)
    also have "\<dots> = Inr (add_links d zid (take ?m (takeWhile in_range (?cs @ ?rest))))"
      by (simp only: add_links_append take_takeWhile_all(3) [OF True])
    finally show ?thesis by (simp only: cand)
  qed
qed

lemma links_within_empty: "links_of d zid = [] \<Longrightarrow> links_within d zid {}"
  by (auto simp: links_within_def links_of_def list_all_iff filter_empty_conv)

lemma create_sensors_zipcodes_closed_form:
  assumes "sensors_wf (sensors d)" and "length gh \<le> 12" and "links_of d zid = []"
  shows "create_sensors_zipcodes d zid zipcode latitude longitude gh =
     Inr (add_links d zid (nearest_sensors latitude longitude gh (sensors d)))"
  using create_sensors_zipcodes_loop_closed_form [OF assms(1,2) _ links_within_empty [OF assms(3)],
      of latitude longitude]
  by (simp add: create_sensors_zipcodes_def nearest_sensors_def)


section \<open>What every successful run does\<close>

text \<open>
  The facts of this section need no assumption on the tables: they follow from the
  guards of the inner loop and from the primary key of \<^verbatim>\<open>sensors_zipcodes\<close>.
\<close>

definition selected_linked :: "db \<Rightarrow> int \<Rightarrow> int set \<Rightarrow> bool" where
  "selected_linked d zid selected \<longleftrightarrow>
     finite selected \<and> (\<forall>sid \<in> selected. (sid, zid) \<in> link_key ` set (sensors_zipcodes d))"

lemma selected_linked_empty [simp]: "selected_linked d zid {}"
  by (simp add: selected_linked_def)

lemma selected_linked_insert:
  assumes "selected_linked d zid selected"
  shows "selected_linked (add_links d zid [(sid, distance)]) zid (insert sid selected)"
  using assms by (auto simp: selected_linked_def image_iff intro: bexI [of _ "link_of zid (sid, distance)"])

lemma insert_sensor_zipcode_run:
  assumes "insert_sensor_zipcode d sid zid distance = Inr d1" and "selected_linked d zid selected"
  shows "d1 = add_links d zid [(sid, distance)]" and "sid \<notin> selected"
  using assms by (auto simp: insert_sensor_zipcode_Inr selected_linked_def add_links_def link_of_def)

lemma insert_new_sensors_run:
  assumes "insert_new_sensors zid cs selected d = Inr (exit, selected', d')"
    and "selected_linked d zid selected" and "card selected \<le> 25"
  shows "\<exists>ps. d' = add_links d zid ps \<and> prefix ps cs \<and> list_all in_range ps \<and>
           selected' = selected \<union> fst ` set ps \<and>
           card selected' = card selected + length ps \<and> card selected' \<le> 25 \<and>
           selected_linked d' zid selected'"
  using assms
proof (induction cs arbitrary: selected d)
  case Nil
  then show ?case by (intro exI [of _ "[]"]) simp
next
  case (Cons c cs)
  obtain sid distance where c: "c = (sid, distance)" by (cases c)
  show ?case
  proof (cases "25 \<le> distance \<or> 25 \<le> card selected")
    case True
    with Cons.prems show ?thesis by (intro exI [of _ "[]"]) (auto simp: c split: if_splits)
  next
    case False
    with Cons.prems(1) obtain d1 where
      ins: "insert_sensor_zipcode d sid zid distance = Inr d1" and
      rest: "insert_new_sensors zid cs (insert sid selected) d1 = Inr (exit, selected', d')"
      by (auto simp: c bind_result_eq_Inr)
    note d1 = insert_sensor_zipcode_run [OF ins Cons.prems(2)]
    from Cons.prems(2) have fin: "finite selected" by (simp add: selected_linked_def)
    with d1(2) have card: "card (insert sid selected) = Suc (card selected)" by simp
    have "selected_linked d1 zid (insert sid selected)"
      unfolding d1(1) using Cons.prems(2) by (rule selected_linked_insert)
    moreover from False card have "card (insert sid selected) \<le> 25" by simp
    ultimately obtain ps where ps: "d' = add_links d1 zid ps" "prefix ps cs" "list_all in_range ps"
      "selected' = insert sid selected \<union> fst ` set ps"
      "card selected' = card (insert sid selected) + length ps" "card selected' \<le> 25"
      "selected_linked d' zid selected'"
      using Cons.IH [OF rest] by blast
    from False ps card show ?thesis
      by (intro exI [of _ "(sid, distance) # ps"]) (simp add: c d1(1))
  qed
qed

lemma create_sensors_zipcodes_loop_run:
  assumes "create_sensors_zipcodes_loop zid latitude longitude gh selected d = Inr d'"
    and "selected_linked d zid selected" and "card selected \<le> 25"
  shows "\<exists>ps. d' = add_links d zid ps \<and> list_all in_range ps \<and>
           card (selected \<union> fst ` set ps) = card selected + length ps \<and>
           card selected + length ps \<le> 25"
  using assms
proof (induction gh arbitrary: selected d rule: rev_induct)
  case Nil
  then show ?case by (intro exI [of _ "[]"]) simp
next
  case (snoc c g)
  from snoc.prems(1) obtain cs exit sel1 d1 where
    inner: "insert_new_sensors zid cs selected d = Inr (exit, sel1, d1)" and
    cont: "(case exit of Returned \<Rightarrow> Inr d1
            | Exhausted \<Rightarrow> create_sensors_zipcodes_loop zid latitude longitude g sel1 d1) = Inr d'"
    unfolding create_sensors_zipcodes_loop_snoc by (auto simp: bind_result_eq_Inr)
  from insert_new_sensors_run [OF inner snoc.prems(2,3)] obtain ps where
    ps: "d1 = add_links d zid ps" "list_all in_range ps" "sel1 = selected \<union> fst ` set ps"
      "card sel1 = card selected + length ps" "card sel1 \<le> 25" "selected_linked d1 zid sel1"
    by blast
  show ?case
  proof (cases exit)
    case Returned
    with cont ps show ?thesis by (intro exI [of _ ps]) simp
  next
    case Exhausted
    with cont have "create_sensors_zipcodes_loop zid latitude longitude g sel1 d1 = Inr d'"
      by simp
    from snoc.IH [OF this ps(6,5)] obtain qs where
      qs: "d' = add_links d1 zid qs" "list_all in_range qs"
        "card (sel1 \<union> fst ` set qs) = card sel1 + length qs" "card sel1 + length qs \<le> 25"
      by blast
    from ps qs show ?thesis
      by (intro exI [of _ "ps @ qs"]) (simp add: Un_assoc image_Un)
  qed
qed

section \<open>The candidates as a set\<close>

text \<open>
  The sensors a postal code can reach at all are the ones whose key shares its first
  symbol with the key of the postal code.
\<close>

definition reachable_sensors :: "string \<Rightarrow> sensor_row list \<Rightarrow> sensor_row list" where
  "reachable_sensors gh rows = filter (\<lambda>r. 1 \<le> shared_level gh r) rows"

lemma level_mem: "shared_level gh r \<in> set (rev [1..<Suc (length gh)]) \<longleftrightarrow> 1 \<le> shared_level gh r"
  using shared_level_le [of gh r] by (auto simp del: upt_Suc)

lemma set_candidates:
  "set (candidates latitude longitude gh {} rows) =
     sensor_distance latitude longitude ` set (reachable_sensors gh rows)"
proof -
  have "set (candidates latitude longitude gh {} rows) =
        sensor_distance latitude longitude `
          {r \<in> set rows. shared_level gh r \<in> set (rev [1..<Suc (length gh)])}"
    by (force simp: candidates_def simp del: upt_Suc)
  then show ?thesis by (simp only: level_mem reachable_sensors_def set_filter)
qed

lemma length_candidates:
  "length (candidates latitude longitude gh {} rows) = length (reachable_sensors gh rows)"
proof -
  have "length (candidates latitude longitude gh {} rows) =
        length (concat (map (\<lambda>L. filter (\<lambda>r. shared_level gh r = L \<and> True) rows)
                          (rev [1..<Suc (length gh)])))"
    by (simp add: candidates_def cell_ring_def length_concat comp_def)
  also have "\<dots> = length (filter (\<lambda>r. shared_level gh r \<in> set (rev [1..<Suc (length gh)]) \<and> True) rows)"
    by (rule length_concat_classes) simp
  finally show ?thesis by (simp only: level_mem reachable_sensors_def simp_thms)
qed

lemma set_nearest_sensors_subset:
  "set (nearest_sensors latitude longitude gh rows) \<subseteq>
     {p \<in> sensor_distance latitude longitude ` set (reachable_sensors gh rows). in_range p}"
  unfolding nearest_sensors_def set_candidates [symmetric]
  by (auto dest!: in_set_takeD dest: set_takeWhileD)

lemma nearest_sensors_all:
  assumes "list_all (\<lambda>r. in_range (sensor_distance latitude longitude r)) (reachable_sensors gh rows)"
    and "length (reachable_sensors gh rows) \<le> 25"
  shows "set (nearest_sensors latitude longitude gh rows) =
     sensor_distance latitude longitude ` set (reachable_sensors gh rows)"
proof -
  let ?cs = "candidates latitude longitude gh {} rows"
  from assms(1) have "\<forall>p \<in> set ?cs. in_range p"
    by (auto simp: set_candidates list_all_iff)
  then have tw: "takeWhile in_range ?cs = ?cs" by simp
  from assms(2) have "length ?cs \<le> 25" by (simp add: length_candidates)
  then have "nearest_sensors latitude longitude gh rows = ?cs"
    by (simp add: nearest_sensors_def tw)
  then show ?thesis by (simp add: set_candidates)
qed

section \<open>Keys with more symbols than the table has columns\<close>

lemma create_sensors_zipcodes_long_key:
  assumes "12 < length gh"
  shows "create_sensors_zipcodes d zid zipcode latitude longitude gh = Inl OperationalError"
proof -
  from assms have "gh \<noteq> []" by auto
  then obtain g c where gh: "gh = g @ [c]" by (cases gh rule: rev_cases) auto
  with assms have "select_sensors d (g @ [c]) {} = Inl OperationalError"
    by (intro select_sensors_Inl) simp
  then show ?thesis
    unfolding create_sensors_zipcodes_def gh create_sensors_zipcodes_loop_snoc by simp
qed

section \<open>The order of the candidates\<close>

text \<open>
  The candidates are ordered by ring, innermost first, and by distance within a ring.
  \<open>level_of\<close> reads the ring of a sensor off the table by its id.
\<close>

definition level_of :: "string \<Rightarrow> sensor_row list \<Rightarrow> int \<Rightarrow> nat" where
  "level_of gh rows sid =
     (case find (\<lambda>r. sensor_id r = sid) rows of None \<Rightarrow> 0 | Some r \<Rightarrow> shared_level gh r)"

definition ring_order :: "string \<Rightarrow> sensor_row list \<Rightarrow> int \<times> real \<Rightarrow> int \<times> real \<Rightarrow> bool" where
  "ring_order gh rows p q \<longleftrightarrow>
     level_of gh rows (fst q) < level_of gh rows (fst p) \<or>
     level_of gh rows (fst p) = level_of gh rows (fst q) \<and> snd p \<le> snd q"

lemma level_of_sensor:
  "sensors_wf rows \<Longrightarrow> r \<in> set rows \<Longrightarrow> level_of gh rows (sensor_id r) = shared_level gh r"
  by (simp add: level_of_def sensors_wf_def find_key)

lemma candidates_ring_order:
  assumes "sensors_wf rows"
  shows "sorted_wrt (ring_order gh rows) (candidates latitude longitude gh excl rows)"
proof -
  let ?F = "\<lambda>L. sort_key snd (map (sensor_distance latitude longitude) (cell_ring gh excl rows L))"
  have "sorted_wrt (\<lambda>p q. level_of gh rows (fst q) < level_of gh rows (fst p) \<or>
          level_of gh rows (fst p) = level_of gh rows (fst q) \<and> snd p \<le> snd q)
        (concat (map ?F (rev [1..<Suc (length gh)])))"
  proof (rule sorted_wrt_concat_classes [where lev = id and R = "\<lambda>p q. snd p \<le> snd q"])
    show "sorted_wrt (\<lambda>K L. id L < id K) (rev [1..<Suc (length gh)])"
      by (simp add: sorted_wrt_rev del: upt_Suc)
    show "sorted_wrt (\<lambda>p q. snd p \<le> snd q) (?F L)" for L
      using sorted_sort_key [of snd] by (simp only: sorted_map)
    show "level_of gh rows (fst x) = id L" if "x \<in> set (?F L)" for L x
      using that assms by (auto simp: level_of_sensor)
  qed
  then show ?thesis by (simp only: candidates_def ring_order_def [abs_def])
qed

lemma nearest_sensors_ring_order:
  "sensors_wf rows \<Longrightarrow> sorted_wrt (ring_order gh rows) (nearest_sensors latitude longitude gh rows)"
  unfolding nearest_sensors_def
  by (intro sorted_wrt_take sorted_wrt_takeWhile candidates_ring_order)

section \<open>The invariant of the database\<close>

lemma links_of_add_links:
  "links_of (add_links d zid ps) z =
     links_of d z @ (if z = zid then map (link_of zid) ps else [])"
  by (auto simp: links_of_def filter_map comp_def)

lemma distinct_link_keys_add_links:
  assumes "distinct (map link_key (sensors_zipcodes d))" and "links_of d zid = []"
    and "distinct (map fst ps)"
  shows "distinct (map link_key (sensors_zipcodes (add_links d zid ps)))"
proof -
  have "link_zipcode_id l \<noteq> zid" if "l \<in> set (sensors_zipcodes d)" for l
    using that assms(2) by (auto simp: links_of_def filter_empty_conv)
  moreover have "map link_key (map (link_of zid) ps) = map (\<lambda>s. (s, zid)) (map fst ps)"
    by simp
  moreover have "distinct (map (\<lambda>s. (s, zid)) (map fst ps))"
    using assms(3) by (subst distinct_map) (auto intro: inj_onI)
  ultimately show ?thesis using assms(1) by (simp del: map_map) auto
qed

lemma db_inv_add_links:
  assumes "db_inv d" and "zid \<in> set (zipcode_ids d)" and "links_of d zid = []"
    and "distinct (map fst ps)" and "fst ` set ps \<subseteq> set (sensor_ids d)"
    and "list_all in_range ps" and "length ps \<le> 25"
  shows "db_inv (add_links d zid ps)"
proof -
  have "schema_inv (add_links d zid ps)"
    using assms(1) distinct_link_keys_add_links [OF _ assms(3,4)]
    by (simp add: db_inv_def schema_inv_def)
  moreover have "program_inv (add_links d zid ps)"
    using assms(1,2,3,5,6,7)
    by (auto simp: db_inv_def program_inv_def links_of_add_links list_all_iff)
  ultimately show ?thesis by (simp add: db_inv_def)
qed

lemma db_inv_sensors_wf: "db_inv d \<Longrightarrow> sensors_wf (sensors d)"
  by (simp add: db_inv_def schema_inv_def sensors_wf_def)

lemma nearest_sensors_ids:
  "fst ` set (nearest_sensors latitude longitude gh rows) \<subseteq> sensor_id ` set rows"
  using set_nearest_sensors_subset [of latitude longitude gh rows]
  by (auto simp: reachable_sensors_def)

lemma nearest_sensors_in_range:
  "list_all in_range (nearest_sensors latitude longitude gh rows)"
  using set_nearest_sensors_subset [of latitude longitude gh rows]
  by (auto simp: list_all_iff)

lemma length_nearest_sensors: "length (nearest_sensors latitude longitude gh rows) \<le> 25"
  by (simp add: nearest_sensors_def)

lemma nearest_sensors_no_rows [simp]: "nearest_sensors latitude longitude gh [] = []"
proof -
  have "set (candidates latitude longitude gh {} []) = {}"
    by (simp add: set_candidates reachable_sensors_def)
  then show ?thesis by (simp add: nearest_sensors_def)
qed

lemma distinct_candidates:
  assumes "sensors_wf rows"
  shows "distinct (map fst (candidates latitude longitude gh excl rows))"
proof -
  let ?F = "\<lambda>L. sort_key snd (map (sensor_distance latitude longitude) (cell_ring gh excl rows L))"
  let ?key = "\<lambda>p. level_of gh rows (fst p)"
  have "sorted_wrt (\<lambda>p q. ?key q < ?key p \<or> ?key p = ?key q \<and> fst p \<noteq> fst q)
        (concat (map ?F (rev [1..<Suc (length gh)])))"
  proof (rule sorted_wrt_concat_classes [where lev = id])
    show "sorted_wrt (\<lambda>K L. id L < id K) (rev [1..<Suc (length gh)])"
      by (simp add: sorted_wrt_rev del: upt_Suc)
    show "sorted_wrt (\<lambda>p q. fst p \<noteq> fst q) (?F L)" for L
      using distinct_cell_ring_ids [OF assms, of gh excl L]
      by (simp flip: distinct_map_iff_sorted_wrt)
    show "level_of gh rows (fst x) = id L" if "x \<in> set (?F L)" for L x
      using that assms by (auto simp: level_of_sensor)
  qed
  then have "sorted_wrt (\<lambda>p q. fst p \<noteq> fst q) (candidates latitude longitude gh excl rows)"
    unfolding candidates_def by (rule sorted_wrt_mono_rel [rotated]) auto
  then show ?thesis by (simp add: distinct_map_iff_sorted_wrt)
qed

lemma distinct_nearest_sensors:
  "sensors_wf rows \<Longrightarrow> distinct (map fst (nearest_sensors latitude longitude gh rows))"
  unfolding nearest_sensors_def distinct_map_iff_sorted_wrt
  by (intro sorted_wrt_take sorted_wrt_takeWhile)
    (simp add: distinct_candidates flip: distinct_map_iff_sorted_wrt)

lemma db_inv_nearest_sensors:
  assumes "db_inv d" and "zid \<in> set (zipcode_ids d)" and "links_of d zid = []"
  shows "db_inv (add_links d zid (nearest_sensors latitude longitude gh (sensors d)))"
  using assms nearest_sensors_ids [of latitude longitude gh "sensors d"]
  by (intro db_inv_add_links nearest_sensors_in_range length_nearest_sensors
      distinct_nearest_sensors db_inv_sensors_wf) simp_all

section \<open>The links of one call\<close>

definition new_links :: "db \<Rightarrow> db \<Rightarrow> link_row list" where
  "new_links d d' = drop (length (sensors_zipcodes d)) (sensors_zipcodes d')"

definition matcher_pre :: "db \<Rightarrow> int \<Rightarrow> string \<Rightarrow> bool" where
  "matcher_pre d zid gh \<longleftrightarrow>
     sensors_wf (sensors d) \<and> length gh \<le> 12 \<and> links_of d zid = []"

lemma new_links_add_links [simp]: "new_links d (add_links d zid ps) = map (link_of zid) ps"
  by (simp add: new_links_def)

lemma create_sensors_zipcodes_run:
  assumes "create_sensors_zipcodes d zid zipcode latitude longitude gh = Inr d'"
  obtains ps where "d' = add_links d zid ps" and "list_all in_range ps"
    and "distinct (map fst ps)" and "length ps \<le> 25"
proof -
  from assms have "create_sensors_zipcodes_loop zid latitude longitude gh {} d = Inr d'"
    by (simp add: create_sensors_zipcodes_def)
  then obtain ps where ps: "d' = add_links d zid ps" "list_all in_range ps"
    "card ({} \<union> fst ` set ps) = card {} + length ps" "card {} + length ps \<le> 25"
    using create_sensors_zipcodes_loop_run [of zid latitude longitude gh "{}" d d'] by auto
  from ps(3) have "card (set (map fst ps)) = length (map fst ps)" by simp
  then have "distinct (map fst ps)" by (rule card_distinct)
  with ps that show thesis by simp
qed

lemma create_sensors_zipcodes_pre:
  assumes "matcher_pre d zid gh"
  shows "create_sensors_zipcodes d zid zipcode latitude longitude gh =
     Inr (add_links d zid (nearest_sensors latitude longitude gh (sensors d)))"
  using assms by (simp add: matcher_pre_def create_sensors_zipcodes_closed_form)

section \<open>One ring\<close>

lemma candidates_single_ring:
  assumes "\<forall>r \<in> set (reachable_sensors gh rows). shared_level gh r = L"
  shows "candidates latitude longitude gh {} rows =
     sort_key snd (map (sensor_distance latitude longitude) (reachable_sensors gh rows))"
proof (cases "reachable_sensors gh rows = []")
  case True
  then have "set (candidates latitude longitude gh {} rows) = {}"
    by (simp add: set_candidates)
  with True show ?thesis by simp
next
  case False
  then obtain r where r: "r \<in> set (reachable_sensors gh rows)" by (cases "reachable_sensors gh rows") auto
  with assms have L: "1 \<le> L" "L \<le> length gh"
    using shared_level_le [of gh r] by (auto simp: reachable_sensors_def)
  have ring: "cell_ring gh {} rows K = (if K = L then reachable_sensors gh rows else [])"
    if "1 \<le> K" for K
    using assms that L(1)
    by (auto simp: cell_ring_def reachable_sensors_def filter_empty_conv intro!: filter_cong)
  have "concat (map (\<lambda>K. sort_key snd (map (sensor_distance latitude longitude)
            (cell_ring gh {} rows K))) (rev [1..<Suc (length gh)])) =
        sort_key snd (map (sensor_distance latitude longitude) (cell_ring gh {} rows L))"
    using L by (intro concat_map_single) (auto simp: ring simp del: upt_Suc)
  then show ?thesis using L(1) by (simp add: candidates_def ring)
qed

lemma nearest_sensors_single_ring:
  assumes "\<forall>r \<in> set (reachable_sensors gh rows). shared_level gh r = L"
  shows "nearest_sensors latitude longitude gh rows =
     take 25 (filter in_range
        (sort_key snd (map (sensor_distance latitude longitude) (reachable_sensors gh rows))))"
  by (simp add: nearest_sensors_def candidates_single_ring [OF assms]
      takeWhile_less_sorted_filter)

section \<open>A second call\<close>

lemma create_sensors_zipcodes_loop_linked:
  assumes "sensors_wf (sensors d)" and "length gh \<le> 12"
    and "candidates latitude longitude gh {} (sensors d) = p # ps" and "in_range p"
    and "(fst p, zid) \<in> link_key ` set (sensors_zipcodes d)"
  shows "create_sensors_zipcodes_loop zid latitude longitude gh {} d = Inl IntegrityError"
  using assms(2,3)
proof (induction gh rule: rev_induct)
  case (snoc c g)
  let ?top = "cell_ring (g @ [c]) {} (sensors d) (Suc (length g))"
  let ?batch = "sort_key snd (map (sensor_distance latitude longitude) ?top)"
  have sel: "select_sensors d (g @ [c]) {} =
      Inr (map (\<lambda>r. (sensor_id r, sensor_latitude r, sensor_longitude r)) ?top)"
    using assms(1) snoc.prems(1) select_ring [of "sensors d" "g @ [c]" "{}"]
    by (simp add: select_sensors_Inr)
  have cs: "candidates latitude longitude (g @ [c]) {} (sensors d) =
      ?batch @ candidates latitude longitude g (sensor_id ` set ?top) (sensors d)"
    using candidates_butlast [OF assms(1), of latitude longitude g "{}" c]
    by (simp add: candidates_snoc)
  show ?case
  proof (cases ?batch)
    case Nil
    then have "?top = []" by (metis length_0_conv length_map length_sort)
    with snoc cs Nil show ?thesis
      by (simp add: create_sensors_zipcodes_loop_snoc sel distances_eq)
  next
    case (Cons q qs)
    with cs snoc.prems(2) have "q = p" by simp
    moreover have "insert_new_sensors zid (p # qs) {} d = Inl IntegrityError"
      using assms(4,5) by (cases p) (simp add: insert_sensor_zipcode_def)
    ultimately show ?thesis
      using Cons by (simp add: create_sensors_zipcodes_loop_snoc sel distances_eq)
  qed
qed simp

lemma create_sensors_zipcodes_twice:
  assumes "matcher_pre d zid gh"
    and "nearest_sensors latitude longitude gh (sensors d) \<noteq> []"
  shows "create_sensors_zipcodes
      (add_links d zid (nearest_sensors latitude longitude gh (sensors d)))
      zid zipcode latitude longitude gh = Inl IntegrityError"
proof -
  let ?cs = "candidates latitude longitude gh {} (sensors d)"
  let ?d' = "add_links d zid (nearest_sensors latitude longitude gh (sensors d))"
  from assms(2) obtain p ps where cs: "?cs = p # ps" and p: "in_range p"
    by (cases ?cs) (auto simp: nearest_sensors_def split: if_splits)
  then have "p \<in> set (nearest_sensors latitude longitude gh (sensors d))"
    by (simp add: nearest_sensors_def)
  then have "(fst p, zid) \<in> link_key ` set (sensors_zipcodes ?d')"
    by (auto simp: image_iff intro!: bexI [of _ "link_of zid p"])
  with assms(1) cs p show ?thesis
    unfolding create_sensors_zipcodes_def
    by (intro create_sensors_zipcodes_loop_linked [where p = p and ps = ps])
      (simp_all add: matcher_pre_def)
qed

end
