(* ===== verification/Matcher_Properties.thy ===== *)
theory Matcher_Properties
  imports Matcher
begin

text \<open>
  Properties of \<^verbatim>\<open>create_sensors_zipcodes\<close>, first the ones every successful call
  has, then the ones that hold on a well-formed sensor table, each followed by its
  instance on a database of five sensors on the equator.
\<close>

section \<open>A database of five sensors\<close>

text \<open>
  A postal code on the equator at longitude 0.04 with key \<open>s0000bj0h040\<close>, and five
  sensors on the equator. Sensor 1 shares five symbols with the key and is 0.039 degrees
  away; sensors 2 and 4 share four symbols and are 0.005 and 0.06 degrees away; sensor
  3 shares three symbols and is 0.41 degrees (more than 25 km) away; sensor 5, at
  0.041 degrees on the other side of the prime meridian, shares no symbol.
\<close>

definition example_sensors :: "sensor_row list" where
  "example_sensors =
     [\<lparr>sensor_id = 1, sensor_latitude = 0, sensor_longitude = 1 / 1000,
       sensor_geohash = ''s0000008p218''\<rparr>,
      \<lparr>sensor_id = 2, sensor_latitude = 0, sensor_longitude = 9 / 200,
       sensor_geohash = ''s000100b0842''\<rparr>,
      \<lparr>sensor_id = 3, sensor_latitude = 0, sensor_longitude = 9 / 20,
       sensor_geohash = ''s00240p8jb02''\<rparr>,
      \<lparr>sensor_id = 4, sensor_latitude = 0, sensor_longitude = 1 / 10,
       sensor_geohash = ''s000420b40j2''\<rparr>,
      \<lparr>sensor_id = 5, sensor_latitude = 0, sensor_longitude = - (1 / 1000),
       sensor_geohash = ''ebpbpbp208n2''\<rparr>]"

definition example_db :: db where
  "example_db = empty_db\<lparr>sensors := example_sensors\<rparr>"

abbreviation arc_km :: "real \<Rightarrow> real" where
  "arc_km x \<equiv> 6371 * radians x"

definition example_links :: "(int \<times> real) list" where
  "example_links = [(1, arc_km (39 / 1000)), (2, arc_km (1 / 200)), (4, arc_km (3 / 50))]"

lemma example_candidates:
  "candidates 0 (1 / 25) ''s0000bj0h040'' {} example_sensors =
     [(1, arc_km (39 / 1000)), (2, arc_km (1 / 200)), (4, arc_km (3 / 50)),
      (3, arc_km (41 / 100))]"
  by (simp add: candidates_def cell_ring_def example_sensors_def shared_level_def
      sensor_distance_def great_circle_km_equator upt_rec)

lemma example_nearest:
  "nearest_sensors 0 (1 / 25) ''s0000bj0h040'' example_sensors = example_links"
  by (simp add: nearest_sensors_def example_candidates example_links_def arc_lt_25 arc_ge_25
      not_less)

lemma example_pre: "matcher_pre example_db 1 ''s0000bj0h040''"
  by (simp add: matcher_pre_def sensors_wf_def example_db_def example_sensors_def
      links_of_def empty_db_def)

lemma example_run:
  "create_sensors_zipcodes example_db 1 ''00000'' 0 (1 / 25) ''s0000bj0h040'' =
     Inr (add_links example_db 1 example_links)"
proof -
  have "sensors example_db = example_sensors" by (simp add: example_db_def)
  with create_sensors_zipcodes_pre [OF example_pre, of "''00000''" 0 "1 / 25"]
  show ?thesis by (simp add: example_nearest)
qed

section \<open>Every successful call\<close>

text \<open>
  Claim C2. Every link that a successful call of \<^verbatim>\<open>create_sensors_zipcodes\<close> inserts
  has a distance of less than 25 km, whatever the tables hold.
\<close>

theorem create_sensors_zipcodes_radius:
  assumes "create_sensors_zipcodes d zid zipcode latitude longitude gh = Inr d'"
  shows "list_all (\<lambda>l. link_distance l < 25) (new_links d d')"
proof -
  from assms obtain ps where "d' = add_links d zid ps" and "list_all in_range ps"
    by (rule create_sensors_zipcodes_run)
  then show ?thesis by (simp add: list_all_iff)
qed

theorem create_sensors_zipcodes_radius_witness:
  "create_sensors_zipcodes example_db 1 ''00000'' 0 (1 / 25) ''s0000bj0h040'' =
     Inr (add_links example_db 1 example_links) \<and>
   list_all (\<lambda>l. link_distance l < 25) (new_links example_db (add_links example_db 1 example_links))"
  using create_sensors_zipcodes_radius [OF example_run] example_run by simp

text \<open>
  Claim C3. A successful call inserts at most 25 links.
\<close>

theorem create_sensors_zipcodes_count:
  assumes "create_sensors_zipcodes d zid zipcode latitude longitude gh = Inr d'"
  shows "length (new_links d d') \<le> 25"
proof -
  from assms obtain ps where "d' = add_links d zid ps" and "length ps \<le> 25"
    by (rule create_sensors_zipcodes_run)
  then show ?thesis by simp
qed

theorem create_sensors_zipcodes_count_witness:
  "create_sensors_zipcodes example_db 1 ''00000'' 0 (1 / 25) ''s0000bj0h040'' =
     Inr (add_links example_db 1 example_links) \<and>
   length (new_links example_db (add_links example_db 1 example_links)) \<le> 25"
  using create_sensors_zipcodes_count [OF example_run] example_run by simp

text \<open>
  Claim C35. A successful call changes nothing but the table \<^verbatim>\<open>sensors_zipcodes\<close>,
  keeps the rows that table had, appends rows of the given postal code only, and links
  no sensor twice.
\<close>

theorem create_sensors_zipcodes_frame:
  assumes "create_sensors_zipcodes d zid zipcode latitude longitude gh = Inr d'"
  shows "sensors d' = sensors d \<and> zipcodes d' = zipcodes d \<and> zipcodes_seq d' = zipcodes_seq d \<and>
         cities d' = cities d \<and> cities_seq d' = cities_seq d \<and>
         sensors_zipcodes d' = sensors_zipcodes d @ new_links d d' \<and>
         list_all (\<lambda>l. link_zipcode_id l = zid) (new_links d d') \<and>
         distinct (map link_sensor_id (new_links d d'))"
proof -
  from assms obtain ps where "d' = add_links d zid ps" and "distinct (map fst ps)"
    by (rule create_sensors_zipcodes_run)
  then show ?thesis by (simp add: list_all_iff comp_def)
qed

theorem create_sensors_zipcodes_frame_witness:
  "create_sensors_zipcodes example_db 1 ''00000'' 0 (1 / 25) ''s0000bj0h040'' =
     Inr (add_links example_db 1 example_links) \<and>
   sensors (add_links example_db 1 example_links) = sensors example_db \<and>
   sensors_zipcodes (add_links example_db 1 example_links) =
     sensors_zipcodes example_db @ new_links example_db (add_links example_db 1 example_links) \<and>
   distinct (map link_sensor_id (new_links example_db (add_links example_db 1 example_links)))"
  using create_sensors_zipcodes_frame [OF example_run] example_run by simp

section \<open>On a well-formed sensor table\<close>

text \<open>
  Claim C1. On a sensor table with distinct ids and 12 key symbols per row, for a key of
  at most 12 symbols and a postal code with no links yet, \<^verbatim>\<open>create_sensors_zipcodes\<close>
  returns, and it appends exactly the links of \<open>nearest_sensors\<close>, in that order.
\<close>

theorem create_sensors_zipcodes_nearest:
  assumes "matcher_pre d zid gh"
  shows "create_sensors_zipcodes d zid zipcode latitude longitude gh =
     Inr (add_links d zid (nearest_sensors latitude longitude gh (sensors d)))"
  using assms by (rule create_sensors_zipcodes_pre)

theorem create_sensors_zipcodes_nearest_witness:
  "matcher_pre example_db 1 ''s0000bj0h040'' \<and>
   create_sensors_zipcodes example_db 1 ''00000'' 0 (1 / 25) ''s0000bj0h040'' =
     Inr (add_links example_db 1 [(1, arc_km (39 / 1000)), (2, arc_km (1 / 200)),
                                  (4, arc_km (3 / 50))])"
  using create_sensors_zipcodes_nearest [OF example_pre, of "''00000''" 0 "1 / 25"] example_pre
  by (simp add: example_nearest example_links_def example_db_def)

text \<open>
  Claim C25. On a sensor table with distinct ids and 12 key symbols per row, and for a
  postal code without links, \<^verbatim>\<open>create_sensors_zipcodes\<close> fails exactly when the key
  has more than 12 symbols, and the error is the \<^verbatim>\<open>OperationalError\<close> of the query
  that names a column the table does not have.
\<close>

theorem create_sensors_zipcodes_error:
  assumes "sensors_wf (sensors d)" and "links_of d zid = []"
  shows "create_sensors_zipcodes d zid zipcode latitude longitude gh = Inl e \<longleftrightarrow>
     12 < length gh \<and> e = OperationalError"
proof (cases "12 < length gh")
  case True
  then show ?thesis by (auto simp: create_sensors_zipcodes_long_key)
next
  case False
  with assms have "matcher_pre d zid gh" by (simp add: matcher_pre_def)
  with False show ?thesis by (simp add: create_sensors_zipcodes_pre)
qed

theorem create_sensors_zipcodes_error_witness:
  "sensors_wf (sensors example_db) \<and> links_of example_db 1 = [] \<and>
   create_sensors_zipcodes example_db 1 ''00000'' 0 (1 / 25) ''s0000bj0h0400'' =
     Inl OperationalError"
  using create_sensors_zipcodes_error [of example_db 1 "''00000''" 0 "1 / 25"
      "''s0000bj0h0400''" OperationalError] example_pre
  by (simp add: matcher_pre_def)

text \<open>
  Claim C10. Soundness: every link of the call belongs to a sensor of the table whose key
  shares at least the first symbol with the key of the postal code, and it stores the
  great-circle distance between that sensor and the postal code.
\<close>

theorem create_sensors_zipcodes_sound:
  assumes "matcher_pre d zid gh"
  shows "\<exists>d'. create_sensors_zipcodes d zid zipcode latitude longitude gh = Inr d' \<and>
     (\<forall>l \<in> set (new_links d d'). \<exists>r \<in> set (sensors d).
        link_sensor_id l = sensor_id r \<and> 1 \<le> shared_level gh r \<and>
        link_distance l =
          great_circle_km longitude latitude (sensor_longitude r) (sensor_latitude r))"
proof -
  have "\<exists>r \<in> set (sensors d). fst p = sensor_id r \<and> 1 \<le> shared_level gh r \<and>
          snd p = great_circle_km longitude latitude (sensor_longitude r) (sensor_latitude r)"
    if "p \<in> set (nearest_sensors latitude longitude gh (sensors d))" for p
  proof -
    from that set_nearest_sensors_subset [of latitude longitude gh "sensors d"]
    obtain r where "r \<in> set (reachable_sensors gh (sensors d))"
      and "p = sensor_distance latitude longitude r" by auto
    then show ?thesis by (auto simp: reachable_sensors_def sensor_distance_def)
  qed
  then show ?thesis
    by (auto simp: create_sensors_zipcodes_pre [OF assms])
qed

theorem create_sensors_zipcodes_sound_witness:
  "matcher_pre example_db 1 ''s0000bj0h040'' \<and>
   (\<exists>d'. create_sensors_zipcodes example_db 1 ''00000'' 0 (1 / 25) ''s0000bj0h040'' = Inr d' \<and>
     (\<forall>l \<in> set (new_links example_db d'). \<exists>r \<in> set (sensors example_db).
        link_sensor_id l = sensor_id r \<and> 1 \<le> shared_level ''s0000bj0h040'' r \<and>
        link_distance l =
          great_circle_km (1 / 25) 0 (sensor_longitude r) (sensor_latitude r)))"
  using create_sensors_zipcodes_sound [OF example_pre, of "''00000''" 0 "1 / 25"] example_pre
  by simp

text \<open>
  Claim C9. Completeness (scenario A of the specification): when the sensors that share
  the first symbol of the key are at most 25 and all closer than 25 km, every one of
  them is linked.
\<close>

theorem create_sensors_zipcodes_complete:
  assumes "matcher_pre d zid gh"
    and "list_all (\<lambda>r. in_range (sensor_distance latitude longitude r))
           (reachable_sensors gh (sensors d))"
    and "length (reachable_sensors gh (sensors d)) \<le> 25"
  shows "\<exists>d'. create_sensors_zipcodes d zid zipcode latitude longitude gh = Inr d' \<and>
     link_sensor_id ` set (new_links d d') = sensor_id ` set (reachable_sensors gh (sensors d))"
  using nearest_sensors_all [OF assms(2,3)]
  by (simp add: create_sensors_zipcodes_pre [OF assms(1)] image_image)

definition example_near_db :: db where
  "example_near_db = empty_db\<lparr>sensors := filter (\<lambda>r. sensor_id r \<noteq> 3) example_sensors\<rparr>"

lemma example_near_pre: "matcher_pre example_near_db 1 ''s0000bj0h040''"
  by (simp add: matcher_pre_def sensors_wf_def example_near_db_def example_sensors_def
      links_of_def empty_db_def)

lemma example_near_reachable:
  "map sensor_id (reachable_sensors ''s0000bj0h040'' (sensors example_near_db)) = [1, 2, 4]"
  by (simp add: reachable_sensors_def example_near_db_def example_sensors_def shared_level_def)

lemma example_near_in_range:
  "list_all (\<lambda>r. in_range (sensor_distance 0 (1 / 25) r))
     (reachable_sensors ''s0000bj0h040'' (sensors example_near_db))"
  by (simp add: reachable_sensors_def example_near_db_def example_sensors_def shared_level_def
      sensor_distance_def great_circle_km_equator arc_lt_25)

theorem create_sensors_zipcodes_complete_witness:
  "matcher_pre example_near_db 1 ''s0000bj0h040'' \<and>
   (\<exists>d'. create_sensors_zipcodes example_near_db 1 ''00000'' 0 (1 / 25) ''s0000bj0h040'' = Inr d' \<and>
      link_sensor_id ` set (new_links example_near_db d') = {1, 2, 4})"
proof -
  have "length (reachable_sensors ''s0000bj0h040'' (sensors example_near_db)) \<le> 25"
    using arg_cong [OF example_near_reachable, of length] by simp
  from create_sensors_zipcodes_complete [OF example_near_pre example_near_in_range this,
      of "''00000''"]
  show ?thesis
    using example_near_pre arg_cong [OF example_near_reachable, of set] by simp
qed

text \<open>
  Claim C26. The links of a call are ordered by ring, the sensors that share more leading
  symbols with the key first, and by ascending distance within a ring.
\<close>

theorem create_sensors_zipcodes_order:
  assumes "matcher_pre d zid gh"
  shows "\<exists>d'. create_sensors_zipcodes d zid zipcode latitude longitude gh = Inr d' \<and>
     sorted_wrt (\<lambda>k l. ring_order gh (sensors d) (link_sensor_id k, link_distance k)
                           (link_sensor_id l, link_distance l)) (new_links d d')"
  using assms nearest_sensors_ring_order [of "sensors d" gh latitude longitude]
  by (simp add: create_sensors_zipcodes_pre [OF assms] sorted_wrt_map matcher_pre_def)

theorem create_sensors_zipcodes_order_witness:
  "matcher_pre example_db 1 ''s0000bj0h040'' \<and>
   (\<exists>d'. create_sensors_zipcodes example_db 1 ''00000'' 0 (1 / 25) ''s0000bj0h040'' = Inr d' \<and>
     sorted_wrt (\<lambda>k l. ring_order ''s0000bj0h040'' (sensors example_db)
                           (link_sensor_id k, link_distance k)
                           (link_sensor_id l, link_distance l)) (new_links example_db d'))"
  using create_sensors_zipcodes_order [OF example_pre, of "''00000''" 0 "1 / 25"] example_pre
  by simp



text \<open>
  Claim C11. The call keeps the invariant of the database: keys stay unique, every link
  names a sensor and a postal code of the tables and is shorter than 25 km, and no
  postal code has more than 25 links.
\<close>

theorem create_sensors_zipcodes_db_inv:
  assumes "db_inv d" and "zid \<in> set (zipcode_ids d)" and "links_of d zid = []"
    and "length gh \<le> 12"
  shows "\<exists>d'. create_sensors_zipcodes d zid zipcode latitude longitude gh = Inr d' \<and> db_inv d'"
proof -
  from assms have "matcher_pre d zid gh"
    by (simp add: matcher_pre_def db_inv_sensors_wf)
  with assms(1-3) show ?thesis
    by (simp add: create_sensors_zipcodes_pre db_inv_nearest_sensors)
qed

definition example_zip_db :: db where
  "example_zip_db = example_db
     \<lparr>zipcodes := [\<lparr>zipcode_id = 1, zipcode_city_id = 1, zipcode_code = ''00000'',
                     zipcode_latitude = 0, zipcode_longitude = 1 / 25,
                     zipcode_geohash = ''s0000bj0h040''\<rparr>],
      zipcodes_seq := 1,
      cities := [\<lparr>city_id = 1, city_name = ''Equator'', city_state_code = ''EQ''\<rparr>],
      cities_seq := 1\<rparr>"

lemma example_zip_db_inv: "db_inv example_zip_db"
  by (simp add: db_inv_defs example_zip_db_def example_db_def example_sensors_def empty_db_def
      links_of_def)

theorem create_sensors_zipcodes_db_inv_witness:
  "db_inv example_zip_db \<and> 1 \<in> set (zipcode_ids example_zip_db) \<and>
   links_of example_zip_db 1 = [] \<and>
   (\<exists>d'. create_sensors_zipcodes example_zip_db 1 ''00000'' 0 (1 / 25) ''s0000bj0h040'' = Inr d' \<and>
      db_inv d')"
proof -
  have "1 \<in> set (zipcode_ids example_zip_db)" and "links_of example_zip_db 1 = []"
    by (simp_all add: example_zip_db_def example_db_def empty_db_def links_of_def)
  from create_sensors_zipcodes_db_inv [OF example_zip_db_inv this, of "''s0000bj0h040''"
      "''00000''" 0 "1 / 25"] this example_zip_db_inv
  show ?thesis by simp
qed

text \<open>
  Claim C39. Scenario B of the specification: when the sensors that share the first
  symbol of the key all share the same number of symbols with it, the links are the
  sensors closer than 25 km in ascending order of distance, cut after the 25 nearest.
\<close>

theorem create_sensors_zipcodes_single_ring:
  assumes "matcher_pre d zid gh"
    and "\<forall>r \<in> set (reachable_sensors gh (sensors d)). shared_level gh r = L"
  shows "\<exists>d'. create_sensors_zipcodes d zid zipcode latitude longitude gh = Inr d' \<and>
     map (\<lambda>l. (link_sensor_id l, link_distance l)) (new_links d d') =
       take 25 (filter in_range (sort_key snd
          (map (sensor_distance latitude longitude) (reachable_sensors gh (sensors d)))))"
  by (simp add: create_sensors_zipcodes_pre [OF assms(1)] nearest_sensors_single_ring [OF assms(2)]
      comp_def)

theorem create_sensors_zipcodes_single_ring_witness:
  "matcher_pre example_near_db 1 ''s000'' \<and>
   list_all (\<lambda>r. shared_level ''s000'' r = 4)
     (reachable_sensors ''s000'' (sensors example_near_db)) \<and>
   (\<exists>d'. create_sensors_zipcodes example_near_db 1 ''00000'' 0 (1 / 25) ''s000'' = Inr d' \<and>
      map (\<lambda>l. (link_sensor_id l, link_distance l)) (new_links example_near_db d') =
        [(2, arc_km (1 / 200)), (1, arc_km (39 / 1000)), (4, arc_km (3 / 50))])"
proof -
  have pre: "matcher_pre example_near_db 1 ''s000''"
    by (simp add: matcher_pre_def sensors_wf_def example_near_db_def example_sensors_def
        links_of_def)
  have ring: "\<forall>r \<in> set (reachable_sensors ''s000'' (sensors example_near_db)).
      shared_level ''s000'' r = 4"
    by (simp add: reachable_sensors_def example_near_db_def example_sensors_def shared_level_def)
  from create_sensors_zipcodes_single_ring [OF pre ring, of "''00000''" 0 "1 / 25"] pre ring
  show ?thesis
    by (simp add: list_all_iff reachable_sensors_def example_near_db_def example_sensors_def shared_level_def
        sensor_distance_def great_circle_km_equator arc_lt_25)
qed

text \<open>
  Claim C40. A second call for the same postal code is not idempotent: after a call that
  has inserted at least one link, the same call on the database it returned raises
  \<open>IntegrityError\<close> at its first insert.
\<close>

theorem create_sensors_zipcodes_again:
  assumes "matcher_pre d zid gh"
    and "create_sensors_zipcodes d zid zipcode latitude longitude gh = Inr d'"
    and "new_links d d' \<noteq> []"
  shows "create_sensors_zipcodes d' zid zipcode latitude longitude gh = Inl IntegrityError"
proof -
  from assms(2) have d': "d' = add_links d zid (nearest_sensors latitude longitude gh (sensors d))"
    by (simp add: create_sensors_zipcodes_pre [OF assms(1)])
  with assms(3) have "nearest_sensors latitude longitude gh (sensors d) \<noteq> []" by simp
  with assms(1) show ?thesis unfolding d' by (rule create_sensors_zipcodes_twice)
qed

theorem create_sensors_zipcodes_again_witness:
  "matcher_pre example_db 1 ''s0000bj0h040'' \<and>
   create_sensors_zipcodes example_db 1 ''00000'' 0 (1 / 25) ''s0000bj0h040'' =
     Inr (add_links example_db 1 example_links) \<and>
   create_sensors_zipcodes (add_links example_db 1 example_links) 1 ''00000'' 0 (1 / 25)
     ''s0000bj0h040'' = Inl IntegrityError"
proof -
  have "new_links example_db (add_links example_db 1 example_links) \<noteq> []"
    by (simp add: example_links_def)
  from create_sensors_zipcodes_again [OF example_pre example_run this] example_pre example_run
  show ?thesis by simp
qed

end
