(* ===== verification/Geohash.thy ===== *)
theory Geohash
  imports AirQ_Prelude
begin

text \<open>
  The spatial key. \<^verbatim>\<open>build.py\<close> calls \<^verbatim>\<open>geohash.encode(latitude, longitude)\<close> of a
  library that is not part of the repository (lines 210 and 272); this theory models it
  from the specification of the SpatialKey component: 12 symbols of a base-32 alphabet,
  each symbol five steps of a bisection that alternates between longitude and latitude,
  longitude first, and \<open>InvalidCoordinate\<close> outside the geographic range.

  \<^item> \<open>geohash_bits\<close> is the bisection, \<open>symbols\<close> groups its bits by five,
    \<open>geohash_encode_prec\<close> is the encoder at a given number of symbols and
    \<open>geohash_encode\<close> the encoder the program calls.
  \<^item> \<open>geohash_cell\<close> reads a key back as the rectangle it names.
  \<^item> The lemmas show that a key has 12 symbols of the alphabet, that the key of a
    shorter precision is a prefix of the key, that every prefix names a rectangle that
    contains the point, and how the rectangles shrink.
\<close>

section \<open>Intervals and bisection\<close>

type_synonym interval = "real \<times> real"

definition in_interval :: "real \<Rightarrow> interval \<Rightarrow> bool" where
  "in_interval x iv \<longleftrightarrow> fst iv \<le> x \<and> x \<le> snd iv"

definition width :: "interval \<Rightarrow> real" where
  "width iv = snd iv - fst iv"

definition upper_half :: "real \<Rightarrow> interval \<Rightarrow> bool" where
  "upper_half x iv \<longleftrightarrow> (fst iv + snd iv) / 2 \<le> x"

definition refine :: "bool \<Rightarrow> interval \<Rightarrow> interval" where
  "refine b iv = (if b then ((fst iv + snd iv) / 2, snd iv) else (fst iv, (fst iv + snd iv) / 2))"

fun geohash_bits :: "nat \<Rightarrow> bool \<Rightarrow> real \<Rightarrow> real \<Rightarrow> interval \<Rightarrow> interval \<Rightarrow> bool list" where
  "geohash_bits 0 lon_turn lat lon lat_iv lon_iv = []"
| "geohash_bits (Suc n) lon_turn lat lon lat_iv lon_iv =
     (if lon_turn then
        let b = upper_half lon lon_iv
        in b # geohash_bits n False lat lon lat_iv (refine b lon_iv)
      else
        let b = upper_half lat lat_iv
        in b # geohash_bits n True lat lon (refine b lat_iv) lon_iv)"

section \<open>Symbols\<close>

definition base32 :: string where
  "base32 = ''0123456789bcdefghjkmnpqrstuvwxyz''"

definition bits_value :: "bool list \<Rightarrow> nat" where
  "bits_value bs = foldl (\<lambda>n b. 2 * n + (if b then 1 else 0)) 0 bs"

definition symbol_of :: "bool list \<Rightarrow> char" where
  "symbol_of bs = base32 ! bits_value bs"

fun symbols :: "bool list \<Rightarrow> string" where
  "symbols (b1 # b2 # b3 # b4 # b5 # bs) = symbol_of [b1, b2, b3, b4, b5] # symbols bs"
| "symbols bs = []"

fun index_of :: "'a \<Rightarrow> 'a list \<Rightarrow> nat option" where
  "index_of x [] = None"
| "index_of x (y # ys) = (if x = y then Some 0 else map_option Suc (index_of x ys))"

definition bits5 :: "nat \<Rightarrow> bool list" where
  "bits5 n = map (\<lambda>i. odd (n div 2 ^ i)) [4, 3, 2, 1, 0]"

definition bits_of_symbol :: "char \<Rightarrow> bool list option" where
  "bits_of_symbol c = map_option bits5 (index_of c base32)"

fun bits_of_key :: "string \<Rightarrow> bool list option" where
  "bits_of_key [] = Some []"
| "bits_of_key (c # cs) =
     (case bits_of_symbol c of
        None \<Rightarrow> None
      | Some bs \<Rightarrow> map_option ((@) bs) (bits_of_key cs))"

section \<open>Encoder and cells\<close>

abbreviation world_lat :: interval where "world_lat \<equiv> (- 90, 90)"
abbreviation world_lon :: interval where "world_lon \<equiv> (- 180, 180)"

definition geohash_encode_prec :: "nat \<Rightarrow> real \<Rightarrow> real \<Rightarrow> string result" where
  "geohash_encode_prec precision latitude longitude =
     (if \<not> in_interval latitude world_lat \<or> \<not> in_interval longitude world_lon
      then Inl InvalidCoordinate
      else Inr (symbols (geohash_bits (5 * precision) True latitude longitude
                           world_lat world_lon)))"

definition geohash_encode :: "real \<Rightarrow> real \<Rightarrow> string result" where
  "geohash_encode = geohash_encode_prec 12"

fun cell_of_bits :: "bool list \<Rightarrow> bool \<Rightarrow> interval \<Rightarrow> interval \<Rightarrow> interval \<times> interval" where
  "cell_of_bits [] lon_turn lat_iv lon_iv = (lat_iv, lon_iv)"
| "cell_of_bits (b # bs) lon_turn lat_iv lon_iv =
     (if lon_turn then cell_of_bits bs False lat_iv (refine b lon_iv)
      else cell_of_bits bs True (refine b lat_iv) lon_iv)"

definition geohash_cell :: "string \<Rightarrow> (interval \<times> interval) option" where
  "geohash_cell key = map_option (\<lambda>bs. cell_of_bits bs True world_lat world_lon) (bits_of_key key)"

definition in_cell :: "real \<Rightarrow> real \<Rightarrow> interval \<times> interval \<Rightarrow> bool" where
  "in_cell latitude longitude cell \<longleftrightarrow>
     in_interval latitude (fst cell) \<and> in_interval longitude (snd cell)"

section \<open>Bits\<close>

lemma length_geohash_bits [simp]:
  "length (geohash_bits n lon_turn lat lon lat_iv lon_iv) = n"
  by (induction n arbitrary: lon_turn lat_iv lon_iv) (simp_all add: Let_def)

lemma take_geohash_bits:
  "k \<le> n \<Longrightarrow> take k (geohash_bits n lon_turn lat lon lat_iv lon_iv) =
     geohash_bits k lon_turn lat lon lat_iv lon_iv"
proof (induction k arbitrary: n lon_turn lat_iv lon_iv)
  case (Suc k)
  then obtain m where "n = Suc m" and "k \<le> m" by (cases n) auto
  with Suc.IH show ?case by (simp add: Let_def)
qed simp

lemma in_interval_refine:
  "in_interval x iv \<Longrightarrow> in_interval x (refine (upper_half x iv) iv)"
  by (auto simp: in_interval_def refine_def upper_half_def)

lemma width_refine [simp]: "width (refine b iv) = width iv / 2"
  by (simp add: width_def refine_def field_simps)

lemma cell_of_geohash_bits:
  assumes "in_interval lat lat_iv" and "in_interval lon lon_iv"
  shows "in_cell lat lon (cell_of_bits (geohash_bits n lon_turn lat lon lat_iv lon_iv) lon_turn lat_iv lon_iv)"
  using assms
proof (induction n arbitrary: lon_turn lat_iv lon_iv)
  case (Suc n)
  then show ?case by (cases lon_turn) (simp_all add: Let_def in_interval_refine)
qed (simp add: in_cell_def)

lemma width_cell_of_bits:
  "width (fst (cell_of_bits bs True lat_iv lon_iv)) = width lat_iv / 2 ^ (length bs div 2)"
  "width (snd (cell_of_bits bs True lat_iv lon_iv)) = width lon_iv / 2 ^ ((length bs + 1) div 2)"
  "width (fst (cell_of_bits bs False lat_iv lon_iv)) = width lat_iv / 2 ^ ((length bs + 1) div 2)"
  "width (snd (cell_of_bits bs False lat_iv lon_iv)) = width lon_iv / 2 ^ (length bs div 2)"
  by (induction bs arbitrary: lat_iv lon_iv rule: induct_list012) simp_all

section \<open>Symbols and keys\<close>

lemma length_symbols [simp]: "length (symbols bs) = length bs div 5"
  by (induction bs rule: symbols.induct) simp_all

lemma take5_Cons:
  "take (5 + m) (b1 # b2 # b3 # b4 # b5 # bs) = b1 # b2 # b3 # b4 # b5 # take m bs"
  by (simp add: eval_nat_numeral)

lemma dvd5_Suc5: "5 dvd Suc (Suc (Suc (Suc (Suc n)))) \<longleftrightarrow> 5 dvd n"
  by presburger

lemma take_symbols: "take k (symbols bs) = symbols (take (5 * k) bs)"
proof (induction bs arbitrary: k rule: symbols.induct)
  case (1 b1 b2 b3 b4 b5 bs)
  then show ?case by (cases k) (simp_all add: take5_Cons)
qed (simp_all add: take_Cons')

lemma list5:
  assumes "length bs = 5"
  obtains b1 b2 b3 b4 b5 where "bs = [b1, b2, b3, b4, b5]"
  using assms by (auto simp: length_Suc_conv eval_nat_numeral)

lemma bits_of_symbol_of [simp]:
  "bits_of_symbol (symbol_of [b1, b2, b3, b4, b5]) = Some [b1, b2, b3, b4, b5]"
  by (cases b1; cases b2; cases b3; cases b4; cases b5;
      simp add: bits_of_symbol_def symbol_of_def bits_value_def base32_def bits5_def)

lemma symbol_of_alphabet [simp]: "symbol_of [b1, b2, b3, b4, b5] \<in> set base32"
  by (cases b1; cases b2; cases b3; cases b4; cases b5;
      simp add: symbol_of_def bits_value_def base32_def)

lemma bits_of_key_symbols:
  "5 dvd length bs \<Longrightarrow> bits_of_key (symbols bs) = Some bs"
proof (induction bs rule: symbols.induct)
  case (1 b1 b2 b3 b4 b5 bs)
  then show ?case by (simp add: dvd5_Suc5)
qed (simp; presburger)+

lemma set_symbols: "set (symbols bs) \<subseteq> set base32"
  by (induction bs rule: symbols.induct) simp_all

section \<open>The encoder\<close>

lemma geohash_encode_prec_Inr:
  "in_interval latitude world_lat \<Longrightarrow> in_interval longitude world_lon \<Longrightarrow>
   geohash_encode_prec n latitude longitude =
     Inr (symbols (geohash_bits (5 * n) True latitude longitude world_lat world_lon))"
  by (simp add: geohash_encode_prec_def)

lemma geohash_encode_prec_Inl:
  "\<not> (in_interval latitude world_lat \<and> in_interval longitude world_lon) \<Longrightarrow>
   geohash_encode_prec n latitude longitude = Inl InvalidCoordinate"
  by (auto simp: geohash_encode_prec_def)

lemma geohash_encode_prec_cases:
  obtains (valid) "in_interval latitude world_lat" "in_interval longitude world_lon"
      "geohash_encode_prec n latitude longitude =
         Inr (symbols (geohash_bits (5 * n) True latitude longitude world_lat world_lon))"
  | (invalid) "\<not> (in_interval latitude world_lat \<and> in_interval longitude world_lon)"
      "geohash_encode_prec n latitude longitude = Inl InvalidCoordinate"
  by (cases "in_interval latitude world_lat \<and> in_interval longitude world_lon")
    (auto simp: geohash_encode_prec_def)

lemma geohash_bits_numeral:
  "geohash_bits (numeral k) lon_turn lat lon lat_iv lon_iv =
     (if lon_turn then
        upper_half lon lon_iv #
        geohash_bits (pred_numeral k) False lat lon lat_iv (refine (upper_half lon lon_iv) lon_iv)
      else
        upper_half lat lat_iv #
        geohash_bits (pred_numeral k) True lat lon (refine (upper_half lat lat_iv) lat_iv) lon_iv)"
  by (simp add: numeral_eq_Suc Let_def)

lemmas geohash_eval =
  geohash_encode_def geohash_encode_prec_def geohash_bits_numeral in_interval_def
  upper_half_def refine_def symbol_of_def bits_value_def base32_def Let_def

section \<open>Properties of the encoder\<close>

lemma geohash_encode_prec_key:
  assumes "geohash_encode_prec n latitude longitude = Inr key"
  shows "key = symbols (geohash_bits (5 * n) True latitude longitude world_lat world_lon)"
    and "in_interval latitude world_lat" and "in_interval longitude world_lon"
  using assms by (auto simp: geohash_encode_prec_def split: if_splits)

lemma geohash_encode_prec_length:
  assumes "geohash_encode_prec n latitude longitude = Inr key"
  shows "length key = n" and "set key \<subseteq> set base32"
  by (simp_all add: geohash_encode_prec_key(1) [OF assms] set_symbols)

lemma geohash_encode_prec_take:
  assumes "geohash_encode_prec n latitude longitude = Inr key" and "L \<le> n"
  shows "geohash_encode_prec L latitude longitude = Inr (take L key)"
  using assms(2) geohash_encode_prec_key(2,3) [OF assms(1)]
  by (simp add: geohash_encode_prec_key(1) [OF assms(1)] geohash_encode_prec_Inr take_symbols
      take_geohash_bits)

lemma geohash_cell_take:
  assumes "geohash_encode_prec n latitude longitude = Inr key" and "L \<le> n"
  shows "geohash_cell (take L key) =
     Some (cell_of_bits (geohash_bits (5 * L) True latitude longitude world_lat world_lon)
             True world_lat world_lon)"
  using assms(2)
  by (simp add: geohash_encode_prec_key(1) [OF assms(1)] geohash_cell_def take_symbols
      take_geohash_bits bits_of_key_symbols)

lemma example_key: "geohash_encode 0 (1 / 25) = Inr ''s0000bj0h040''"
  by (simp add: geohash_eval)

lemma example_key_sf:
  "geohash_encode (377749 / 10000) (- (1224194 / 10000)) = Inr ''9q8yyk8ytpxr''"
  by (simp add: geohash_eval)

text \<open>
  A key has exactly 12 symbols, all of the base-32 alphabet.
\<close>

lemma geohash_encode_length:
  assumes "geohash_encode latitude longitude = Inr key"
  shows "length key = 12 \<and> set key \<subseteq> set base32"
  using assms geohash_encode_prec_length [of 12 latitude longitude key]
  by (simp add: geohash_encode_def)

lemma geohash_encode_length_example:
  "geohash_encode 0 (1 / 25) = Inr ''s0000bj0h040'' \<and>
   length ''s0000bj0h040'' = 12 \<and> set ''s0000bj0h040'' \<subseteq> set base32"
  using geohash_encode_length [OF example_key] example_key by simp

text \<open>
  The encoder fails exactly on a latitude outside \<open>[-90, 90]\<close> or a longitude
  outside \<open>[-180, 180]\<close>, and then with \<open>InvalidCoordinate\<close>.
\<close>

lemma geohash_encode_error:
  "geohash_encode latitude longitude = Inl e \<longleftrightarrow>
     (latitude < - 90 \<or> 90 < latitude \<or> longitude < - 180 \<or> 180 < longitude) \<and>
     e = InvalidCoordinate"
  unfolding geohash_encode_def
  by (cases rule: geohash_encode_prec_cases [of latitude longitude 12])
    (auto simp: in_interval_def)

text \<open>
  The key at a precision of \<open>L\<close> symbols is the prefix of length \<open>L\<close> of the
  key of 12 symbols.
\<close>

lemma geohash_encode_prefix:
  assumes "geohash_encode latitude longitude = Inr key" and "L \<le> 12"
  shows "geohash_encode_prec L latitude longitude = Inr (take L key)"
  using assms unfolding geohash_encode_def by (rule geohash_encode_prec_take)

lemma geohash_encode_prefix_example:
  "geohash_encode 0 (1 / 25) = Inr ''s0000bj0h040'' \<and> (4::nat) \<le> 12 \<and>
   geohash_encode_prec 4 0 (1 / 25) = Inr ''s000''"
  using geohash_encode_prefix [OF example_key, of 4] example_key by simp

text \<open>
  Every prefix of the key of a point names a rectangle that contains the point.
\<close>

lemma geohash_cell_contains:
  assumes "geohash_encode latitude longitude = Inr key" and "L \<le> 12"
  shows "\<exists>cell. geohash_cell (take L key) = Some cell \<and> in_cell latitude longitude cell"
  using assms geohash_encode_prec_key(2,3) [of 12 latitude longitude key]
  by (simp add: geohash_encode_def geohash_cell_take cell_of_geohash_bits)

lemma geohash_cell_contains_example:
  "geohash_encode 0 (1 / 25) = Inr ''s0000bj0h040'' \<and> (1::nat) \<le> 12 \<and>
   (\<exists>cell. geohash_cell ''s'' = Some cell \<and> in_cell 0 (1 / 25) cell)"
  using geohash_cell_contains [OF example_key, of 1] example_key by simp

text \<open>
  The rectangle of a prefix of \<open>L\<close> symbols is 180 degrees of latitude divided
  by 2 to the power \<open>5L div 2\<close> high and 360 degrees of longitude divided by 2 to the
  power \<open>(5L + 1) div 2\<close> wide: every further symbol makes it smaller.
\<close>

lemma geohash_cell_width:
  assumes "geohash_encode latitude longitude = Inr key" and "L \<le> 12"
  shows "\<exists>cell. geohash_cell (take L key) = Some cell \<and>
     width (fst cell) = 180 / 2 ^ (5 * L div 2) \<and>
     width (snd cell) = 360 / 2 ^ ((5 * L + 1) div 2)"
  using assms
  by (simp add: geohash_encode_def geohash_cell_take width_cell_of_bits) (simp add: width_def)

lemma geohash_cell_width_example:
  "geohash_encode 0 (1 / 25) = Inr ''s0000bj0h040'' \<and> (1::nat) \<le> 12 \<and>
   (\<exists>cell. geohash_cell ''s'' = Some cell \<and> width (fst cell) = 45 \<and> width (snd cell) = 45)"
  using geohash_cell_width [OF example_key, of 1] example_key by simp

end
