(* ===== verification/Zipcodes.thy ===== *)
theory Zipcodes
  imports Matcher
begin

text \<open>
  The loader of postal codes: \<^verbatim>\<open>create_city\<close> (lines 187 to 197) and
  \<^verbatim>\<open>create_zipcodes\<close> (lines 200 to 229) of \<^verbatim>\<open>src/src/build.py\<close>.

  \<^item> \<open>create_city\<close> looks a city up by name and state and inserts it when it is missing.
  \<^item> \<open>create_zipcode\<close> is the body of the loop of \<^verbatim>\<open>create_zipcodes\<close>: one record of
    the feed, on a connection of its own, committed at the end. \<open>create_zipcodes\<close> is
    the loop: it returns the database as committed and the exception that stopped it,
    if any. What the failing iteration wrote before it failed is not committed and so
    is not in the result.
  \<^item> The encoder of spatial keys is a library behind \<^verbatim>\<open>geohash.encode\<close>; the loader
    takes it as an argument, and its lemmas ask of it only that a key has 12 symbols
    (\<open>encoder_wf\<close>).
\<close>

section \<open>The code\<close>

type_synonym zip_record = "string \<times> string \<times> string \<times> real \<times> real"

type_synonym encoder = "real \<Rightarrow> real \<Rightarrow> string result"

definition create_city :: "db \<Rightarrow> string \<Rightarrow> string \<Rightarrow> int \<times> db" where
  "create_city cur name state =
     (case select_city cur name state of
        Some cid \<Rightarrow> (cid, cur)
      | None \<Rightarrow> insert_city cur name state)"

definition create_zipcode :: "encoder \<Rightarrow> db \<Rightarrow> zip_record \<Rightarrow> db result" where
  "create_zipcode encode d rec =
     (case rec of (zipcode, name, state, latitude, longitude) \<Rightarrow>
        case create_city d name state of (cid, cur) \<Rightarrow>
          bind_result (encode latitude longitude) (\<lambda>gh.
          bind_result (insert_zipcode cur zipcode cid
                         (py_round latitude 6) (py_round longitude 6) gh)
            (\<lambda>(zid, cur).
               create_sensors_zipcodes cur zid zipcode latitude longitude gh)))"

fun create_zipcodes :: "encoder \<Rightarrow> db \<Rightarrow> zip_record list \<Rightarrow> db \<times> error option" where
  "create_zipcodes encode d [] = (d, None)"
| "create_zipcodes encode d (rec # recs) =
     (case create_zipcode encode d rec of
        Inl e \<Rightarrow> (d, Some e)
      | Inr d' \<Rightarrow> create_zipcodes encode d' recs)"

definition encoder_wf :: "encoder \<Rightarrow> bool" where
  "encoder_wf encode \<longleftrightarrow> (\<forall>latitude longitude key.
     encode latitude longitude = Inr key \<longrightarrow> length key = 12)"

section \<open>Cities\<close>

lemma insert_city_frame [simp, frame]:
  "sensors (snd (insert_city d name state)) = sensors d"
  "zipcodes (snd (insert_city d name state)) = zipcodes d"
  "zipcodes_seq (snd (insert_city d name state)) = zipcodes_seq d"
  "sensors_zipcodes (snd (insert_city d name state)) = sensors_zipcodes d"
  by (simp_all add: insert_city_def Let_def)

lemma cities_insert_city:
  "cities (snd (insert_city d name state)) =
     cities d @ [\<lparr>city_id = fst (insert_city d name state), city_name = name,
                  city_state_code = state\<rparr>]"
  "cities_seq (snd (insert_city d name state)) = fst (insert_city d name state)"
  "fst (insert_city d name state) = next_rowid (cities_seq d) (city_ids d)"
  by (simp_all add: insert_city_def Let_def)

lemma create_city_cases:
  obtains (found) cid where "select_city d name state = Some cid"
      "create_city d name state = (cid, d)"
  | (created) "select_city d name state = None"
      "create_city d name state = insert_city d name state"
  by (cases "select_city d name state") (auto simp: create_city_def)

lemma select_city_insert_city:
  assumes "select_city d name state = None"
  shows "select_city (snd (insert_city d name state)) name state =
     Some (fst (insert_city d name state))"
proof -
  from assms have "filter (\<lambda>c. city_name c = name \<and> city_state_code c = state) (cities d) = []"
    by (simp add: select_city_def split: list.splits)
  then show ?thesis by (simp add: select_city_def cities_insert_city)
qed

lemma create_city_frame [simp, frame]:
  "sensors (snd (create_city d name state)) = sensors d"
  "zipcodes (snd (create_city d name state)) = zipcodes d"
  "zipcodes_seq (snd (create_city d name state)) = zipcodes_seq d"
  "sensors_zipcodes (snd (create_city d name state)) = sensors_zipcodes d"
  by (rule create_city_cases [of d name state]; simp)+

lemma select_city_create_city:
  "select_city (snd (create_city d name state)) name state = Some (fst (create_city d name state))"
  by (rule create_city_cases [of d name state]) (simp_all add: select_city_insert_city)

lemma db_inv_insert_city:
  assumes "db_inv d" and "select_city d name state = None"
  shows "db_inv (snd (insert_city d name state))"
proof -
  have fresh: "next_rowid (cities_seq d) (city_ids d) \<notin> set (city_ids d)"
    by (rule next_rowid_fresh)
  have key: "(name, state) \<notin> city_key ` set (cities d)"
    using assms(2) select_city_None by auto
  have le: "city_id c \<le> next_rowid (cities_seq d) (city_ids d)" if "c \<in> set (cities d)" for c
    using next_rowid_gt [of "city_id c" "city_ids d" "cities_seq d"] that by auto
  show ?thesis
    using assms(1) fresh key le
    by (auto simp: db_inv_defs cities_insert_city list_all_iff links_of_def)
qed

lemma db_inv_create_city: "db_inv d \<Longrightarrow> db_inv (snd (create_city d name state))"
  by (rule create_city_cases [of d name state]) (simp_all add: db_inv_insert_city)

section \<open>One postal code\<close>

text \<open>
  \<open>zipcode_added\<close> is the database after a successful iteration, as a closed form: the
  city is looked up or created, the postal code gets the next rowid, and it is linked
  to its nearest sensors.
\<close>

definition zipcode_row_of :: "int \<Rightarrow> int \<Rightarrow> zip_record \<Rightarrow> string \<Rightarrow> zipcode_row" where
  "zipcode_row_of zid cid rec gh =
     (case rec of (zipcode, name, state, latitude, longitude) \<Rightarrow>
        \<lparr>zipcode_id = zid, zipcode_city_id = cid, zipcode_code = zipcode,
         zipcode_latitude = py_round latitude 6, zipcode_longitude = py_round longitude 6,
         zipcode_geohash = gh\<rparr>)"

definition zipcode_added :: "db \<Rightarrow> zip_record \<Rightarrow> string \<Rightarrow> db" where
  "zipcode_added d rec gh =
     (case rec of (zipcode, name, state, latitude, longitude) \<Rightarrow>
        let (cid, d1) = create_city d name state;
            zid = next_rowid (zipcodes_seq d) (zipcode_ids d);
            d2 = d1\<lparr>zipcodes := zipcodes d @ [zipcode_row_of zid cid rec gh],
                    zipcodes_seq := zid\<rparr>
        in add_links d2 zid (nearest_sensors latitude longitude gh (sensors d)))"

lemma insert_zipcode_Inr:
  assumes "length gh = 12" and "zipcode \<notin> zipcode_code ` set (zipcodes d)"
  shows "insert_zipcode d zipcode cid lat lon gh =
     Inr (next_rowid (zipcodes_seq d) (zipcode_ids d),
          d\<lparr>zipcodes := zipcodes d @
               [\<lparr>zipcode_id = next_rowid (zipcodes_seq d) (zipcode_ids d),
                 zipcode_city_id = cid, zipcode_code = zipcode, zipcode_latitude = lat,
                 zipcode_longitude = lon, zipcode_geohash = gh\<rparr>],
             zipcodes_seq := next_rowid (zipcodes_seq d) (zipcode_ids d)\<rparr>)"
  using assms by (simp add: insert_zipcode_def Let_def)

lemma insert_zipcode_Inl:
  "length gh \<noteq> 12 \<Longrightarrow> insert_zipcode d zipcode cid lat lon gh = Inl ProgrammingError"
  "length gh = 12 \<Longrightarrow> zipcode \<in> zipcode_code ` set (zipcodes d) \<Longrightarrow>
     insert_zipcode d zipcode cid lat lon gh = Inl IntegrityError"
  by (simp_all add: insert_zipcode_def)

lemma links_of_fresh:
  assumes "db_inv d" and "zid \<notin> set (zipcode_ids d)"
  shows "links_of d zid = []"
  using assms by (auto simp: db_inv_defs links_of_def filter_empty_conv list_all_iff)

lemma db_inv_append_zipcode:
  assumes "db_inv d" and "cid \<in> set (city_ids d)" and "length gh = 12"
    and "zipcode \<notin> zipcode_code ` set (zipcodes d)"
  defines "zid \<equiv> next_rowid (zipcodes_seq d) (zipcode_ids d)"
  shows "db_inv (d\<lparr>zipcodes := zipcodes d @
               [\<lparr>zipcode_id = zid, zipcode_city_id = cid, zipcode_code = zipcode,
                 zipcode_latitude = lat, zipcode_longitude = lon, zipcode_geohash = gh\<rparr>],
             zipcodes_seq := zid\<rparr>)"
proof -
  have fresh: "zid \<notin> set (zipcode_ids d)"
    unfolding zid_def by (rule next_rowid_fresh)
  have le: "zipcode_id z \<le> zid" if "z \<in> set (zipcodes d)" for z
    using next_rowid_gt [of "zipcode_id z" "zipcode_ids d" "zipcodes_seq d"] that
    by (auto simp: zid_def)
  have no_links: "links_of d zid = []"
    using assms(1) fresh by (rule links_of_fresh)
  show ?thesis
    using assms(1-4) fresh le no_links
    by (auto simp: db_inv_defs list_all_iff links_of_def)
qed

lemma create_city_id_mem:
  "fst (create_city d name state) \<in> set (city_ids (snd (create_city d name state)))"
proof -
  from select_city_Some [OF select_city_create_city [of d name state]]
  obtain c where "c \<in> set (cities (snd (create_city d name state)))"
    and "city_id c = fst (create_city d name state)" by blast
  then show ?thesis by (auto simp: image_iff intro!: bexI [of _ c])
qed

lemma zipcode_added_steps:
  fixes lat lon :: real
  assumes "db_inv d" and "length gh = 12" and "zipcode \<notin> zipcode_code ` set (zipcodes d)"
    and "create_city d name state = (cid, d1)"
  defines "zid \<equiv> next_rowid (zipcodes_seq d) (zipcode_ids d)"
  obtains d2 where "insert_zipcode d1 zipcode cid lat lon gh = Inr (zid, d2)"
    and "d2 = d1\<lparr>zipcodes := zipcodes d @
               [\<lparr>zipcode_id = zid, zipcode_city_id = cid, zipcode_code = zipcode,
                 zipcode_latitude = lat, zipcode_longitude = lon, zipcode_geohash = gh\<rparr>],
             zipcodes_seq := zid\<rparr>"
    and "db_inv d2" and "zid \<in> set (zipcode_ids d2)" and "links_of d2 zid = []"
    and "sensors d2 = sensors d"
proof
  let ?d2 = "d1\<lparr>zipcodes := zipcodes d @
               [\<lparr>zipcode_id = zid, zipcode_city_id = cid, zipcode_code = zipcode,
                 zipcode_latitude = lat, zipcode_longitude = lon, zipcode_geohash = gh\<rparr>],
             zipcodes_seq := zid\<rparr>"
  have d1: "db_inv d1" "zipcodes d1 = zipcodes d" "zipcodes_seq d1 = zipcodes_seq d"
    "sensors d1 = sensors d" "sensors_zipcodes d1 = sensors_zipcodes d" "cid \<in> set (city_ids d1)"
    using db_inv_create_city [OF assms(1), of name state] create_city_frame [of d name state]
      create_city_id_mem [of d name state] assms(4) by simp_all
  show "insert_zipcode d1 zipcode cid lat lon gh = Inr (zid, ?d2)"
    using assms(2,3) by (simp add: insert_zipcode_Inr d1 zid_def)
  show "db_inv ?d2"
    using db_inv_append_zipcode [OF d1(1) d1(6) assms(2), of zipcode lat lon] assms(3)
    by (simp add: d1 zid_def)
  show "zid \<in> set (zipcode_ids ?d2)" and "sensors ?d2 = sensors d"
    by (simp_all add: d1)
  have "links_of d zid = []"
    using assms(1) unfolding zid_def by (intro links_of_fresh next_rowid_fresh)
  then show "links_of ?d2 zid = []"
    by (simp add: links_of_def d1)
qed simp

lemma create_zipcode_closed_form:
  assumes "db_inv d" and "encode latitude longitude = Inr gh" and "length gh = 12"
    and "zipcode \<notin> zipcode_code ` set (zipcodes d)"
  shows "create_zipcode encode d (zipcode, name, state, latitude, longitude) =
     Inr (zipcode_added d (zipcode, name, state, latitude, longitude) gh)"
proof -
  obtain cid d1 where city: "create_city d name state = (cid, d1)"
    by (cases "create_city d name state")
  from zipcode_added_steps [OF assms(1,3,4) city, of "py_round latitude 6" "py_round longitude 6"]
  obtain d2 where steps:
    "insert_zipcode d1 zipcode cid (py_round latitude 6) (py_round longitude 6) gh =
       Inr (next_rowid (zipcodes_seq d) (zipcode_ids d), d2)"
    "d2 = d1\<lparr>zipcodes := zipcodes d @
       [\<lparr>zipcode_id = next_rowid (zipcodes_seq d) (zipcode_ids d), zipcode_city_id = cid,
         zipcode_code = zipcode, zipcode_latitude = py_round latitude 6,
         zipcode_longitude = py_round longitude 6, zipcode_geohash = gh\<rparr>],
       zipcodes_seq := next_rowid (zipcodes_seq d) (zipcode_ids d)\<rparr>"
    "db_inv d2" "links_of d2 (next_rowid (zipcodes_seq d) (zipcode_ids d)) = []"
    "sensors d2 = sensors d"
    by blast
  from steps(3,4) assms(3)
  have "matcher_pre d2 (next_rowid (zipcodes_seq d) (zipcode_ids d)) gh"
    by (simp add: matcher_pre_def db_inv_sensors_wf)
  from create_sensors_zipcodes_pre [OF this, of zipcode latitude longitude] show ?thesis
    by (simp add: create_zipcode_def city assms(2) steps(1,5))
      (simp add: steps(2) zipcode_added_def city zipcode_row_of_def Let_def)
qed

lemma db_inv_zipcode_added:
  assumes "db_inv d" and "length gh = 12" and "zipcode \<notin> zipcode_code ` set (zipcodes d)"
  shows "db_inv (zipcode_added d (zipcode, name, state, latitude, longitude) gh)"
proof -
  obtain cid d1 where city: "create_city d name state = (cid, d1)"
    by (cases "create_city d name state")
  from zipcode_added_steps [OF assms city, of "py_round latitude 6" "py_round longitude 6"]
  obtain d2 where steps:
    "d2 = d1\<lparr>zipcodes := zipcodes d @
       [\<lparr>zipcode_id = next_rowid (zipcodes_seq d) (zipcode_ids d), zipcode_city_id = cid,
         zipcode_code = zipcode, zipcode_latitude = py_round latitude 6,
         zipcode_longitude = py_round longitude 6, zipcode_geohash = gh\<rparr>],
       zipcodes_seq := next_rowid (zipcodes_seq d) (zipcode_ids d)\<rparr>"
    "db_inv d2" "next_rowid (zipcodes_seq d) (zipcode_ids d) \<in> set (zipcode_ids d2)"
    "links_of d2 (next_rowid (zipcodes_seq d) (zipcode_ids d)) = []"
    "sensors d2 = sensors d"
    by blast
  from db_inv_nearest_sensors [OF steps(2,3,4), of latitude longitude gh] show ?thesis
    by (simp add: steps(5)) (simp add: steps(1) zipcode_added_def city zipcode_row_of_def Let_def)
qed

lemma create_zipcode_encode_error:
  "encode latitude longitude = Inl e \<Longrightarrow>
     create_zipcode encode d (zipcode, name, state, latitude, longitude) = Inl e"
  by (cases "create_city d name state") (simp add: create_zipcode_def)

lemma create_zipcode_insert_error:
  assumes "encode latitude longitude = Inr gh"
    and "insert_zipcode (snd (create_city d name state)) zipcode (fst (create_city d name state))
           (py_round latitude 6) (py_round longitude 6) gh = Inl e"
  shows "create_zipcode encode d (zipcode, name, state, latitude, longitude) = Inl e"
  using assms by (cases "create_city d name state") (simp add: create_zipcode_def)

lemma create_zipcode_duplicate:
  assumes "encode latitude longitude = Inr gh" and "length gh = 12"
    and "zipcode \<in> zipcode_code ` set (zipcodes d)"
  shows "create_zipcode encode d (zipcode, name, state, latitude, longitude) = Inl IntegrityError"
proof (rule create_zipcode_insert_error [of encode latitude longitude gh, OF assms(1)])
  show "insert_zipcode (snd (create_city d name state)) zipcode (fst (create_city d name state))
          (py_round latitude 6) (py_round longitude 6) gh = Inl IntegrityError"
    using assms(2,3) by (intro insert_zipcode_Inl(2)) simp_all
qed

lemma create_zipcode_cases:
  assumes "db_inv d" and "encoder_wf encode"
  obtains (encode_error) e where "encode latitude longitude = Inl e"
      "create_zipcode encode d (zipcode, name, state, latitude, longitude) = Inl e"
  | (duplicate) gh where "encode latitude longitude = Inr gh"
      "zipcode \<in> zipcode_code ` set (zipcodes d)"
      "create_zipcode encode d (zipcode, name, state, latitude, longitude) = Inl IntegrityError"
  | (added) gh where "encode latitude longitude = Inr gh" "length gh = 12"
      "zipcode \<notin> zipcode_code ` set (zipcodes d)"
      "create_zipcode encode d (zipcode, name, state, latitude, longitude) =
         Inr (zipcode_added d (zipcode, name, state, latitude, longitude) gh)"
proof (cases "encode latitude longitude")
  case (Inl e)
  then show ?thesis by (rule encode_error) (simp add: create_zipcode_encode_error Inl)
next
  case (Inr gh)
  with assms(2) have len: "length gh = 12" by (auto simp: encoder_wf_def)
  show ?thesis
  proof (cases "zipcode \<in> zipcode_code ` set (zipcodes d)")
    case True
    with Inr len show ?thesis by (intro duplicate create_zipcode_duplicate)
  next
    case False
    with Inr len assms(1) show ?thesis by (intro added create_zipcode_closed_form)
  qed
qed

lemma db_inv_create_zipcode:
  assumes "db_inv d" and "encoder_wf encode" and "create_zipcode encode d rec = Inr d'"
  shows "db_inv d'"
proof -
  obtain zipcode name state latitude longitude
    where rec: "rec = (zipcode, name, state, latitude, longitude)"
    by (cases rec)
  from assms(1,2) show ?thesis
  proof (cases rule: create_zipcode_cases [of d encode latitude longitude zipcode name state])
    case (added gh)
    with assms(1,3) show ?thesis by (auto simp: rec db_inv_zipcode_added)
  qed (use assms(3) in \<open>simp_all add: rec\<close>)
qed

section \<open>The loop over the feed\<close>

lemma create_zipcodes_append:
  "create_zipcodes encode d (xs @ ys) =
     (case create_zipcodes encode d xs of
        (d', None) \<Rightarrow> create_zipcodes encode d' ys
      | (d', Some e) \<Rightarrow> (d', Some e))"
  by (induction xs arbitrary: d) (auto split: sum.splits)

lemma db_inv_create_zipcodes:
  "db_inv d \<Longrightarrow> encoder_wf encode \<Longrightarrow> db_inv (fst (create_zipcodes encode d recs))"
proof (induction recs arbitrary: d)
  case (Cons rec recs)
  then show ?case
    by (cases "create_zipcode encode d rec") (auto dest: db_inv_create_zipcode)
qed simp

text \<open>
  \<open>feed_ok\<close> says when the loop runs to its end: every record has coordinates the
  encoder accepts and a postal code that is new, in the table and in the feed so far.
\<close>

fun feed_ok :: "encoder \<Rightarrow> string set \<Rightarrow> zip_record list \<Rightarrow> bool" where
  "feed_ok encode codes [] \<longleftrightarrow> True"
| "feed_ok encode codes ((zipcode, name, state, latitude, longitude) # recs) \<longleftrightarrow>
     ok (encode latitude longitude) \<and> zipcode \<notin> codes \<and>
     feed_ok encode (insert zipcode codes) recs"

lemma create_city_eqD:
  "create_city d name state = (cid, d1) \<Longrightarrow>
   sensors d1 = sensors d \<and> zipcodes d1 = zipcodes d \<and> zipcodes_seq d1 = zipcodes_seq d \<and>
   sensors_zipcodes d1 = sensors_zipcodes d"
  using create_city_frame [of d name state] by simp

lemma zipcode_added_frame [simp, frame]:
  "sensors (zipcode_added d rec gh) = sensors d"
  "zipcodes (zipcode_added d (zipcode, name, state, latitude, longitude) gh) =
     zipcodes d @ [zipcode_row_of (next_rowid (zipcodes_seq d) (zipcode_ids d))
                     (fst (create_city d name state))
                     (zipcode, name, state, latitude, longitude) gh]"
  "cities (zipcode_added d (zipcode, name, state, latitude, longitude) gh) =
     cities (snd (create_city d name state))"
  "zipcodes_seq (zipcode_added d rec gh) = next_rowid (zipcodes_seq d) (zipcode_ids d)"
  by (auto simp: zipcode_added_def Let_def split: prod.splits dest: create_city_eqD)

lemma zipcode_code_row_of [simp]: "zipcode_code (zipcode_row_of zid cid rec gh) = fst rec"
  by (cases rec) (simp add: zipcode_row_of_def)

lemma feed_ok_distinct:
  "feed_ok encode codes recs \<longleftrightarrow>
     list_all (\<lambda>(zipcode, name, state, latitude, longitude). ok (encode latitude longitude)) recs \<and>
     distinct (map fst recs) \<and> fst ` set recs \<inter> codes = {}"
  by (induction encode codes recs rule: feed_ok.induct) auto

lemma create_zipcodes_feed_ok:
  assumes "db_inv d" and "encoder_wf encode"
  shows "snd (create_zipcodes encode d recs) = None \<longleftrightarrow>
     feed_ok encode (zipcode_code ` set (zipcodes d)) recs"
  using assms(1)
proof (induction recs arbitrary: d)
  case (Cons rec recs)
  obtain zipcode name state latitude longitude
    where rec: "rec = (zipcode, name, state, latitude, longitude)"
    by (cases rec)
  from Cons.prems assms(2) show ?case
  proof (cases rule: create_zipcode_cases [of d encode latitude longitude zipcode name state])
    case (added gh)
    then have "db_inv (zipcode_added d rec gh)"
      using Cons.prems by (simp add: rec db_inv_zipcode_added)
    from Cons.IH [OF this] added show ?thesis by (simp add: rec)
  qed (simp_all add: rec)
qed simp

lemma create_zipcodes_success_induct [consumes 3, case_names Nil Cons]:
  assumes "db_inv d" and "encoder_wf encode" and "create_zipcodes encode d recs = (d', None)"
    and "\<And>d. db_inv d \<Longrightarrow> P d [] d"
    and "\<And>d zipcode name state latitude longitude gh recs d'.
      db_inv d \<Longrightarrow> encode latitude longitude = Inr gh \<Longrightarrow> length gh = 12 \<Longrightarrow>
      zipcode \<notin> zipcode_code ` set (zipcodes d) \<Longrightarrow>
      create_zipcodes encode (zipcode_added d (zipcode, name, state, latitude, longitude) gh) recs =
        (d', None) \<Longrightarrow>
      P (zipcode_added d (zipcode, name, state, latitude, longitude) gh) recs d' \<Longrightarrow>
      P d ((zipcode, name, state, latitude, longitude) # recs) d'"
  shows "P d recs d'"
  using assms(1,3)
proof (induction recs arbitrary: d)
  case Nil
  then show ?case by (simp add: assms(4))
next
  case (Cons rec recs)
  obtain zipcode name state latitude longitude
    where rec: "rec = (zipcode, name, state, latitude, longitude)"
    by (cases rec)
  from Cons.prems(1) assms(2) show ?case
  proof (cases rule: create_zipcode_cases [of d encode latitude longitude zipcode name state])
    case (added gh)
    then have inv: "db_inv (zipcode_added d rec gh)"
      using Cons.prems by (simp add: rec db_inv_zipcode_added)
    from added Cons.prems(2)
    have run: "create_zipcodes encode (zipcode_added d rec gh) recs = (d', None)"
      by (simp add: rec)
    from Cons.prems(1) added(1-3) run Cons.IH [OF inv run] show ?thesis
      unfolding rec by (rule assms(5))
  qed (use Cons.prems(2) in \<open>simp_all add: rec\<close>)
qed

lemma create_zipcodes_codes:
  assumes "db_inv d" and "encoder_wf encode"
    and "create_zipcodes encode d recs = (d', None)"
  shows "map zipcode_code (zipcodes d') = map zipcode_code (zipcodes d) @ map fst recs \<and>
     sensors d' = sensors d"
  using assms by (induction rule: create_zipcodes_success_induct) simp_all

section \<open>Cities of postal codes\<close>

definition zipcode_in_city :: "db \<Rightarrow> string \<Rightarrow> string \<Rightarrow> string \<Rightarrow> bool" where
  "zipcode_in_city d zipcode name state \<longleftrightarrow>
     (\<exists>z \<in> set (zipcodes d). zipcode_code z = zipcode \<and>
        (\<exists>c \<in> set (cities d). city_id c = zipcode_city_id z \<and>
           city_name c = name \<and> city_state_code c = state))"

lemma create_city_again:
  "create_city (snd (create_city d name state)) name state = create_city d name state"
  using select_city_create_city [of d name state]
  by (cases "create_city d name state") (simp add: create_city_def)

lemma create_city_row:
  obtains c where "c \<in> set (cities (snd (create_city d name state)))"
    and "city_id c = fst (create_city d name state)"
    and "city_name c = name" and "city_state_code c = state"
  using select_city_Some [OF select_city_create_city [of d name state]] by blast

lemma cities_create_city_prefix: "prefix (cities d) (cities (snd (create_city d name state)))"
  by (rule create_city_cases [of d name state]) (simp_all add: cities_insert_city)

lemma db_inv_city_id_inj: "db_inv d \<Longrightarrow> inj_on city_id (set (cities d))"
  by (simp add: db_inv_defs distinct_map)

lemma db_inv_city_key_inj: "db_inv d \<Longrightarrow> inj_on city_key (set (cities d))"
  by (simp add: db_inv_defs distinct_map)

lemma create_city_ids_agree:
  assumes "db_inv d"
  shows "fst (create_city (snd (create_city d name state)) name' state') =
           fst (create_city d name state) \<longleftrightarrow> name' = name \<and> state' = state"
proof
  let ?d1 = "snd (create_city d name state)"
  let ?d2 = "snd (create_city ?d1 name' state')"
  assume eq: "fst (create_city ?d1 name' state') = fst (create_city d name state)"
  obtain c1 where c1: "c1 \<in> set (cities ?d1)" "city_id c1 = fst (create_city d name state)"
    "city_name c1 = name" "city_state_code c1 = state"
    by (rule create_city_row)
  obtain c2 where c2: "c2 \<in> set (cities ?d2)" "city_id c2 = fst (create_city ?d1 name' state')"
    "city_name c2 = name'" "city_state_code c2 = state'"
    by (rule create_city_row)
  from c1(1) cities_create_city_prefix [of ?d1 name' state'] have "c1 \<in> set (cities ?d2)"
    by (auto dest: set_mono_prefix)
  moreover have "inj_on city_id (set (cities ?d2))"
    using assms by (intro db_inv_city_id_inj db_inv_create_city)
  moreover have "city_id c1 = city_id c2" by (simp add: c1(2) c2(2) eq)
  ultimately have "c1 = c2" using c2(1) by (simp add: inj_on_eq_iff)
  with c1 c2 show "name' = name \<and> state' = state" by simp
qed (simp add: create_city_again)

lemma zipcode_in_city_added:
  "zipcode_in_city (zipcode_added d (zipcode, name, state, latitude, longitude) gh)
     zipcode name state"
proof -
  obtain c where "c \<in> set (cities (snd (create_city d name state)))"
    and "city_id c = fst (create_city d name state)"
    and "city_name c = name" and "city_state_code c = state"
    by (rule create_city_row)
  then show ?thesis
    by (auto simp: zipcode_in_city_def zipcode_row_of_def intro!: bexI [of _ c])
qed

lemma zipcode_in_city_mono:
  assumes "zipcode_in_city d zipcode name state"
  shows "zipcode_in_city (zipcode_added d (zipcode', name', state', latitude, longitude) gh)
     zipcode name state"
  using assms cities_create_city_prefix [of d name' state']
  by (fastforce simp: zipcode_in_city_def dest: set_mono_prefix)

lemma create_zipcodes_cities:
  assumes "db_inv d" and "encoder_wf encode" and "create_zipcodes encode d recs = (d', None)"
  shows "(\<forall>zipcode name state. zipcode_in_city d zipcode name state \<longrightarrow>
            zipcode_in_city d' zipcode name state) \<and>
         list_all (\<lambda>(zipcode, name, state, latitude, longitude).
            zipcode_in_city d' zipcode name state) recs"
  using assms
  by (induction rule: create_zipcodes_success_induct)
    (simp_all add: zipcode_in_city_added zipcode_in_city_mono)

section \<open>Links of postal codes\<close>

text \<open>
  \<open>zipcode_linked\<close>: the postal code is in the table with the key of its coordinates,
  and its links are the nearest sensors of the table, in their order.
\<close>

definition zipcode_linked :: "encoder \<Rightarrow> db \<Rightarrow> string \<Rightarrow> real \<Rightarrow> real \<Rightarrow> bool" where
  "zipcode_linked encode d zipcode latitude longitude \<longleftrightarrow>
     (\<exists>z \<in> set (zipcodes d). zipcode_code z = zipcode \<and>
        encode latitude longitude = Inr (zipcode_geohash z) \<and>
        links_of d (zipcode_id z) =
          map (link_of (zipcode_id z))
            (nearest_sensors latitude longitude (zipcode_geohash z) (sensors d)))"

lemma sensors_zipcodes_zipcode_added:
  "sensors_zipcodes (zipcode_added d (zipcode, name, state, latitude, longitude) gh) =
     sensors_zipcodes d @ map (link_of (next_rowid (zipcodes_seq d) (zipcode_ids d)))
       (nearest_sensors latitude longitude gh (sensors d))"
  by (auto simp: zipcode_added_def Let_def split: prod.splits dest: create_city_eqD)

lemma links_of_zipcode_added:
  assumes "db_inv d"
  shows "links_of (zipcode_added d (zipcode, name, state, latitude, longitude) gh) zid =
     (if zid = next_rowid (zipcodes_seq d) (zipcode_ids d)
      then map (link_of zid) (nearest_sensors latitude longitude gh (sensors d))
      else links_of d zid)"
proof -
  have "links_of d (next_rowid (zipcodes_seq d) (zipcode_ids d)) = []"
    using assms by (intro links_of_fresh next_rowid_fresh)
  then show ?thesis
    by (auto simp: links_of_def sensors_zipcodes_zipcode_added filter_map comp_def
        filter_empty_conv)
qed

lemma zipcode_linked_added:
  assumes "db_inv d" and "encode latitude longitude = Inr gh"
  shows "zipcode_linked encode (zipcode_added d (zipcode, name, state, latitude, longitude) gh)
     zipcode latitude longitude"
  using assms(2)
  by (auto simp: zipcode_linked_def links_of_zipcode_added [OF assms(1)] zipcode_row_of_def)

lemma zipcode_linked_mono:
  assumes "db_inv d" and "zipcode_linked encode d zipcode latitude longitude"
  shows "zipcode_linked encode
     (zipcode_added d (zipcode', name', state', latitude', longitude') gh)
     zipcode latitude longitude"
proof -
  from assms(2) obtain z where z: "z \<in> set (zipcodes d)" "zipcode_code z = zipcode"
    "encode latitude longitude = Inr (zipcode_geohash z)"
    "links_of d (zipcode_id z) =
       map (link_of (zipcode_id z))
         (nearest_sensors latitude longitude (zipcode_geohash z) (sensors d))"
    by (auto simp: zipcode_linked_def)
  from z(1) have "zipcode_id z \<noteq> next_rowid (zipcodes_seq d) (zipcode_ids d)"
    using next_rowid_gt [of "zipcode_id z" "zipcode_ids d" "zipcodes_seq d"] by auto
  with z show ?thesis
    by (auto simp: zipcode_linked_def links_of_zipcode_added [OF assms(1)] intro!: bexI [of _ z])
qed

lemma create_zipcodes_linked:
  assumes "db_inv d" and "encoder_wf encode" and "create_zipcodes encode d recs = (d', None)"
  shows "(\<forall>zipcode latitude longitude. zipcode_linked encode d zipcode latitude longitude \<longrightarrow>
            zipcode_linked encode d' zipcode latitude longitude) \<and>
         list_all (\<lambda>(zipcode, name, state, latitude, longitude).
            zipcode_linked encode d' zipcode latitude longitude) recs"
  using assms
  by (induction rule: create_zipcodes_success_induct)
    (simp_all add: zipcode_linked_added zipcode_linked_mono)

end
