(* ===== verification/Zipcodes_Properties.thy ===== *)
theory Zipcodes_Properties
  imports Zipcodes Geohash
begin

text \<open>
  Properties of \<^verbatim>\<open>create_city\<close> and \<^verbatim>\<open>create_zipcodes\<close>, with their instances on a
  feed of three postal codes of two cities named Springfield, encoded with
  \<open>geohash_encode\<close>.
\<close>

section \<open>The encoder and a feed\<close>

lemma geohash_encoder_wf: "encoder_wf geohash_encode"
  by (auto simp: encoder_wf_def geohash_encode_def dest: geohash_encode_prec_length(1))

lemma geohash_encode_ok:
  "- 90 \<le> latitude \<Longrightarrow> latitude \<le> 90 \<Longrightarrow> - 180 \<le> longitude \<Longrightarrow> longitude \<le> 180 \<Longrightarrow>
   ok (geohash_encode latitude longitude)"
  by (simp add: geohash_encode_def geohash_encode_prec_def in_interval_def)

definition springfields :: "zip_record list" where
  "springfields =
     [(''62701'', ''Springfield'', ''IL'', 199 / 5, - (1793 / 20)),
      (''01101'', ''Springfield'', ''MA'', 421 / 10, - (7259 / 100)),
      (''62702'', ''Springfield'', ''IL'', 1991 / 50, - (2241 / 25))]"

lemma springfields_ok: "feed_ok geohash_encode {} springfields"
  by (simp add: springfields_def feed_ok_distinct geohash_encode_ok)

lemma springfields_run:
  "\<exists>d'. create_zipcodes geohash_encode empty_db springfields = (d', None)"
proof -
  have "zipcode_code ` set (zipcodes empty_db) = {}" by (simp add: empty_db_def)
  with springfields_ok
  have "snd (create_zipcodes geohash_encode empty_db springfields) = None"
    by (simp add: create_zipcodes_feed_ok [OF db_inv_empty_db geohash_encoder_wf])
  then show ?thesis by (cases "create_zipcodes geohash_encode empty_db springfields") auto
qed

section \<open>Cities\<close>

lemma create_city_lookup_or_create:
  "select_city (snd (create_city d name state)) name state = Some (fst (create_city d name state)) \<and>
   (if (name, state) \<in> city_key ` set (cities d) then snd (create_city d name state) = d
    else cities (snd (create_city d name state)) =
           cities d @ [\<lparr>city_id = fst (create_city d name state), city_name = name,
                        city_state_code = state\<rparr>] \<and>
         fst (create_city d name state) \<notin> set (city_ids d))"
proof (rule create_city_cases [of d name state])
  fix cid
  assume "select_city d name state = Some cid" and "create_city d name state = (cid, d)"
  moreover from this have "(name, state) \<in> city_key ` set (cities d)"
    using select_city_None [of d name state] by auto
  ultimately show ?thesis by simp
next
  assume "select_city d name state = None"
    and "create_city d name state = insert_city d name state"
  then show ?thesis
    using select_city_None [of d name state] next_rowid_fresh [of "cities_seq d" "city_ids d"]
    by (simp add: select_city_insert_city cities_insert_city)
qed

text \<open>
  Claim C19. Scenario D of the specification: on a database that satisfies its invariant,
  two calls of \<^verbatim>\<open>create_city\<close> return the same id exactly when they are given the
  same name and the same state.
\<close>

theorem create_city_same_id:
  assumes "db_inv d"
  shows "fst (create_city (snd (create_city d name state)) name' state') =
           fst (create_city d name state) \<longleftrightarrow> name' = name \<and> state' = state"
  using assms by (rule create_city_ids_agree)

theorem create_city_same_id_witness:
  "db_inv empty_db \<and>
   fst (create_city (snd (create_city empty_db ''Springfield'' ''IL'')) ''Springfield'' ''MA'') \<noteq>
     fst (create_city empty_db ''Springfield'' ''IL'') \<and>
   fst (create_city (snd (create_city empty_db ''Springfield'' ''IL'')) ''Springfield'' ''IL'') =
     fst (create_city empty_db ''Springfield'' ''IL'')"
  using create_city_same_id [OF db_inv_empty_db, of "''Springfield''" "''IL''" "''Springfield''" "''MA''"]
    create_city_same_id [OF db_inv_empty_db, of "''Springfield''" "''IL''" "''Springfield''" "''IL''"]
    db_inv_empty_db
  by simp

text \<open>
  Claim C33. \<^verbatim>\<open>create_city\<close> looks up or creates, and keeps the invariant of the
  database: afterwards the city is in the table under the id returned; when it was there
  before, nothing changes, and otherwise one row with a new id is appended; no two rows
  of \<^verbatim>\<open>cities\<close> have the same name and state.
\<close>

theorem create_city_db_inv:
  assumes "db_inv d"
  shows "db_inv (snd (create_city d name state)) \<and>
     distinct (map city_key (cities (snd (create_city d name state)))) \<and>
     select_city (snd (create_city d name state)) name state =
       Some (fst (create_city d name state)) \<and>
     (if (name, state) \<in> city_key ` set (cities d) then snd (create_city d name state) = d
      else cities (snd (create_city d name state)) =
             cities d @ [\<lparr>city_id = fst (create_city d name state), city_name = name,
                          city_state_code = state\<rparr>] \<and>
           fst (create_city d name state) \<notin> set (city_ids d))"
proof -
  have inv: "db_inv (snd (create_city d name state))"
    using assms by (rule db_inv_create_city)
  then have "distinct (map city_key (cities (snd (create_city d name state))))"
    by (simp add: db_inv_defs)
  with inv create_city_lookup_or_create [of d name state] show ?thesis by blast
qed

theorem create_city_db_inv_witness:
  "db_inv empty_db \<and> db_inv (snd (create_city empty_db ''Springfield'' ''IL'')) \<and>
   distinct (map city_key (cities (snd (create_city empty_db ''Springfield'' ''IL'')))) \<and>
   select_city (snd (create_city empty_db ''Springfield'' ''IL'')) ''Springfield'' ''IL'' =
     Some (fst (create_city empty_db ''Springfield'' ''IL''))"
  using create_city_db_inv [OF db_inv_empty_db, of "''Springfield''" "''IL''"] db_inv_empty_db
  by simp

section \<open>One postal code\<close>

lemma springfield_key: "geohash_encode (199 / 5) (- (1793 / 20)) = Inr ''dp04rvqgg9dz''"
  by (simp add: geohash_eval)

text \<open>
  Claim C20. On a database that satisfies its invariant, a record whose coordinates have
  a key of 12 symbols and whose postal code is new is loaded: the iteration returns the
  database \<open>zipcode_added\<close>, in which the city is looked up or created, the postal code
  has the next rowid and its row stores the coordinates rounded to six digits and the key
  of the coordinates as given, and the postal code is linked to its nearest sensors.
\<close>

theorem create_zipcode_added:
  assumes "db_inv d" and "encode latitude longitude = Inr gh" and "length gh = 12"
    and "zipcode \<notin> zipcode_code ` set (zipcodes d)"
  shows "create_zipcode encode d (zipcode, name, state, latitude, longitude) =
     Inr (zipcode_added d (zipcode, name, state, latitude, longitude) gh)"
  using assms by (rule create_zipcode_closed_form)

theorem create_zipcode_added_witness:
  "db_inv empty_db \<and> geohash_encode (199 / 5) (- (1793 / 20)) = Inr ''dp04rvqgg9dz'' \<and>
   create_zipcode geohash_encode empty_db
      (''62701'', ''Springfield'', ''IL'', 199 / 5, - (1793 / 20)) =
     Inr \<lparr>sensors = [],
          zipcodes = [\<lparr>zipcode_id = 1, zipcode_city_id = 1, zipcode_code = ''62701'',
                       zipcode_latitude = 199 / 5, zipcode_longitude = - (1793 / 20),
                       zipcode_geohash = ''dp04rvqgg9dz''\<rparr>],
          zipcodes_seq = 1,
          cities = [\<lparr>city_id = 1, city_name = ''Springfield'', city_state_code = ''IL''\<rparr>],
          cities_seq = 1, sensors_zipcodes = []\<rparr>"
proof -
  have "''62701'' \<notin> zipcode_code ` set (zipcodes empty_db)" by (simp add: empty_db_def)
  from create_zipcode_added [where d = empty_db and encode = geohash_encode
      and name = "''Springfield''" and state = "''IL''", OF db_inv_empty_db springfield_key _ this]
  show ?thesis
    by (simp add: db_inv_empty_db springfield_key)
      (simp add: zipcode_added_def create_city_def select_city_def insert_city_def
        next_rowid_def zipcode_row_of_def empty_db_def add_links_def py_round_def
        round_half_even_def)
qed

lemma create_zipcode_error:
  assumes "db_inv d" and "encoder_wf encode"
  shows "create_zipcode encode d (zipcode, name, state, latitude, longitude) = Inl e \<longleftrightarrow>
     encode latitude longitude = Inl e \<or>
     ok (encode latitude longitude) \<and> zipcode \<in> zipcode_code ` set (zipcodes d) \<and>
       e = IntegrityError"
  using assms
  by (cases rule: create_zipcode_cases [of d encode latitude longitude zipcode name state]) auto

section \<open>The feed\<close>

text \<open>
  Claim C7. \<^verbatim>\<open>create_zipcodes\<close> keeps the invariant of the database, whether it runs
  to the end of the feed or stops with an exception: in what is committed every postal
  code has at most 25 links, each shorter than 25 km and to a sensor of the table.
\<close>

theorem create_zipcodes_db_inv:
  assumes "db_inv d" and "encoder_wf encode"
  shows "db_inv (fst (create_zipcodes encode d recs))"
  using assms by (rule db_inv_create_zipcodes)

theorem create_zipcodes_db_inv_witness:
  "db_inv empty_db \<and> encoder_wf geohash_encode \<and>
   db_inv (fst (create_zipcodes geohash_encode empty_db springfields))"
  using create_zipcodes_db_inv [OF db_inv_empty_db geohash_encoder_wf, of springfields]
    db_inv_empty_db geohash_encoder_wf
  by simp

text \<open>
  Claim C24. On a database that satisfies its invariant and with an encoder of 12-symbol
  keys, \<^verbatim>\<open>create_zipcodes\<close> runs to the end of the feed exactly when the encoder accepts
  the coordinates of every record and the postal codes of the feed are distinct and not
  in the table; and an iteration fails in two cases only: the encoder rejects the
  coordinates, with its error, or the postal code is in the table already, with
  \<open>IntegrityError\<close>.
\<close>

theorem create_zipcodes_success:
  assumes "db_inv d" and "encoder_wf encode"
  shows "(snd (create_zipcodes encode d recs) = None \<longleftrightarrow>
     list_all (\<lambda>(zipcode, name, state, latitude, longitude). ok (encode latitude longitude)) recs \<and>
     distinct (map fst recs) \<and> fst ` set recs \<inter> zipcode_code ` set (zipcodes d) = {}) \<and>
    (create_zipcode encode d (zipcode, name, state, latitude, longitude) = Inl e \<longleftrightarrow>
     encode latitude longitude = Inl e \<or>
     ok (encode latitude longitude) \<and> zipcode \<in> zipcode_code ` set (zipcodes d) \<and>
       e = IntegrityError)"
  using create_zipcodes_feed_ok [OF assms, of recs]
    create_zipcode_error [OF assms, of zipcode name state latitude longitude e]
  by (simp add: feed_ok_distinct)

theorem create_zipcodes_success_witness:
  "db_inv empty_db \<and> encoder_wf geohash_encode \<and>
   snd (create_zipcodes geohash_encode empty_db springfields) = None \<and>
   create_zipcode geohash_encode empty_db (''99999'', ''Nowhere'', ''XX'', 91, 0) =
     Inl InvalidCoordinate"
proof -
  have "zipcode_code ` set (zipcodes empty_db) = {}" by (simp add: empty_db_def)
  moreover have "geohash_encode 91 0 = Inl InvalidCoordinate"
    by (simp add: geohash_encode_def geohash_encode_prec_def in_interval_def)
  ultimately show ?thesis
    using create_zipcodes_success [OF db_inv_empty_db geohash_encoder_wf, of springfields
        "''99999''" "''Nowhere''" "''XX''" 91 0 InvalidCoordinate]
      springfields_ok db_inv_empty_db geohash_encoder_wf
    by (simp add: feed_ok_distinct)
qed

lemma create_zipcodes_duplicate_stop:
  assumes "db_inv d" and "encoder_wf encode" and "create_zipcodes encode d xs = (d', None)"
    and "zipcode \<in> fst ` set xs \<union> zipcode_code ` set (zipcodes d)"
    and "ok (encode latitude longitude)"
  shows "create_zipcodes encode d (xs @ (zipcode, name, state, latitude, longitude) # ys) =
     (d', Some IntegrityError)"
proof -
  from assms(5) obtain gh where gh: "encode latitude longitude = Inr gh" by (auto simp: ok_iff_Inr)
  with assms(2) have "length gh = 12" by (auto simp: encoder_wf_def)
  moreover from create_zipcodes_codes [OF assms(1-3)]
  have "set (map zipcode_code (zipcodes d')) = set (map zipcode_code (zipcodes d) @ map fst xs)"
    by simp
  with assms(4) have "zipcode \<in> zipcode_code ` set (zipcodes d')" by auto
  ultimately have "create_zipcode encode d' (zipcode, name, state, latitude, longitude) =
      Inl IntegrityError"
    using gh by (intro create_zipcode_duplicate)
  then show ?thesis by (simp add: create_zipcodes_append assms(3))
qed

text \<open>
  Claim C21. A postal code that occurs a second time in the feed stops the loader with
  \<open>IntegrityError\<close>: the records before it are committed, the record itself and the
  rest of the feed are not, and neither is the city the failing iteration may have
  inserted.
\<close>

theorem create_zipcodes_duplicate:
  assumes "db_inv d" and "encoder_wf encode" and "create_zipcodes encode d xs = (d', None)"
    and "zipcode \<in> fst ` set xs \<union> zipcode_code ` set (zipcodes d)"
    and "ok (encode latitude longitude)"
  shows "create_zipcodes encode d (xs @ (zipcode, name, state, latitude, longitude) # ys) =
     (d', Some IntegrityError)"
  using assms by (rule create_zipcodes_duplicate_stop)

theorem create_zipcodes_duplicate_witness:
  "\<exists>d'. create_zipcodes geohash_encode empty_db springfields = (d', None) \<and>
     create_zipcodes geohash_encode empty_db
       (springfields @ [(''62701'', ''Chatham'', ''IL'', 3967 / 100, - (897 / 10))]) =
       (d', Some IntegrityError)"
proof -
  from springfields_run obtain d'
    where run: "create_zipcodes geohash_encode empty_db springfields = (d', None)" ..
  have "''62701'' \<in> fst ` set springfields \<union> zipcode_code ` set (zipcodes empty_db)"
    by (simp add: springfields_def)
  from create_zipcodes_duplicate [OF db_inv_empty_db geohash_encoder_wf run this,
      of "3967 / 100" "- (897 / 10)" "''Chatham''" "''IL''" "[]"] run
  show ?thesis by (simp add: geohash_encode_ok)
qed

text \<open>
  Claim C31. When \<^verbatim>\<open>create_zipcodes\<close> runs to the end, the table \<^verbatim>\<open>zipcodes\<close> has one
  new row per record, in the order of the feed, the table \<^verbatim>\<open>sensors\<close> is as it was,
  and every record has its postal code in the table in a city with the name and the
  state of the record (scenario D of the specification for the loader).
\<close>

theorem create_zipcodes_rows:
  assumes "db_inv d" and "encoder_wf encode" and "create_zipcodes encode d recs = (d', None)"
  shows "map zipcode_code (zipcodes d') = map zipcode_code (zipcodes d) @ map fst recs \<and>
     sensors d' = sensors d \<and>
     list_all (\<lambda>(zipcode, name, state, latitude, longitude).
        zipcode_in_city d' zipcode name state) recs"
  using create_zipcodes_codes [OF assms] create_zipcodes_cities [OF assms] by simp

theorem create_zipcodes_rows_witness:
  "\<exists>d'. create_zipcodes geohash_encode empty_db springfields = (d', None) \<and>
     map zipcode_code (zipcodes d') = [''62701'', ''01101'', ''62702''] \<and> sensors d' = [] \<and>
     zipcode_in_city d' ''62701'' ''Springfield'' ''IL'' \<and>
     zipcode_in_city d' ''01101'' ''Springfield'' ''MA'' \<and>
     zipcode_in_city d' ''62702'' ''Springfield'' ''IL''"
proof -
  from springfields_run obtain d'
    where run: "create_zipcodes geohash_encode empty_db springfields = (d', None)" ..
  from create_zipcodes_rows [OF db_inv_empty_db geohash_encoder_wf run] run
  show ?thesis by (simp add: springfields_def empty_db_def)
qed

end
