(* ===== verification/Sensors.thy ===== *)
theory Sensors
  imports Zipcodes
begin

text \<open>
  The loader of sensors: \<^verbatim>\<open>create_sensors\<close> of \<^verbatim>\<open>src/src/build.py\<close>, lines 242 to 292.
  It reads the records of the feed, which \<^verbatim>\<open>json.load\<close> gives as dictionaries of JSON
  values, skips the ones its tests reject, and inserts one row per remaining record, each
  on a connection of its own that it commits.

  \<^item> \<open>json\<close> are the values of \<^verbatim>\<open>json.load\<close>; \<open>pyfloat\<close> are Python's floats, with
    the infinities and NaN that \<^verbatim>\<open>json.load\<close> accepts; finite floats are exact reals.
  \<^item> \<open>truthy\<close>, \<open>py_less_float\<close> and \<open>py_float\<close> are Python's truth test, \<^verbatim>\<open><\<close>
    against a float and \<^verbatim>\<open>float()\<close> on these values, with their exceptions.
  \<^item> \<open>create_sensor\<close> is the body of the loop at the time \<open>now\<close>, \<open>create_sensors\<close> the
    loop; \<open>clock i\<close> is the time the \<open>i\<close>-th iteration reads.
  \<^item> The library functions whose grammar is their own are arguments of the loaders
    (\<open>library\<close>): \<^verbatim>\<open>float\<close> on a string, the conversion of a text to an integer key
    by SQLite, the encoder of spatial keys, and \<^verbatim>\<open>decimal.Decimal\<close> on a string, which
    the feed of postal codes uses (theory \<open>Feeds\<close>).
\<close>

section \<open>Values of the feed\<close>

datatype pyfloat = Finite real | PosInf | NegInf | NaN

datatype json =
    JNull
  | JBool bool
  | JInt int
  | JFloat pyfloat
  | JStr string
  | JList "json list"
  | JObject "(string \<times> json) list"

type_synonym sensor_record = "string \<rightharpoonup> json"

record library =
  float_of_str :: "string \<Rightarrow> pyfloat option"
  rowid_of_text :: "string \<Rightarrow> int option"
  encode_key :: encoder
  decimal_of_str :: "string \<Rightarrow> real option"

definition dict_get :: "sensor_record \<Rightarrow> string \<Rightarrow> json" where
  "dict_get result k = (case result k of None \<Rightarrow> JNull | Some v \<Rightarrow> v)"

definition dict_index :: "sensor_record \<Rightarrow> string \<Rightarrow> json result" where
  "dict_index result k = (case result k of None \<Rightarrow> Inl KeyError | Some v \<Rightarrow> Inr v)"

fun truthy :: "json \<Rightarrow> bool" where
  "truthy JNull \<longleftrightarrow> False"
| "truthy (JBool b) \<longleftrightarrow> b"
| "truthy (JInt n) \<longleftrightarrow> n \<noteq> 0"
| "truthy (JFloat f) \<longleftrightarrow> f \<noteq> Finite 0"
| "truthy (JStr s) \<longleftrightarrow> s \<noteq> []"
| "truthy (JList vs) \<longleftrightarrow> vs \<noteq> []"
| "truthy (JObject kvs) \<longleftrightarrow> kvs \<noteq> []"

fun float_less :: "pyfloat \<Rightarrow> pyfloat \<Rightarrow> bool" where
  "float_less (Finite x) (Finite y) \<longleftrightarrow> x < y"
| "float_less (Finite x) PosInf \<longleftrightarrow> True"
| "float_less NegInf (Finite y) \<longleftrightarrow> True"
| "float_less NegInf PosInf \<longleftrightarrow> True"
| "float_less _ _ \<longleftrightarrow> False"

fun py_less_float :: "json \<Rightarrow> real \<Rightarrow> bool result" where
  "py_less_float (JBool b) y = Inr ((if b then 1 else 0) < y)"
| "py_less_float (JInt n) y = Inr (of_int n < y)"
| "py_less_float (JFloat f) y = Inr (float_less f (Finite y))"
| "py_less_float _ y = Inl TypeError"

definition float_overflow :: "int \<Rightarrow> bool" where
  "float_overflow n \<longleftrightarrow> 2 ^ 1024 - 2 ^ 970 \<le> \<bar>n\<bar>"

fun py_float :: "library \<Rightarrow> json \<Rightarrow> pyfloat result" where
  "py_float lib (JBool b) = Inr (Finite (if b then 1 else 0))"
| "py_float lib (JInt n) = (if float_overflow n then Inl OverflowError else Inr (Finite (of_int n)))"
| "py_float lib (JFloat f) = Inr f"
| "py_float lib (JStr s) =
     (case float_of_str lib s of None \<Rightarrow> Inl ValueError | Some f \<Rightarrow> Inr f)"
| "py_float lib _ = Inl TypeError"

section \<open>The library calls on these values\<close>

text \<open>
  \<^verbatim>\<open>geohash.encode(latitude, longitude)\<close> on two values of the feed: the encoder takes
  numbers, and a number that is not finite is not a coordinate.
\<close>

fun coordinate :: "json \<Rightarrow> pyfloat result" where
  "coordinate (JBool b) = Inr (Finite (if b then 1 else 0))"
| "coordinate (JInt n) = Inr (Finite (of_int n))"
| "coordinate (JFloat f) = Inr f"
| "coordinate _ = Inl TypeError"

definition encode_values :: "library \<Rightarrow> json \<Rightarrow> json \<Rightarrow> string result" where
  "encode_values lib latitude longitude =
     bind_result (coordinate latitude) (\<lambda>lat.
     bind_result (coordinate longitude) (\<lambda>lon.
       case (lat, lon) of
         (Finite x, Finite y) \<Rightarrow> encode_key lib x y
       | _ \<Rightarrow> Inl InvalidCoordinate))"

text \<open>
  The value bound to the column \<^verbatim>\<open>id INTEGER PRIMARY KEY\<close>: an integer is the rowid;
  \<^verbatim>\<open>None\<close>, and NaN, which SQLite stores as NULL, give one more than the largest rowid
  of the table (\<open>auto_rowid\<close>; at the largest rowid, \<open>2^63 - 1\<close>, SQLite draws an unused
  key at random, which is not modelled); a float or a text that is an integer is
  converted, and any other gives a datatype mismatch; a list or a dictionary cannot be
  bound.
\<close>

definition auto_rowid :: "int list \<Rightarrow> int" where
  "auto_rowid ids = (if ids = [] then 1 else fold max ids (hd ids) + 1)"

definition rowid_range :: "int \<Rightarrow> bool" where
  "rowid_range n \<longleftrightarrow> - (2 ^ 63) \<le> n \<and> n < 2 ^ 63"

fun bind_rowid :: "library \<Rightarrow> db \<Rightarrow> json \<Rightarrow> int result" where
  "bind_rowid lib d JNull = Inr (auto_rowid (sensor_ids d))"
| "bind_rowid lib d (JBool b) = Inr (if b then 1 else 0)"
| "bind_rowid lib d (JInt n) = (if rowid_range n then Inr n else Inl OverflowError)"
| "bind_rowid lib d (JFloat (Finite x)) =
     (if x \<in> \<int> \<and> rowid_range \<lfloor>x\<rfloor> then Inr \<lfloor>x\<rfloor> else Inl IntegrityError)"
| "bind_rowid lib d (JFloat NaN) = Inr (auto_rowid (sensor_ids d))"
| "bind_rowid lib d (JFloat _) = Inl IntegrityError"
| "bind_rowid lib d (JStr s) =
     (case rowid_of_text lib s of None \<Rightarrow> Inl IntegrityError | Some n \<Rightarrow> Inr n)"
| "bind_rowid lib d _ = Inl InterfaceError"

text \<open>
  \<^verbatim>\<open>round(float(latitude), ndigits=6)\<close> and the value SQLite stores for it in a column
  \<^verbatim>\<open>REAL NOT NULL\<close>: NaN is stored as NULL, which the constraint rejects.
\<close>

fun round_float :: "pyfloat \<Rightarrow> nat \<Rightarrow> pyfloat" where
  "round_float (Finite x) ndigits = Finite (py_round x ndigits)"
| "round_float f ndigits = f"

section \<open>The code\<close>

text \<open>
  The INSERT of lines 275 to 288 on the values of a record. The number of bindings is
  checked first, then the values are bound, then the row is inserted. An infinite
  coordinate would be stored as it is, but the encoder has rejected it before
  (\<open>encode_values\<close>), so only NaN, stored as NULL, is left of the floats that are not
  finite.
\<close>

definition insert_sensor_values ::
  "library \<Rightarrow> db \<Rightarrow> json \<Rightarrow> pyfloat \<Rightarrow> pyfloat \<Rightarrow> string \<Rightarrow> db result" where
  "insert_sensor_values lib d idv lat lon gh =
     (if 3 + length gh \<noteq> 15 then Inl ProgrammingError
      else bind_result (bind_rowid lib d idv) (\<lambda>sid.
        case (lat, lon) of
          (Finite x, Finite y) \<Rightarrow> insert_sensor d sid x y gh
        | _ \<Rightarrow> Inl IntegrityError))"

definition create_sensor :: "library \<Rightarrow> real \<Rightarrow> db \<Rightarrow> sensor_record \<Rightarrow> db result" where
  "create_sensor lib now d result =
     (if dict_get result ''DEVICE_LOCATIONTYPE'' \<noteq> JStr ''outside'' then Inr d
      else if truthy (dict_get result ''ParentID'') then Inr d
      else
        bind_result (py_less_float (dict_get result ''LastSeen'') (now - 24 * 60 * 60)) (\<lambda>stale.
        if stale then Inr d
        else
          let pm25 = dict_get result ''PM2_5Value'' in
          if \<not> truthy pm25 then Inr d
          else
            case py_float lib pm25 of
              Inl e \<Rightarrow> if e = TypeError \<or> e = ValueError then Inr d else Inl e
            | Inr pm25 \<Rightarrow>
                if float_less pm25 (Finite 0) \<or> float_less (Finite 500) pm25 then Inr d
                else
                  let latitude = dict_get result ''Lat'';
                      longitude = dict_get result ''Lon'' in
                  if \<not> truthy latitude \<or> \<not> truthy longitude then Inr d
                  else
                    bind_result (encode_values lib latitude longitude) (\<lambda>gh.
                    bind_result (dict_index result ''ID'') (\<lambda>idv.
                    bind_result (py_float lib latitude) (\<lambda>lat.
                    bind_result (py_float lib longitude) (\<lambda>lon.
                      insert_sensor_values lib d idv (round_float lat 6) (round_float lon 6)
                        gh))))))"

fun create_sensors_loop ::
  "library \<Rightarrow> (nat \<Rightarrow> real) \<Rightarrow> nat \<Rightarrow> db \<Rightarrow> sensor_record list \<Rightarrow> db \<times> error option" where
  "create_sensors_loop lib clock i d [] = (d, None)"
| "create_sensors_loop lib clock i d (result # results) =
     (case create_sensor lib (clock i) d result of
        Inl e \<Rightarrow> (d, Some e)
      | Inr d' \<Rightarrow> create_sensors_loop lib clock (Suc i) d' results)"

definition create_sensors ::
  "library \<Rightarrow> (nat \<Rightarrow> real) \<Rightarrow> db \<Rightarrow> sensor_record list \<Rightarrow> db \<times> error option" where
  "create_sensors lib clock d results = create_sensors_loop lib clock 0 d results"

section \<open>The filter as a predicate\<close>

text \<open>
  \<open>accepted\<close> is the test a record passes to reach the INSERT, when no test raises:
  an outdoor sensor without parent, seen in the last 24 hours, with a PM2.5 value that
  is true, converts to a float and is neither below 0 nor above 500, and with a latitude
  and a longitude that are true.
\<close>

definition accepted :: "library \<Rightarrow> real \<Rightarrow> sensor_record \<Rightarrow> bool" where
  "accepted lib now result \<longleftrightarrow>
     dict_get result ''DEVICE_LOCATIONTYPE'' = JStr ''outside'' \<and>
     \<not> truthy (dict_get result ''ParentID'') \<and>
     py_less_float (dict_get result ''LastSeen'') (now - 24 * 60 * 60) = Inr False \<and>
     truthy (dict_get result ''PM2_5Value'') \<and>
     (\<exists>pm25. py_float lib (dict_get result ''PM2_5Value'') = Inr pm25 \<and>
        \<not> float_less pm25 (Finite 0) \<and> \<not> float_less (Finite 500) pm25) \<and>
     truthy (dict_get result ''Lat'') \<and> truthy (dict_get result ''Lon'')"

definition insert_record :: "library \<Rightarrow> db \<Rightarrow> sensor_record \<Rightarrow> db result" where
  "insert_record lib d result =
     bind_result (encode_values lib (dict_get result ''Lat'') (dict_get result ''Lon'')) (\<lambda>gh.
     bind_result (dict_index result ''ID'') (\<lambda>idv.
     bind_result (py_float lib (dict_get result ''Lat'')) (\<lambda>lat.
     bind_result (py_float lib (dict_get result ''Lon'')) (\<lambda>lon.
       insert_sensor_values lib d idv (round_float lat 6) (round_float lon 6) gh))))"

lemma create_sensor_accepted:
  "accepted lib now result \<Longrightarrow> create_sensor lib now d result = insert_record lib d result"
  by (auto simp: accepted_def create_sensor_def insert_record_def Let_def)

lemma create_sensor_cases:
  obtains (skipped) "create_sensor lib now d result = Inr d" "\<not> accepted lib now result"
  | (raised) e where "create_sensor lib now d result = Inl e" "\<not> accepted lib now result"
  | (accepted) "accepted lib now result"
      "create_sensor lib now d result = insert_record lib d result"
proof (cases "accepted lib now result")
  case True
  then show ?thesis by (intro accepted create_sensor_accepted)
next
  case False
  then show ?thesis
    by (cases "create_sensor lib now d result") (auto intro: raised skipped simp: accepted_def
        create_sensor_def Let_def bind_result_eq_Inr split: if_splits sum.splits)
qed

section \<open>One record\<close>

lemma insert_record_Inr:
  assumes "insert_record lib d result = Inr d'"
  obtains idv sid x y gh where "result ''ID'' = Some idv" and "bind_rowid lib d idv = Inr sid"
    and "encode_values lib (dict_get result ''Lat'') (dict_get result ''Lon'') = Inr gh"
    and "py_float lib (dict_get result ''Lat'') = Inr (Finite x)"
    and "py_float lib (dict_get result ''Lon'') = Inr (Finite y)"
    and "insert_sensor d sid (py_round x 6) (py_round y 6) gh = Inr d'"
proof -
  from assms obtain gh idv lat lon
    where gh: "encode_values lib (dict_get result ''Lat'') (dict_get result ''Lon'') = Inr gh"
      and idv: "dict_index result ''ID'' = Inr idv"
      and lat: "py_float lib (dict_get result ''Lat'') = Inr lat"
      and lon: "py_float lib (dict_get result ''Lon'') = Inr lon"
      and ins: "insert_sensor_values lib d idv (round_float lat 6) (round_float lon 6) gh = Inr d'"
    by (auto simp: insert_record_def bind_result_eq_Inr)
  from ins obtain sid x y where "bind_rowid lib d idv = Inr sid"
    and "lat = Finite x" and "lon = Finite y"
    and "insert_sensor d sid (py_round x 6) (py_round y 6) gh = Inr d'"
    by (cases lat; cases lon)
      (auto simp: insert_sensor_values_def bind_result_eq_Inr split: if_splits)
  moreover from idv have "result ''ID'' = Some idv"
    by (simp add: dict_index_def split: option.splits)
  ultimately show thesis using gh lat lon by (intro that) simp_all
qed

lemma create_sensor_Inr:
  assumes "create_sensor lib now d result = Inr d'"
  obtains (skipped) "d' = d"
  | (inserted) "accepted lib now result" "insert_record lib d result = Inr d'"
proof (rule create_sensor_cases [of lib now d result])
  assume "create_sensor lib now d result = Inr d"
  with assms show thesis by (intro skipped) simp
next
  fix e assume "create_sensor lib now d result = Inl e"
  with assms show thesis by simp
next
  assume "accepted lib now result"
    and "create_sensor lib now d result = insert_record lib d result"
  with assms show thesis by (intro inserted) simp_all
qed

lemma db_inv_create_sensor:
  assumes "db_inv d" and "create_sensor lib now d result = Inr d'"
  shows "db_inv d'"
  using assms(2)
proof (cases rule: create_sensor_Inr)
  case inserted
  from inserted(2) show ?thesis
    by (rule insert_record_Inr) (rule db_inv_insert_sensor [OF assms(1)])
qed (simp add: assms(1))

lemma create_sensor_frame:
  assumes "create_sensor lib now d result = Inr d'"
  shows "zipcodes d' = zipcodes d \<and> zipcodes_seq d' = zipcodes_seq d \<and>
         cities d' = cities d \<and> cities_seq d' = cities_seq d \<and>
         sensors_zipcodes d' = sensors_zipcodes d \<and> set (sensors d) \<subseteq> set (sensors d')"
  using assms
proof (cases rule: create_sensor_Inr)
  case inserted
  from inserted(2) show ?thesis
    by (rule insert_record_Inr) (auto dest: insert_sensor_frame)
qed simp

section \<open>The loop over the feed\<close>

lemma create_sensors_loop_append:
  "create_sensors_loop lib clock i d (xs @ ys) =
     (case create_sensors_loop lib clock i d xs of
        (d', None) \<Rightarrow> create_sensors_loop lib clock (i + length xs) d' ys
      | (d', Some e) \<Rightarrow> (d', Some e))"
  by (induction xs arbitrary: i d) (auto split: sum.splits)

lemma db_inv_create_sensors_loop:
  "db_inv d \<Longrightarrow> db_inv (fst (create_sensors_loop lib clock i d results))"
proof (induction results arbitrary: i d)
  case (Cons result results)
  then show ?case
    by (cases "create_sensor lib (clock i) d result") (auto dest: db_inv_create_sensor)
qed simp

lemma create_sensors_loop_frame:
  "create_sensors_loop lib clock i d results = (d', err) \<Longrightarrow>
   zipcodes d' = zipcodes d \<and> zipcodes_seq d' = zipcodes_seq d \<and>
   cities d' = cities d \<and> cities_seq d' = cities_seq d \<and>
   sensors_zipcodes d' = sensors_zipcodes d \<and> set (sensors d) \<subseteq> set (sensors d')"
proof (induction results arbitrary: i d)
  case (Cons result results)
  show ?case
  proof (cases "create_sensor lib (clock i) d result")
    case (Inr d1)
    with Cons.prems have "create_sensors_loop lib clock (Suc i) d1 results = (d', err)" by simp
    from Cons.IH [OF this] create_sensor_frame [OF Inr] show ?thesis by auto
  qed (use Cons.prems in simp)
qed simp

lemma create_sensor_inserted:
  assumes "accepted lib now result"
    and "result ''ID'' = Some (JInt n)" and "rowid_range n" and "n \<notin> set (sensor_ids d)"
    and "dict_get result ''Lat'' = JFloat (Finite x)"
    and "dict_get result ''Lon'' = JFloat (Finite y)"
    and "encode_key lib x y = Inr gh" and "length gh = 12"
  shows "create_sensor lib now d result =
     Inr (d\<lparr>sensors := insort_key sensor_id
            \<lparr>sensor_id = n, sensor_latitude = py_round x 6, sensor_longitude = py_round y 6,
             sensor_geohash = gh\<rparr> (sensors d)\<rparr>)"
  using assms(2-8)
  by (simp add: create_sensor_accepted [OF assms(1)] insert_record_def encode_values_def
      dict_index_def insert_sensor_values_def insert_sensor_def)

end
