(* ===== verification/Sensors_Properties.thy ===== *)
theory Sensors_Properties
  imports Sensors Zipcodes_Properties
begin

text \<open>
  Properties of \<^verbatim>\<open>create_sensors\<close>, with their instances on two records in the format of
  the feed and a library whose encoder is \<open>geohash_encode\<close>.
\<close>

section \<open>A library and two records\<close>

text \<open>
  \<open>example_library\<close> knows \<^verbatim>\<open>float\<close> and \<^verbatim>\<open>Decimal\<close> on the strings the examples
  use. The records
  are two sensors on the meridian of 0.04 degrees, at latitudes 1.41 and 0.99, read at
  the time 1604700000.
\<close>

definition example_library :: library where
  "example_library =
     \<lparr>float_of_str = map_of [(''15.52'', Finite (388 / 25)), (''nan'', NaN)],
      rowid_of_text = (\<lambda>s. None),
      encode_key = geohash_encode,
      decimal_of_str = map_of [(''1.4'', 7 / 5), (''0.04'', 1 / 25)]\<rparr>"

definition example_record :: "int \<Rightarrow> real \<Rightarrow> sensor_record" where
  "example_record n latitude =
     [''ID'' \<mapsto> JInt n, ''DEVICE_LOCATIONTYPE'' \<mapsto> JStr ''outside'', ''ParentID'' \<mapsto> JNull,
      ''LastSeen'' \<mapsto> JInt 1604699020, ''PM2_5Value'' \<mapsto> JStr ''15.52'',
      ''Lat'' \<mapsto> JFloat (Finite latitude), ''Lon'' \<mapsto> JFloat (Finite (1 / 25))]"

abbreviation example_now :: real where
  "example_now \<equiv> 1604700000"

lemmas sensor_eval =
  example_library_def example_record_def dict_get_def dict_index_def accepted_def
  insert_record_def encode_values_def insert_sensor_values_def rowid_range_def
  insert_sensor_def py_round_def round_half_even_def

lemma example_record_accepted:
  "latitude \<noteq> 0 \<Longrightarrow> accepted example_library example_now (example_record n latitude)"
  by (simp add: sensor_eval)

lemma example_record_created:
  assumes "latitude \<noteq> 0" and "geohash_encode latitude (1 / 25) = Inr gh"
    and "rowid_range n" and "n \<notin> set (sensor_ids d)"
  shows "create_sensor example_library example_now d (example_record n latitude) =
     Inr (d\<lparr>sensors := insort_key sensor_id
            \<lparr>sensor_id = n, sensor_latitude = py_round latitude 6, sensor_longitude = 1 / 25,
             sensor_geohash = gh\<rparr> (sensors d)\<rparr>)"
proof -
  have "length gh = 12"
    using assms(2) geohash_encoder_wf by (auto simp: encoder_wf_def)
  with create_sensor_inserted [OF example_record_accepted [OF assms(1)],
      where n = n and d = d and x = latitude and y = "1 / 25" and gh = gh] assms(2-4)
  show ?thesis
    by (simp add: example_record_def dict_get_def example_library_def py_round_def
        round_half_even_def)
qed

lemma example_record_key: "geohash_encode (141 / 100) (1 / 25) = Inr ''s0200btju541''"
  by (simp add: geohash_eval)

lemma example_record_inserted:
  "create_sensor example_library example_now empty_db (example_record 7 (141 / 100)) =
     Inr (empty_db\<lparr>sensors := [\<lparr>sensor_id = 7, sensor_latitude = 141 / 100,
            sensor_longitude = 1 / 25, sensor_geohash = ''s0200btju541''\<rparr>]\<rparr>)"
  by (simp add: create_sensor_accepted example_record_accepted)
    (simp add: sensor_eval example_record_key empty_db_def)

lemma create_sensors_loop_duplicate_stop:
  assumes "create_sensors_loop lib clock i d xs = (d', None)"
    and "accepted lib (clock (i + length xs)) result"
    and "result ''ID'' = Some (JInt n)" and "rowid_range n" and "n \<in> set (sensor_ids d')"
    and "encode_values lib (dict_get result ''Lat'') (dict_get result ''Lon'') = Inr gh"
    and "length gh = 12"
    and "py_float lib (dict_get result ''Lat'') = Inr (Finite x)"
    and "py_float lib (dict_get result ''Lon'') = Inr (Finite y)"
  shows "create_sensors_loop lib clock i d (xs @ result # ys) = (d', Some IntegrityError)"
proof -
  have "insert_record lib d' result = Inl IntegrityError"
    using assms(3-9)
    by (simp add: insert_record_def dict_index_def insert_sensor_values_def insert_sensor_def)
  with assms(2) have "create_sensor lib (clock (i + length xs)) d' result = Inl IntegrityError"
    by (simp add: create_sensor_accepted)
  with assms(1) show ?thesis by (simp add: create_sensors_loop_append)
qed

section \<open>One record\<close>

text \<open>
  Claim C12. Only a record that passes the filter adds a sensor: when an iteration
  changes the database, the record is an outdoor sensor without parent, seen in the last
  24 hours, with a PM2.5 value not below 0 and not above 500 and with a latitude and a
  longitude that are true, and the iteration has inserted exactly one row, under an id
  that was not in the table.
\<close>

theorem create_sensor_filter:
  assumes "create_sensor lib now d result = Inr d'" and "d' \<noteq> d"
  shows "accepted lib now result \<and>
     (\<exists>r. set (sensors d') = insert r (set (sensors d)) \<and> sensor_id r \<notin> set (sensor_ids d) \<and>
          length (sensor_geohash r) = 12)"
  using assms(1)
proof (cases rule: create_sensor_Inr)
  case inserted
  from inserted(2) have "\<exists>r. set (sensors d') = insert r (set (sensors d)) \<and>
      sensor_id r \<notin> set (sensor_ids d) \<and> length (sensor_geohash r) = 12"
    by (rule insert_record_Inr) (auto simp: insert_sensor_Inr set_insort_key)
  with inserted(1) show ?thesis by simp
qed (use assms(2) in simp)

theorem create_sensor_filter_witness:
  "create_sensor example_library example_now empty_db (example_record 7 (141 / 100)) =
     Inr (empty_db\<lparr>sensors := [\<lparr>sensor_id = 7, sensor_latitude = 141 / 100,
            sensor_longitude = 1 / 25, sensor_geohash = ''s0200btju541''\<rparr>]\<rparr>) \<and>
   accepted example_library example_now (example_record 7 (141 / 100))"
proof -
  have "empty_db\<lparr>sensors := [\<lparr>sensor_id = 7, sensor_latitude = 141 / 100,
            sensor_longitude = 1 / 25, sensor_geohash = ''s0200btju541''\<rparr>]\<rparr> \<noteq> empty_db"
    by (simp add: empty_db_def)
  from create_sensor_filter [OF example_record_inserted this] example_record_inserted
  show ?thesis by simp
qed

text \<open>
  Claim C22. A record that passes the filter, with an integer id that is new, finite
  coordinates and a key of 12 symbols, is inserted: the row has the id of the record,
  the coordinates rounded to six digits and the key of the coordinates as given, and the
  table stays in the order of the ids.
\<close>

theorem create_sensor_row:
  assumes "accepted lib now result"
    and "result ''ID'' = Some (JInt n)" and "rowid_range n" and "n \<notin> set (sensor_ids d)"
    and "dict_get result ''Lat'' = JFloat (Finite x)"
    and "dict_get result ''Lon'' = JFloat (Finite y)"
    and "encode_key lib x y = Inr gh" and "length gh = 12"
  shows "create_sensor lib now d result =
     Inr (d\<lparr>sensors := insort_key sensor_id
            \<lparr>sensor_id = n, sensor_latitude = py_round x 6, sensor_longitude = py_round y 6,
             sensor_geohash = gh\<rparr> (sensors d)\<rparr>)"
  using assms by (rule create_sensor_inserted)

theorem create_sensor_row_witness:
  "accepted example_library example_now (example_record 7 (141 / 100)) \<and>
   rowid_range 7 \<and> geohash_encode (141 / 100) (1 / 25) = Inr ''s0200btju541'' \<and>
   create_sensor example_library example_now empty_db (example_record 7 (141 / 100)) =
     Inr (empty_db\<lparr>sensors := [\<lparr>sensor_id = 7, sensor_latitude = 141 / 100,
            sensor_longitude = 1 / 25, sensor_geohash = ''s0200btju541''\<rparr>]\<rparr>)"
proof -
  have "accepted example_library example_now (example_record 7 (141 / 100))"
    by (simp add: example_record_accepted)
  from create_sensor_row [OF this, of 7 empty_db "141 / 100" "1 / 25" "''s0200btju541''"]
    this example_record_key
  show ?thesis
    by (simp add: example_record_def dict_get_def rowid_range_def example_library_def
        py_round_def round_half_even_def)
qed

section \<open>The tests at their edges\<close>

lemma create_sensor_no_last_seen:
  assumes "dict_get result ''DEVICE_LOCATIONTYPE'' = JStr ''outside''"
    and "\<not> truthy (dict_get result ''ParentID'')"
    and "dict_get result ''LastSeen'' = JNull"
  shows "create_sensor lib now d result = Inl TypeError"
  using assms by (simp add: create_sensor_def)

lemma accepted_pm25_nan:
  assumes "accepted lib now result"
  shows "accepted lib now (result(''PM2_5Value'' \<mapsto> JFloat NaN))"
  using assms by (simp add: accepted_def dict_get_def)

lemma create_sensor_pm25_zero:
  assumes "dict_get result ''PM2_5Value'' = JInt 0 \<or>
           dict_get result ''PM2_5Value'' = JFloat (Finite 0)"
    and "create_sensor lib now d result = Inr d'"
  shows "d' = d"
  using assms(2)
proof (cases rule: create_sensor_Inr)
  case inserted
  with assms(1) show ?thesis by (auto simp: accepted_def)
qed

text \<open>
  Claim C30. The tests of the filter at their edges. An outdoor record without parent
  whose field \<^verbatim>\<open>LastSeen\<close> is missing or null is not skipped: the comparison with the
  time raises \<open>TypeError\<close>, which ends the loader. The test on the PM2.5 value lets NaN
  through: a record that passes the filter still passes it when its PM2.5 value is
  replaced by NaN, which is neither below 0 nor above 500. And it rejects the number
  zero: a record whose PM2.5 value is the integer 0 or the float 0.0 never adds a
  sensor, although 0 is in the range from 0 to 500.
\<close>

theorem create_sensor_edge_cases:
  "(dict_get result ''DEVICE_LOCATIONTYPE'' = JStr ''outside'' \<and>
    \<not> truthy (dict_get result ''ParentID'') \<and> dict_get result ''LastSeen'' = JNull \<longrightarrow>
      create_sensor lib now d result = Inl TypeError) \<and>
   (accepted lib now result \<longrightarrow> accepted lib now (result(''PM2_5Value'' \<mapsto> JFloat NaN))) \<and>
   ((dict_get result ''PM2_5Value'' = JInt 0 \<or>
     dict_get result ''PM2_5Value'' = JFloat (Finite 0)) \<and>
    create_sensor lib now d result = Inr d' \<longrightarrow> d' = d)"
  using create_sensor_no_last_seen [of result lib now d] accepted_pm25_nan [of lib now result]
    create_sensor_pm25_zero [of result lib now d d']
  by blast

theorem create_sensor_edge_cases_witness:
  "create_sensor example_library example_now empty_db
     [''ID'' \<mapsto> JInt 7, ''DEVICE_LOCATIONTYPE'' \<mapsto> JStr ''outside''] = Inl TypeError \<and>
   accepted example_library example_now (example_record 7 (141 / 100)) \<and>
   accepted example_library example_now
     ((example_record 7 (141 / 100))(''PM2_5Value'' \<mapsto> JFloat NaN)) \<and>
   create_sensor example_library example_now empty_db
     ((example_record 7 (141 / 100))(''PM2_5Value'' \<mapsto> JInt 0)) = Inr empty_db"
proof -
  have zero: "create_sensor example_library example_now empty_db
     ((example_record 7 (141 / 100))(''PM2_5Value'' \<mapsto> JInt 0)) = Inr empty_db"
    by (simp add: create_sensor_def example_record_def dict_get_def)
  from create_sensor_edge_cases [of "[''ID'' \<mapsto> JInt 7,
      ''DEVICE_LOCATIONTYPE'' \<mapsto> JStr ''outside'']" example_library example_now empty_db]
    create_sensor_edge_cases [of "example_record 7 (141 / 100)" example_library example_now]
    zero
  show ?thesis by (simp add: dict_get_def example_record_accepted)
qed

section \<open>The feed\<close>

text \<open>
  Claim C23. \<^verbatim>\<open>create_sensors\<close> keeps the invariant of the database in what it
  commits, whether it reaches the end of the feed or stops with an exception, and it
  changes no table but \<^verbatim>\<open>sensors\<close>, from which it removes nothing.
\<close>

theorem create_sensors_db_inv:
  assumes "db_inv d"
  shows "db_inv (fst (create_sensors lib clock d results)) \<and>
     zipcodes (fst (create_sensors lib clock d results)) = zipcodes d \<and>
     cities (fst (create_sensors lib clock d results)) = cities d \<and>
     sensors_zipcodes (fst (create_sensors lib clock d results)) = sensors_zipcodes d \<and>
     set (sensors d) \<subseteq> set (sensors (fst (create_sensors lib clock d results)))"
  using db_inv_create_sensors_loop [OF assms, of lib clock 0 results]
    create_sensors_loop_frame [of lib clock 0 d results]
  by (cases "create_sensors_loop lib clock 0 d results") (simp add: create_sensors_def)

theorem create_sensors_db_inv_witness:
  "db_inv empty_db \<and>
   db_inv (fst (create_sensors example_library (\<lambda>i. example_now) empty_db
     [example_record 7 (141 / 100), example_record 8 (99 / 100)]))"
  using create_sensors_db_inv [OF db_inv_empty_db, of example_library "\<lambda>i. example_now"
      "[example_record 7 (141 / 100), example_record 8 (99 / 100)]"] db_inv_empty_db
  by simp

text \<open>
  Claim C29. A record that passes the filter with the id of a sensor that is in the table
  stops the loader with \<open>IntegrityError\<close>: the records before it are committed, the
  rest of the feed is not read.
\<close>

theorem create_sensors_duplicate:
  assumes "create_sensors lib clock d xs = (d', None)"
    and "accepted lib (clock (length xs)) result"
    and "result ''ID'' = Some (JInt n)" and "rowid_range n" and "n \<in> set (sensor_ids d')"
    and "encode_values lib (dict_get result ''Lat'') (dict_get result ''Lon'') = Inr gh"
    and "length gh = 12"
    and "py_float lib (dict_get result ''Lat'') = Inr (Finite x)"
    and "py_float lib (dict_get result ''Lon'') = Inr (Finite y)"
  shows "create_sensors lib clock d (xs @ result # ys) = (d', Some IntegrityError)"
  using create_sensors_loop_duplicate_stop [of lib clock 0 d xs d' result n gh x y ys] assms
  by (simp add: create_sensors_def)

theorem create_sensors_duplicate_witness:
  "create_sensors example_library (\<lambda>i. example_now) empty_db
     [example_record 7 (141 / 100), example_record 7 (99 / 100), example_record 8 (99 / 100)] =
   (empty_db\<lparr>sensors := [\<lparr>sensor_id = 7, sensor_latitude = 141 / 100,
       sensor_longitude = 1 / 25, sensor_geohash = ''s0200btju541''\<rparr>]\<rparr>, Some IntegrityError)"
proof -
  let ?d' = "empty_db\<lparr>sensors := [\<lparr>sensor_id = 7, sensor_latitude = 141 / 100,
       sensor_longitude = 1 / 25, sensor_geohash = ''s0200btju541''\<rparr>]\<rparr>"
  have run: "create_sensors example_library (\<lambda>i. example_now) empty_db
      [example_record 7 (141 / 100)] = (?d', None)"
    by (simp add: create_sensors_def example_record_inserted)
  have key: "encode_values example_library (dict_get (example_record 7 (99 / 100)) ''Lat'')
      (dict_get (example_record 7 (99 / 100)) ''Lon'') = Inr ''s00j8ujphj6h''"
    by (simp add: encode_values_def example_record_def dict_get_def example_library_def
        geohash_eval)
  from create_sensors_duplicate [OF run _ _ _ _ key, of 7 "99 / 100" "1 / 25"
      "[example_record 8 (99 / 100)]"]
  show ?thesis
    by (simp add: example_record_accepted)
      (simp add: example_record_def dict_get_def rowid_range_def)
qed

end
