(* ===== verification/Feeds.thy ===== *)
theory Feeds
  imports Sensors
begin

text \<open>
  The files and the two feeds of \<^verbatim>\<open>src/src/build.py\<close>: \<^verbatim>\<open>refresh_data\<close> (lines 33 to
  47), \<^verbatim>\<open>get_zipcodes_from_geonames\<close> (lines 134 to 153) and \<^verbatim>\<open>get_purpleair_data\<close>
  (lines 232 to 239), and the two loops of the loaders as they run on what the feeds
  give them.

  \<^item> \<open>files\<close> is what the program keeps on disk: the database, the archive of postal
    codes and the cache of the sensor feed. \<open>web\<close> is what the two servers answer; the
    program asks each of them at most once.
  \<^item> The archive is read line by line. \<open>fields_of\<close>, \<open>parse_line\<close> and \<open>parse_lines\<close>
    are the body of the generator; texts are strings of code points below 256, and the
    decoding of the bytes of a line is not modelled.
  \<^item> The generator is consumed lazily: line \<open>k\<close> is parsed after the record of line
    \<open>k - 1\<close> has been committed. \<open>create_zipcodes_lines\<close> runs in this order, and
    \<open>create_zipcodes_lines_staged\<close> shows that it is \<open>create_zipcodes\<close> on the records
    of \<open>parse_lines\<close>.
  \<^item> The sensor feed is any JSON value. \<open>create_sensors_json\<close> iterates over it as
    Python does and calls \<^verbatim>\<open>.get\<close> on every element; on a list of objects (\<open>feed_wf\<close>)
    it is \<open>create_sensors\<close> on the dictionaries.
\<close>

section \<open>Files and servers\<close>

text \<open>
  An archive is what \<^verbatim>\<open>zipfile.ZipFile\<close> makes of the bytes of a file: not an archive,
  or members with their lines. The cache of the sensor feed is empty between
  \<^verbatim>\<open>open(..., "w")\<close> and the end of \<^verbatim>\<open>json.dump\<close>, and holds a JSON value afterwards;
  the text of the value is not modelled, \<^verbatim>\<open>json.load\<close> returns what \<^verbatim>\<open>json.dump\<close>
  wrote. In \<open>airq_db\<close>, \<open>None\<close> is a database without tables: no file, or the empty
  file that \<^verbatim>\<open>sqlite3.connect\<close> creates.
\<close>

datatype archive = NotZip | Zip "(string \<times> string list) list"

datatype cache = Truncated | Dumped json

record files =
  airq_db :: "db option"
  us_zip :: "archive option"
  purpleair_json :: "cache option"

text \<open>
  A download that is streamed into a file can fail before the file is opened
  (\<open>Unreachable\<close>) or while the chunks are written (\<open>Interrupted\<close>). A response has a
  status and a body, which is JSON or not.
\<close>

datatype 'a download = Unreachable error | Interrupted error | Complete 'a

record response =
  status_ok :: bool
  body :: "json option"

record web =
  geonames :: "archive download"
  purpleair :: "response result"

definition refresh_data :: "files \<Rightarrow> files" where
  "refresh_data fs = fs\<lparr>airq_db := None, us_zip := None, purpleair_json := None\<rparr>"

section \<open>Loops over a generator\<close>

text \<open>
  \<open>and_then r err\<close> is the end of a loop over a generator: the exception of the loop
  body, or else the exception that ended the generator.
\<close>

definition and_then :: "db \<times> error option \<Rightarrow> error option \<Rightarrow> db \<times> error option" where
  "and_then r err = (case r of (d, None) \<Rightarrow> (d, err) | (d, Some e) \<Rightarrow> (d, Some e))"

section \<open>The sensor feed\<close>

fun py_subscript :: "json \<Rightarrow> string \<Rightarrow> json result" where
  "py_subscript (JObject kvs) k = (case map_of kvs k of None \<Rightarrow> Inl KeyError | Some v \<Rightarrow> Inr v)"
| "py_subscript _ k = Inl TypeError"

definition response_json :: "response \<Rightarrow> json result" where
  "response_json resp = (case body resp of None \<Rightarrow> Inl JSONDecodeError | Some j \<Rightarrow> Inr j)"

definition json_load :: "files \<Rightarrow> json result" where
  "json_load fs =
     (case purpleair_json fs of
        None \<Rightarrow> Inl FileNotFoundError
      | Some Truncated \<Rightarrow> Inl JSONDecodeError
      | Some (Dumped j) \<Rightarrow> Inr j)"

text \<open>
  \<^verbatim>\<open>get_purpleair_data\<close>, lines 232 to 239. The file is opened for writing before
  \<^verbatim>\<open>resp.json()["results"]\<close> is evaluated, so an answer without results leaves an
  empty file behind.
\<close>

definition get_purpleair_data :: "web \<Rightarrow> files \<Rightarrow> files \<times> json result" where
  "get_purpleair_data w fs =
     (if purpleair_json fs = None then
        case purpleair w of
          Inl e \<Rightarrow> (fs, Inl e)
        | Inr resp \<Rightarrow>
            if \<not> status_ok resp then (fs, Inl HTTPError)
            else
              case bind_result (response_json resp) (\<lambda>j. py_subscript j ''results'') of
                Inl e \<Rightarrow> (fs\<lparr>purpleair_json := Some Truncated\<rparr>, Inl e)
              | Inr results \<Rightarrow>
                  let fs' = fs\<lparr>purpleair_json := Some (Dumped results)\<rparr>
                  in (fs', json_load fs')
      else (fs, json_load fs))"

text \<open>
  \<^verbatim>\<open>for result in results\<close> on a JSON value (line 246), and \<^verbatim>\<open>result.get\<close> on an
  element (line 247): a dictionary gives its keys, a string its characters, and only a
  dictionary has \<^verbatim>\<open>get\<close>.
\<close>

fun py_iter :: "json \<Rightarrow> json list result" where
  "py_iter (JList vs) = Inr vs"
| "py_iter (JObject kvs) = Inr (map (\<lambda>kv. JStr (fst kv)) kvs)"
| "py_iter (JStr s) = Inr (map (\<lambda>c. JStr [c]) s)"
| "py_iter _ = Inl TypeError"

fun record_of :: "json \<Rightarrow> sensor_record result" where
  "record_of (JObject kvs) = Inr (map_of kvs)"
| "record_of _ = Inl AttributeError"

fun create_sensors_items ::
  "library \<Rightarrow> (nat \<Rightarrow> real) \<Rightarrow> nat \<Rightarrow> db \<Rightarrow> json list \<Rightarrow> db \<times> error option" where
  "create_sensors_items lib clock i d [] = (d, None)"
| "create_sensors_items lib clock i d (v # vs) =
     (case bind_result (record_of v) (create_sensor lib (clock i) d) of
        Inl e \<Rightarrow> (d, Some e)
      | Inr d' \<Rightarrow> create_sensors_items lib clock (Suc i) d' vs)"

definition create_sensors_json ::
  "library \<Rightarrow> (nat \<Rightarrow> real) \<Rightarrow> db \<Rightarrow> json \<Rightarrow> db \<times> error option" where
  "create_sensors_json lib clock d results =
     (case py_iter results of
        Inl e \<Rightarrow> (d, Some e)
      | Inr vs \<Rightarrow> create_sensors_items lib clock 0 d vs)"

text \<open>The format the loader expects: a list of objects.\<close>

fun is_object :: "json \<Rightarrow> bool" where
  "is_object (JObject kvs) \<longleftrightarrow> True"
| "is_object _ \<longleftrightarrow> False"

fun feed_wf :: "json \<Rightarrow> bool" where
  "feed_wf (JList vs) \<longleftrightarrow> list_all is_object vs"
| "feed_wf _ \<longleftrightarrow> False"

fun items_of :: "json \<Rightarrow> (string \<times> json) list" where
  "items_of (JObject kvs) = kvs"
| "items_of _ = []"

definition records_of :: "json \<Rightarrow> sensor_record list" where
  "records_of results =
     (case results of JList vs \<Rightarrow> map (\<lambda>v. map_of (items_of v)) (takeWhile is_object vs)
      | _ \<Rightarrow> [])"

section \<open>The feed of postal codes\<close>

text \<open>
  \<^verbatim>\<open>str.strip()\<close> removes the characters that \<^verbatim>\<open>str.isspace\<close> accepts from both ends;
  \<open>py_space\<close> lists the ones below 256. \<^verbatim>\<open>str.split(sep)\<close> cuts at every separator,
  so it returns one field more than the text has separators.
\<close>

definition py_space :: "char \<Rightarrow> bool" where
  "py_space c \<longleftrightarrow> c \<in> set [CHR 0x09, CHR 0x0A, CHR 0x0B, CHR 0x0C, CHR 0x0D, CHR 0x1C, CHR 0x1D,
     CHR 0x1E, CHR 0x1F, CHR 0x20, CHR 0x85, CHR 0xA0]"

definition strip :: "string \<Rightarrow> string" where
  "strip s = rev (dropWhile py_space (rev (dropWhile py_space s)))"

fun split_on :: "char \<Rightarrow> string \<Rightarrow> string list" where
  "split_on sep [] = [[]]"
| "split_on sep (c # cs) =
     (if c = sep then [] # split_on sep cs
      else (c # hd (split_on sep cs)) # tl (split_on sep cs))"

abbreviation tab :: char where
  "tab \<equiv> CHR 0x09"

definition fields_of :: "string \<Rightarrow> string list" where
  "fields_of line = split_on tab (strip line)"

definition field :: "string list \<Rightarrow> nat \<Rightarrow> string result" where
  "field cols i = (if i < length cols then Inr (cols ! i) else Inl IndexError)"

definition decimal :: "library \<Rightarrow> string \<Rightarrow> real result" where
  "decimal lib s = (case decimal_of_str lib s of None \<Rightarrow> Inl InvalidOperation | Some x \<Rightarrow> Inr x)"

definition army :: "string \<Rightarrow> bool" where
  "army place_name \<longleftrightarrow> prefix ''FPO'' place_name \<or> prefix ''APO'' place_name"

text \<open>
  The body of the loop over the lines, lines 143 to 153: the record the generator
  yields for a line, \<open>None\<close> for a line it skips, or the exception of the line. The
  fields are read in the order of the source, so a line of ten fields with a text that
  is no number in the tenth raises \<open>InvalidOperation\<close>, and \<open>IndexError\<close> otherwise.
\<close>

definition parse_line :: "library \<Rightarrow> string \<Rightarrow> zip_record option result" where
  "parse_line lib line =
     (let cols = fields_of line in
      bind_result (field cols 1) (\<lambda>f1.
      bind_result (field cols 2) (\<lambda>f2.
      bind_result (field cols 4) (\<lambda>f4.
      bind_result (field cols 9) (\<lambda>f9.
      bind_result (decimal lib (strip f9)) (\<lambda>latitude.
      bind_result (field cols 10) (\<lambda>f10.
      bind_result (decimal lib (strip f10)) (\<lambda>longitude.
        let zipcode = strip f1; name = strip f2; state = strip f4; place_name = strip f2
        in if \<not> army place_name then Inr (Some (zipcode, name, state, latitude, longitude))
           else Inr None))))))))"

text \<open>
  The generator as a whole: the records it yields until a line raises or the lines
  end.
\<close>

fun parse_lines :: "library \<Rightarrow> string list \<Rightarrow> zip_record list \<times> error option" where
  "parse_lines lib [] = ([], None)"
| "parse_lines lib (line # lines) =
     (case parse_line lib line of
        Inl e \<Rightarrow> ([], Some e)
      | Inr None \<Rightarrow> parse_lines lib lines
      | Inr (Some rec) \<Rightarrow> (case parse_lines lib lines of (recs, err) \<Rightarrow> (rec # recs, err)))"

text \<open>
  The download (lines 135 to 138) and the opening of the member \<^verbatim>\<open>US.txt\<close> (lines 140
  to 142). The status of the response is not tested: whatever the server sends is
  written to the file.
\<close>

definition download_zip :: "web \<Rightarrow> files \<Rightarrow> files \<times> error option" where
  "download_zip w fs =
     (case geonames w of
        Unreachable e \<Rightarrow> (fs, Some e)
      | Interrupted e \<Rightarrow> (fs\<lparr>us_zip := Some NotZip\<rparr>, Some e)
      | Complete a \<Rightarrow> (fs\<lparr>us_zip := Some a\<rparr>, None))"

definition read_us_txt :: "files \<Rightarrow> string list result" where
  "read_us_txt fs =
     (case us_zip fs of
        None \<Rightarrow> Inl FileNotFoundError
      | Some NotZip \<Rightarrow> Inl BadZipFile
      | Some (Zip members) \<Rightarrow>
          (case map_of members ''US.txt'' of None \<Rightarrow> Inl KeyError | Some lines \<Rightarrow> Inr lines))"

definition open_geonames :: "web \<Rightarrow> files \<Rightarrow> files \<times> string list result" where
  "open_geonames w fs =
     (case download_zip w fs of
        (fs', Some e) \<Rightarrow> (fs', Inl e)
      | (fs', None) \<Rightarrow> (fs', read_us_txt fs'))"

definition get_zipcodes_from_geonames ::
  "library \<Rightarrow> web \<Rightarrow> files \<Rightarrow> files \<times> zip_record list \<times> error option" where
  "get_zipcodes_from_geonames lib w fs =
     (case open_geonames w fs of
        (fs', Inl e) \<Rightarrow> (fs', [], Some e)
      | (fs', Inr lines) \<Rightarrow> (fs', parse_lines lib lines))"

text \<open>
  The loop of \<^verbatim>\<open>create_zipcodes\<close> (lines 202 to 229) as it runs on the lines: a line is
  parsed when the loop asks for the next record, after the iterations before it have
  committed.
\<close>

fun create_zipcodes_lines :: "library \<Rightarrow> db \<Rightarrow> string list \<Rightarrow> db \<times> error option" where
  "create_zipcodes_lines lib d [] = (d, None)"
| "create_zipcodes_lines lib d (line # lines) =
     (case parse_line lib line of
        Inl e \<Rightarrow> (d, Some e)
      | Inr None \<Rightarrow> create_zipcodes_lines lib d lines
      | Inr (Some rec) \<Rightarrow>
          (case create_zipcode (encode_key lib) d rec of
             Inl e \<Rightarrow> (d, Some e)
           | Inr d' \<Rightarrow> create_zipcodes_lines lib d' lines))"

section \<open>The loaders on the feeds\<close>

text \<open>
  \<^verbatim>\<open>create_sensors\<close> (lines 242 to 292) and \<^verbatim>\<open>create_zipcodes\<close> (lines 200 to 229)
  with the reads of their feeds: \<open>load_sensors\<close> gets the value of the sensor feed and
  loops over it, \<open>load_zipcodes\<close> downloads and opens the archive and loops over its
  lines. Both return the database as committed, the files, and the exception that
  ended them, if any.
\<close>

definition load_sensors ::
  "library \<Rightarrow> (nat \<Rightarrow> real) \<Rightarrow> web \<Rightarrow> db \<Rightarrow> files \<Rightarrow> db \<times> files \<times> error option" where
  "load_sensors lib clock w d fs =
     (case get_purpleair_data w fs of
        (fs', Inl e) \<Rightarrow> (d, fs', Some e)
      | (fs', Inr results) \<Rightarrow>
          (case create_sensors_json lib clock d results of (d', err) \<Rightarrow> (d', fs', err)))"

definition load_zipcodes ::
  "library \<Rightarrow> web \<Rightarrow> db \<Rightarrow> files \<Rightarrow> db \<times> files \<times> error option" where
  "load_zipcodes lib w d fs =
     (case open_geonames w fs of
        (fs', Inl e) \<Rightarrow> (d, fs', Some e)
      | (fs', Inr lines) \<Rightarrow>
          (case create_zipcodes_lines lib d lines of (d', err) \<Rightarrow> (d', fs', err)))"

section \<open>The format of the file\<close>

text \<open>
  The printer of the format, for the round trip: \<open>join_tab\<close> is \<^verbatim>\<open>"\t".join\<close>, and
  \<open>geonames_line\<close> writes a record as a line of the file \<^verbatim>\<open>US.txt\<close>, which has the
  country in its first column, the postal code, the place and the state in the columns
  1, 2 and 4, and the coordinates in the columns 9 and 10; \<open>show\<close> writes a number.
\<close>

fun join_tab :: "string list \<Rightarrow> string" where
  "join_tab [] = []"
| "join_tab [f] = f"
| "join_tab (f # g # fs) = f @ tab # join_tab (g # fs)"

abbreviation newline :: char where
  "newline \<equiv> CHR 0x0A"

definition geonames_line :: "(real \<Rightarrow> string) \<Rightarrow> zip_record \<Rightarrow> string" where
  "geonames_line show rec =
     (case rec of (zipcode, name, state, latitude, longitude) \<Rightarrow>
        join_tab [''US'', zipcode, name, [], state, [], [], [], [], show latitude,
          show longitude] @ [newline])"

text \<open>
  A text is \<open>trimmed\<close> when \<^verbatim>\<open>strip\<close> leaves it as it is, and \<open>clean\<close> when it can
  be a column: trimmed and without a tab. \<open>printer_ok\<close> is what the round trip asks of
  the text of a number: a clean text that is not empty and that \<^verbatim>\<open>Decimal\<close> reads back.
\<close>

definition trimmed :: "string \<Rightarrow> bool" where
  "trimmed s \<longleftrightarrow> s = [] \<or> \<not> py_space (hd s) \<and> \<not> py_space (last s)"

definition clean :: "string \<Rightarrow> bool" where
  "clean s \<longleftrightarrow> tab \<notin> set s \<and> trimmed s"

definition printer_ok :: "library \<Rightarrow> (real \<Rightarrow> string) \<Rightarrow> real \<Rightarrow> bool" where
  "printer_ok lib show x \<longleftrightarrow> clean (show x) \<and> show x \<noteq> [] \<and> decimal_of_str lib (show x) = Some x"

section \<open>Text\<close>

lemma split_on_not_Nil [simp]: "split_on sep s \<noteq> []"
  by (induction s) auto

lemma split_on_free: "sep \<notin> set f \<Longrightarrow> split_on sep f = [f]"
  by (induction f) auto

lemma split_on_append:
  "sep \<notin> set f \<Longrightarrow> split_on sep (f @ sep # s) = f # split_on sep s"
  by (induction f) auto

lemma length_split_on: "length (split_on sep s) = Suc (count_list s sep)"
  by (induction s) (auto simp: Suc_pred')

lemma join_tab_Cons: "fs \<noteq> [] \<Longrightarrow> join_tab (f # fs) = f @ tab # join_tab fs"
  by (cases fs) simp_all

lemma join_tab_Cons_Cons [simp]: "join_tab ((c # f) # fs) = c # join_tab (f # fs)"
  by (cases fs) simp_all

lemma split_on_join_tab:
  "cols \<noteq> [] \<Longrightarrow> list_all (\<lambda>f. tab \<notin> set f) cols \<Longrightarrow> split_on tab (join_tab cols) = cols"
proof (induction cols rule: join_tab.induct)
  case (3 f g fs)
  then show ?case by (simp add: split_on_append)
qed (simp_all add: split_on_free)

lemma join_tab_split_on: "join_tab (split_on tab s) = s"
proof (induction s)
  case (Cons c s)
  then show ?case
    by (cases "split_on tab s") (auto simp: join_tab_Cons)
qed simp

lemma strip_pad:
  assumes "list_all py_space us" and "list_all py_space ws" and "trimmed s"
  shows "strip (us @ s @ ws) = s"
proof (cases "s = []")
  case True
  with assms(1,2) show ?thesis
    by (auto simp: strip_def list_all_iff dropWhile_append2 dest: set_dropWhileD)
next
  case False
  with assms(3) have hd: "\<not> py_space (hd s)" and last: "\<not> py_space (last s)"
    by (simp_all add: trimmed_def)
  from False hd have "dropWhile py_space (s @ ws) = s @ ws"
    by (cases s) simp_all
  moreover from False last have "dropWhile py_space (rev s) = rev s"
    by (cases s rule: rev_cases) simp_all
  moreover have "dropWhile py_space (rev ws @ rev s) = dropWhile py_space (rev s)"
    using assms(2) by (intro dropWhile_append2) (simp add: list_all_iff)
  moreover have "dropWhile py_space (us @ s @ ws) = dropWhile py_space (s @ ws)"
    using assms(1) by (intro dropWhile_append2) (simp add: list_all_iff)
  ultimately show ?thesis by (simp add: strip_def)
qed

lemma trimmed_strip [simp]: "trimmed (strip s)"
proof -
  let ?t = "dropWhile py_space s"
  let ?u = "dropWhile py_space (rev ?t)"
  have u: "?u = [] \<or> \<not> py_space (hd ?u)"
    using hd_dropWhile [of py_space "rev ?t"] by blast
  have "strip s = [] \<or> \<not> py_space (hd (strip s))"
  proof (cases "?u = []")
    case False
    then have "?t \<noteq> []" by (cases "?t = []") simp_all
    then have "\<not> py_space (hd ?t)" by (rule hd_dropWhile)
    moreover obtain n where "?u = drop n (rev ?t)"
      using dropWhile_eq_drop by blast
    then have "rev ?u = take (length ?t - n) ?t" by (simp add: rev_drop)
    with False have "hd (rev ?u) = hd ?t" 
      by (metis hd_take Nil_is_rev_conv take_eq_Nil not_gr_zero)
    ultimately show ?thesis by (simp add: strip_def)
  qed (simp add: strip_def)
  moreover have "strip s = [] \<or> \<not> py_space (last (strip s))"
    using u by (auto simp: strip_def last_rev)
  ultimately show ?thesis by (auto simp: trimmed_def)
qed

lemma strip_trimmed: "trimmed s \<Longrightarrow> strip s = s"
  using strip_pad [of "[]" "[]" s] by simp

lemma strip_eq_iff: "strip s = s \<longleftrightarrow> trimmed s"
  by (metis strip_trimmed trimmed_strip)

lemma strip_idem [simp]: "strip (strip s) = strip s"
  by (simp add: strip_trimmed)

lemma strip_Nil [simp]: "strip [] = []"
  by (simp add: strip_def)

section \<open>One line\<close>

lemma field_simps [simp]:
  "i < length cols \<Longrightarrow> field cols i = Inr (cols ! i)"
  "length cols \<le> i \<Longrightarrow> field cols i = Inl IndexError"
  by (simp_all add: field_def)

lemma decimal_simps [simp]:
  "decimal_of_str lib s = Some x \<Longrightarrow> decimal lib s = Inr x"
  "decimal_of_str lib s = None \<Longrightarrow> decimal lib s = Inl InvalidOperation"
  by (simp_all add: decimal_def)

lemma parse_line_fields:
  assumes "10 < length (fields_of line)"
    and "decimal_of_str lib (strip (fields_of line ! 9)) = Some latitude"
    and "decimal_of_str lib (strip (fields_of line ! 10)) = Some longitude"
  shows "parse_line lib line =
     Inr (if army (strip (fields_of line ! 2)) then None
          else Some (strip (fields_of line ! 1), strip (fields_of line ! 2),
                 strip (fields_of line ! 4), latitude, longitude))"
  using assms by (simp add: parse_line_def Let_def)

lemma parse_line_Inr:
  assumes "parse_line lib line = Inr r"
  obtains latitude longitude where "10 < length (fields_of line)"
    and "decimal_of_str lib (strip (fields_of line ! 9)) = Some latitude"
    and "decimal_of_str lib (strip (fields_of line ! 10)) = Some longitude"
proof -
  from assms have "10 < length (fields_of line)"
    by (auto simp: parse_line_def Let_def bind_result_eq_Inr field_def split: if_splits)
  moreover from this assms obtain latitude longitude
    where "decimal lib (strip (fields_of line ! 9)) = Inr latitude"
      and "decimal lib (strip (fields_of line ! 10)) = Inr longitude"
    by (auto simp: parse_line_def Let_def bind_result_eq_Inr)
  ultimately show thesis
    by (intro that [of latitude longitude]) (auto simp: decimal_def split: option.splits)
qed

lemma parse_line_Inl:
  assumes "parse_line lib line = Inl e"
  shows "e = IndexError \<and> length (fields_of line) \<le> 10 \<or>
         e = InvalidOperation \<and> 9 < length (fields_of line)"
  using assms
  by (auto simp: parse_line_def Let_def bind_result_eq_Inl bind_result_eq_Inr field_def decimal_def
      split: if_splits option.splits)

lemma parse_line_short:
  "length (fields_of line) \<le> 9 \<Longrightarrow> parse_line lib line = Inl IndexError"
  by (auto simp: parse_line_def Let_def field_def bind_result_def)

section \<open>The round trip of a line\<close>

lemma clean_simps:
  "clean s \<Longrightarrow> strip s = s"
  "clean s \<Longrightarrow> tab \<notin> set s"
  "clean s \<Longrightarrow> s \<noteq> [] \<Longrightarrow> \<not> py_space (last s)"
  by (simp_all add: clean_def strip_trimmed trimmed_def)

lemma join_tab_eq_Nil: "join_tab cols = [] \<longleftrightarrow> cols = [] \<or> cols = [[]]"
  by (induction cols rule: join_tab.induct) simp_all

lemma last_join_tab:
  "cols \<noteq> [] \<Longrightarrow> last cols \<noteq> [] \<Longrightarrow> last (join_tab cols) = last (last cols)"
  by (induction cols rule: join_tab.induct) (auto simp: join_tab_eq_Nil)

lemma fields_of_join_tab:
  assumes "cols \<noteq> []" and "list_all (\<lambda>f. tab \<notin> set f) cols"
    and "hd cols \<noteq> []" and "\<not> py_space (hd (hd cols))"
    and "last cols \<noteq> []" and "\<not> py_space (last (last cols))"
  shows "fields_of (join_tab cols @ [newline]) = cols"
proof -
  from assms(1,3) have "join_tab cols \<noteq> []" and "hd (join_tab cols) = hd (hd cols)"
    by (cases cols; cases "hd cols"; simp)+
  with assms(1,4-6) have "trimmed (join_tab cols)"
    by (simp add: trimmed_def last_join_tab)
  from strip_pad [of "[]" "[newline]", OF _ _ this]
  have "strip (join_tab cols @ [newline]) = join_tab cols"
    by (simp add: py_space_def)
  with assms(1,2) show ?thesis by (simp add: fields_of_def split_on_join_tab)
qed

lemma fields_of_geonames_line:
  assumes "clean zipcode" and "clean name" and "clean state"
    and "clean (show latitude)" and "clean (show longitude)" and "show longitude \<noteq> []"
  shows "fields_of (geonames_line show (zipcode, name, state, latitude, longitude)) =
     [''US'', zipcode, name, [], state, [], [], [], [], show latitude, show longitude]"
proof -
  have "\<not> py_space (CHR ''U'')" by (simp add: py_space_def)
  with assms show ?thesis
    unfolding geonames_line_def prod.case
    by (intro fields_of_join_tab) (simp_all add: clean_simps)
qed

section \<open>The generator\<close>

lemma parse_lines_append:
  "parse_lines lib (xs @ ys) =
     (case parse_lines lib xs of
        (recs, None) \<Rightarrow> (case parse_lines lib ys of (recs', err) \<Rightarrow> (recs @ recs', err))
      | (recs, Some e) \<Rightarrow> (recs, Some e))"
  by (induction xs) (auto split: sum.splits option.splits prod.splits)

lemma and_then_simps [simp]:
  "and_then (d, None) err = (d, err)"
  "and_then (d, Some e) err = (d, Some e)"
  "and_then r None = r"
  by (auto simp: and_then_def split: option.splits prod.splits)

lemma fst_and_then [simp]: "fst (and_then r err) = fst r"
  by (auto simp: and_then_def split: option.splits prod.splits)

lemma create_zipcodes_lines_staged:
  "create_zipcodes_lines lib d lines =
     and_then (create_zipcodes (encode_key lib) d (fst (parse_lines lib lines)))
       (snd (parse_lines lib lines))"
proof (induction lines arbitrary: d)
  case (Cons line lines)
  show ?case
  proof (cases "parse_line lib line")
    case (Inr r)
    with Cons show ?thesis
      by (cases r; cases "parse_lines lib lines")
        (auto split: sum.splits)
  qed simp
qed simp

section \<open>The sensor feed\<close>

lemma record_of_object: "is_object v \<Longrightarrow> record_of v = Inr (map_of (items_of v))"
  by (cases v) simp_all

lemma record_of_other: "\<not> is_object v \<Longrightarrow> record_of v = Inl AttributeError"
  by (cases v) simp_all

lemma create_sensors_items_staged:
  "create_sensors_items lib clock i d vs =
     and_then (create_sensors_loop lib clock i d
                 (map (\<lambda>v. map_of (items_of v)) (takeWhile is_object vs)))
       (if list_all is_object vs then None else Some AttributeError)"
proof (induction vs arbitrary: i d)
  case (Cons v vs)
  show ?case
  proof (cases "is_object v")
    case True
    with Cons show ?thesis
      by (cases "create_sensor lib (clock i) d (map_of (items_of v))")
        (simp_all add: record_of_object)
  qed (simp add: record_of_other)
qed simp

lemma create_sensors_json_feed_wf:
  "feed_wf results \<Longrightarrow>
   create_sensors_json lib clock d results = create_sensors lib clock d (records_of results)"
  by (cases results)
    (simp_all add: create_sensors_json_def create_sensors_items_staged records_of_def
      create_sensors_def list_all_iff)

lemma create_sensors_items_db_inv:
  "db_inv d \<Longrightarrow> db_inv (fst (create_sensors_items lib clock i d vs))"
  by (simp add: create_sensors_items_staged db_inv_create_sensors_loop)

lemma create_sensors_json_db_inv:
  "db_inv d \<Longrightarrow> db_inv (fst (create_sensors_json lib clock d results))"
  by (cases "py_iter results") (simp_all add: create_sensors_json_def create_sensors_items_db_inv)

lemma create_sensors_json_frame:
  assumes "create_sensors_json lib clock d results = (d', err)"
  shows "zipcodes d' = zipcodes d \<and> zipcodes_seq d' = zipcodes_seq d \<and>
         cities d' = cities d \<and> cities_seq d' = cities_seq d \<and>
         sensors_zipcodes d' = sensors_zipcodes d \<and> set (sensors d) \<subseteq> set (sensors d')"
proof (cases "py_iter results")
  case (Inr vs)
  let ?rs = "map (\<lambda>v. map_of (items_of v)) (takeWhile is_object vs)"
  obtain d1 err1 where loop: "create_sensors_loop lib clock 0 d ?rs = (d1, err1)"
    by (cases "create_sensors_loop lib clock 0 d ?rs")
  with assms Inr have "d' = d1"
    by (cases err1) (auto simp: create_sensors_json_def create_sensors_items_staged)
  with create_sensors_loop_frame [OF loop] show ?thesis by simp
qed (use assms in \<open>simp add: create_sensors_json_def\<close>)

section \<open>The cache of the sensor feed\<close>

lemma get_purpleair_data_cached:
  "purpleair_json fs = Some c \<Longrightarrow> get_purpleair_data w fs = (fs, json_load fs)"
  by (simp add: get_purpleair_data_def)

lemma get_purpleair_data_frame [simp, frame]:
  "airq_db (fst (get_purpleair_data w fs)) = airq_db fs"
  "us_zip (fst (get_purpleair_data w fs)) = us_zip fs"
  by (simp_all add: get_purpleair_data_def Let_def split: sum.splits)

lemma get_purpleair_data_Inr:
  assumes "get_purpleair_data w fs = (fs', Inr results)"
  shows "purpleair_json fs' = Some (Dumped results)"
  using assms
  by (auto simp: get_purpleair_data_def json_load_def Let_def
      split: if_splits sum.splits option.splits cache.splits)

lemma get_purpleair_data_download:
  assumes "purpleair_json fs = None" and "purpleair w = Inr resp" and "status_ok resp"
    and "body resp = Some (JObject kvs)" and "map_of kvs ''results'' = Some results"
  shows "get_purpleair_data w fs = (fs\<lparr>purpleair_json := Some (Dumped results)\<rparr>, Inr results)"
  using assms by (simp add: get_purpleair_data_def response_json_def json_load_def)

lemma get_purpleair_data_truncated:
  assumes "purpleair_json fs = None" and "purpleair w = Inr resp" and "status_ok resp"
    and "bind_result (response_json resp) (\<lambda>j. py_subscript j ''results'') = Inl e"
  shows "get_purpleair_data w fs = (fs\<lparr>purpleair_json := Some Truncated\<rparr>, Inl e)"
  using assms by (simp add: get_purpleair_data_def)

section \<open>The archive\<close>

lemma open_geonames_frame [simp, frame]:
  "airq_db (fst (open_geonames w fs)) = airq_db fs"
  "purpleair_json (fst (open_geonames w fs)) = purpleair_json fs"
  by (simp_all add: open_geonames_def download_zip_def split: download.splits)

lemma open_geonames_Complete:
  "geonames w = Complete a \<Longrightarrow>
   open_geonames w fs = (fs\<lparr>us_zip := Some a\<rparr>, read_us_txt (fs\<lparr>us_zip := Some a\<rparr>))"
  by (simp add: open_geonames_def download_zip_def)

lemma open_geonames_lines: "snd (open_geonames w fs) = snd (open_geonames w fs')"
  by (cases "geonames w") (simp_all add: open_geonames_def download_zip_def read_us_txt_def)

lemma get_zipcodes_from_geonames_records:
  "snd (get_zipcodes_from_geonames lib w fs) = snd (get_zipcodes_from_geonames lib w fs')"
  using open_geonames_lines [of w fs fs']
  by (cases "open_geonames w fs"; cases "open_geonames w fs'")
    (auto simp: get_zipcodes_from_geonames_def split: sum.splits)

lemma read_us_txt_member:
  "us_zip fs = Some (Zip members) \<Longrightarrow> map_of members ''US.txt'' = Some lines \<Longrightarrow>
   read_us_txt fs = Inr lines"
  by (simp add: read_us_txt_def)

lemma refresh_data_simps [simp]:
  "airq_db (refresh_data fs) = None"
  "us_zip (refresh_data fs) = None"
  "purpleair_json (refresh_data fs) = None"
  by (simp_all add: refresh_data_def)

lemma refresh_data_const: "refresh_data fs = refresh_data (fs' :: files)"
  by (simp add: refresh_data_def)

section \<open>The loaders\<close>

lemma load_sensors_cases:
  obtains (no_feed) fs' e where "get_purpleair_data w fs = (fs', Inl e)"
      "load_sensors lib clock w d fs = (d, fs', Some e)"
  | (feed) fs' results d' err where "get_purpleair_data w fs = (fs', Inr results)"
      "create_sensors_json lib clock d results = (d', err)"
      "load_sensors lib clock w d fs = (d', fs', err)"
proof (cases "get_purpleair_data w fs")
  case (Pair fs' r)
  show ?thesis
  proof (cases r)
    case (Inl e)
    with Pair show ?thesis by (intro no_feed [of fs' e]) (simp_all add: load_sensors_def)
  next
    case (Inr results)
    obtain d' err where "create_sensors_json lib clock d results = (d', err)"
      by (cases "create_sensors_json lib clock d results")
    with Pair Inr show ?thesis
      by (intro feed [of fs' results d' err]) (simp_all add: load_sensors_def)
  qed
qed

lemma load_zipcodes_staged:
  "load_zipcodes lib w d fs =
     (case get_zipcodes_from_geonames lib w fs of
        (fs', recs, gerr) \<Rightarrow>
          (case and_then (create_zipcodes (encode_key lib) d recs) gerr of
             (d', err) \<Rightarrow> (d', fs', err)))"
  by (auto simp: load_zipcodes_def get_zipcodes_from_geonames_def create_zipcodes_lines_staged
      split: prod.splits sum.splits)

lemma load_sensors_db_inv:
  assumes "db_inv d"
  shows "db_inv (fst (load_sensors lib clock w d fs))"
proof (cases rule: load_sensors_cases [of w fs lib clock d])
  case (no_feed fs' e)
  with assms show ?thesis by simp
next
  case (feed fs' results d' err)
  with create_sensors_json_db_inv [OF assms, of lib clock results] show ?thesis by simp
qed

lemma load_zipcodes_db_inv:
  assumes "db_inv d" and "encoder_wf (encode_key lib)"
  shows "db_inv (fst (load_zipcodes lib w d fs))"
proof -
  obtain fs' recs gerr where gen: "get_zipcodes_from_geonames lib w fs = (fs', recs, gerr)"
    by (cases "get_zipcodes_from_geonames lib w fs")
  obtain d' err where loop: "and_then (create_zipcodes (encode_key lib) d recs) gerr = (d', err)"
    by (cases "and_then (create_zipcodes (encode_key lib) d recs) gerr")
  from fst_and_then [of "create_zipcodes (encode_key lib) d recs" gerr] loop
  have "d' = fst (create_zipcodes (encode_key lib) d recs)" by simp
  with db_inv_create_zipcodes [OF assms, of recs] gen loop show ?thesis
    by (simp add: load_zipcodes_staged)
qed

end
