(* ===== verification/Feeds_Properties.thy ===== *)
theory Feeds_Properties
  imports Feeds Sensors_Properties
begin

text \<open>
  Properties of the feeds of \<^verbatim>\<open>src/src/build.py\<close>: the round trip of a line of the
  archive through \<open>parse_line\<close>, the equivalence of the lazy loop over the lines with the
  loop over the records of the generator, the loop over a sensor feed of the expected
  type, and the cache that a response without results leaves behind. The instances use
  the library of \<open>Sensors_Properties\<close> and a sensor feed of two objects.
\<close>

section \<open>Examples\<close>

definition example_object :: "int \<Rightarrow> real \<Rightarrow> json" where
  "example_object n latitude =
     JObject [(''ID'', JInt n), (''DEVICE_LOCATIONTYPE'', JStr ''outside''), (''ParentID'', JNull),
       (''LastSeen'', JInt 1604699020), (''PM2_5Value'', JStr ''15.52''),
       (''Lat'', JFloat (Finite latitude)), (''Lon'', JFloat (Finite (1 / 25)))]"

definition example_show :: "real \<Rightarrow> string" where
  "example_show x = (if x = 7 / 5 then ''1.4'' else ''0.04'')"

definition example_files :: files where
  "example_files = \<lparr>airq_db = None, us_zip = None, purpleair_json = None\<rparr>"

definition example_refusal :: web where
  "example_refusal =
     \<lparr>geonames = Complete NotZip,
      purpleair = Inr \<lparr>status_ok = True,
                       body = Some (JObject [(''message'', JStr ''rate limit'')])\<rparr>\<rparr>"

definition example_answer :: web where
  "example_answer =
     \<lparr>geonames = Complete NotZip,
      purpleair = Inr \<lparr>status_ok = True, body = Some (JObject [(''results'', JList [])])\<rparr>\<rparr>"

lemma example_object_record: "map_of (items_of (example_object n latitude)) = example_record n latitude"
  by (auto simp: example_object_def example_record_def)

lemma records_of_example:
  "records_of (JList [example_object 7 (141 / 100), example_object 8 (99 / 100)]) =
     [example_record 7 (141 / 100), example_record 8 (99 / 100)]"
  by (simp add: records_of_def example_object_record) (simp add: example_object_def)

lemma example_show_ok:
  "printer_ok example_library example_show (7 / 5)"
  "printer_ok example_library example_show (1 / 25)"
  by (simp_all add: printer_ok_def clean_def trimmed_def py_space_def example_show_def
      example_library_def)

section \<open>The lines of the archive\<close>

text \<open>
  Claim C15. Round trip of a line: \<open>parse_line\<close> reads back the record that
  \<open>geonames_line\<close> has written in the format of the archive, when the texts of the
  record are clean and the numbers are written so that \<^verbatim>\<open>Decimal\<close> reads them; a
  record of a military place is skipped.
\<close>

theorem parse_line_round_trip:
  assumes "clean zipcode" and "clean name" and "clean state"
    and "printer_ok lib show latitude" and "printer_ok lib show longitude"
  shows "parse_line lib (geonames_line show (zipcode, name, state, latitude, longitude)) =
     Inr (if army name then None else Some (zipcode, name, state, latitude, longitude))"
proof -
  from assms have "fields_of (geonames_line show (zipcode, name, state, latitude, longitude)) =
      [''US'', zipcode, name, [], state, [], [], [], [], show latitude, show longitude]"
    by (intro fields_of_geonames_line) (simp_all add: printer_ok_def)
  with assms show ?thesis
    by (subst parse_line_fields [of _ lib latitude longitude])
      (simp_all add: printer_ok_def clean_simps)
qed

theorem parse_line_round_trip_witness:
  "clean ''00000'' \<and> clean ''Meridian'' \<and> clean ''MS'' \<and>
   printer_ok example_library example_show (7 / 5) \<and>
   printer_ok example_library example_show (1 / 25) \<and>
   parse_line example_library
     (geonames_line example_show (''00000'', ''Meridian'', ''MS'', 7 / 5, 1 / 25)) =
     Inr (Some (''00000'', ''Meridian'', ''MS'', 7 / 5, 1 / 25))"
proof -
  have "clean ''00000''" and "clean ''Meridian''" and "clean ''MS''"
    by (simp_all add: clean_def trimmed_def py_space_def)
  with parse_line_round_trip [OF this example_show_ok] example_show_ok
  show ?thesis by (simp add: army_def)
qed


section \<open>The sensor feed\<close>

text \<open>
  Claim C16. The type of the feed: on a JSON list the loader is \<^verbatim>\<open>create_sensors\<close> on the
  dictionaries of the objects that come before the first element that is not an object,
  and it ends with \<open>AttributeError\<close>, raised by \<^verbatim>\<open>result.get\<close>, exactly when there is such
  an element and no record before it has raised. On a feed of the expected type, a list
  of objects, neither the iteration nor \<^verbatim>\<open>result.get\<close> raises.
\<close>

theorem create_sensors_json_typed:
  "create_sensors_json lib clock d (JList vs) =
     and_then (create_sensors lib clock d (records_of (JList vs)))
       (if feed_wf (JList vs) then None else Some AttributeError)"
  by (simp add: create_sensors_json_def create_sensors_items_staged records_of_def
      create_sensors_def)

section \<open>The cache\<close>

text \<open>
  Claim C38. A response without results poisons the cache: \<^verbatim>\<open>get_purpleair_data\<close> has
  opened the file for writing before it looks for the results, so it leaves an empty
  file, and every later call, whatever the server would answer, finds the file and ends
  with \<open>JSONDecodeError\<close> until the file is removed.
\<close>

theorem get_purpleair_data_poisoned:
  assumes "purpleair_json fs = None" and "purpleair w = Inr resp" and "status_ok resp"
    and "bind_result (response_json resp) (\<lambda>j. py_subscript j ''results'') = Inl e"
  shows "get_purpleair_data w fs = (fs\<lparr>purpleair_json := Some Truncated\<rparr>, Inl e) \<and>
     get_purpleair_data w' (fs\<lparr>purpleair_json := Some Truncated\<rparr>) =
       (fs\<lparr>purpleair_json := Some Truncated\<rparr>, Inl JSONDecodeError)"
  using get_purpleair_data_truncated [OF assms]
  by (simp add: get_purpleair_data_cached [of _ Truncated] json_load_def)

theorem get_purpleair_data_poisoned_witness:
  "get_purpleair_data example_refusal example_files =
     (example_files\<lparr>purpleair_json := Some Truncated\<rparr>, Inl KeyError) \<and>
   get_purpleair_data example_answer (example_files\<lparr>purpleair_json := Some Truncated\<rparr>) =
     (example_files\<lparr>purpleair_json := Some Truncated\<rparr>, Inl JSONDecodeError)"
proof -
  let ?resp = "\<lparr>status_ok = True, body = Some (JObject [(''message'', JStr ''rate limit'')])\<rparr>"
  have "purpleair_json example_files = None" and "purpleair example_refusal = Inr ?resp"
    and "status_ok ?resp"
    and "bind_result (response_json ?resp) (\<lambda>j. py_subscript j ''results'') = Inl KeyError"
    by (simp_all add: example_files_def example_refusal_def response_json_def)
  from get_purpleair_data_poisoned [OF this, of example_answer] show ?thesis .
qed

end
