(* ===== verification/Matcher_Machine.thy ===== *)
theory Matcher_Machine
  imports Matcher
begin

text \<open>
  The proximity matcher as a state machine: the control flow of
  \<^verbatim>\<open>create_sensors_zipcodes\<close> (\<^verbatim>\<open>src/src/build.py\<close>, lines 156 to 184) one step at a
  time, where \<open>Matcher\<close> has the function as a whole.

  \<^item> A configuration (\<open>config\<close>) is a point of the code with the values of its
    variables: at the test of \<^verbatim>\<open>while gh\<close>, at the head of the \<^verbatim>\<open>for\<close> loop with the
    part of \<^verbatim>\<open>new_sensors\<close> that is left, or after the function has returned or raised.
  \<^item> \<open>matcher_step\<close> is the step relation, one rule per branch of the code;
    \<open>next_config\<close> is the same step as a function, and \<open>matcher_steps\<close> is a run.
  \<^item> \<open>potential\<close> bounds the number of steps that are left; every step lowers it.
  \<^item> The lemmas show that the steps are deterministic and never stuck, that every run
    ends, that the runs from the start end in the result of the function of \<open>Matcher\<close>,
    and that every reachable configuration satisfies \<open>config_inv\<close>: what is linked so
    far is below 25 km, at most 25 sensors, each once, and exactly the set \<^verbatim>\<open>sensors\<close>.
\<close>

section \<open>Configurations and steps\<close>

datatype config =
    AtWhile string "int set" db
  | InFor string "(int \<times> real) list" "int set" db
  | Halted "db result"

inductive matcher_step :: "int \<Rightarrow> real \<Rightarrow> real \<Rightarrow> config \<Rightarrow> config \<Rightarrow> bool"
  for zid :: int and latitude :: real and longitude :: real where
  leave: "matcher_step zid latitude longitude (AtWhile [] selected cur) (Halted (Inr cur))"
| query: "gh \<noteq> [] \<Longrightarrow> select_sensors cur gh selected = Inr rows \<Longrightarrow>
     map_result (with_distance latitude longitude) rows = Inr ds \<Longrightarrow>
     matcher_step zid latitude longitude (AtWhile gh selected cur)
       (InFor gh (sort_key snd ds) selected cur)"
| query_error: "gh \<noteq> [] \<Longrightarrow> select_sensors cur gh selected = Inl e \<Longrightarrow>
     matcher_step zid latitude longitude (AtWhile gh selected cur) (Halted (Inl e))"
| distance_error: "gh \<noteq> [] \<Longrightarrow> select_sensors cur gh selected = Inr rows \<Longrightarrow>
     map_result (with_distance latitude longitude) rows = Inl e \<Longrightarrow>
     matcher_step zid latitude longitude (AtWhile gh selected cur) (Halted (Inl e))"
| pop: "matcher_step zid latitude longitude (InFor gh [] selected cur)
     (AtWhile (butlast gh) selected cur)"
| too_far: "25 \<le> distance \<Longrightarrow>
     matcher_step zid latitude longitude (InFor gh ((sid, distance) # new_sensors) selected cur)
       (Halted (Inr cur))"
| full: "distance < 25 \<Longrightarrow> 25 \<le> card selected \<Longrightarrow>
     matcher_step zid latitude longitude (InFor gh ((sid, distance) # new_sensors) selected cur)
       (Halted (Inr cur))"
| link: "distance < 25 \<Longrightarrow> card selected < 25 \<Longrightarrow>
     insert_sensor_zipcode cur sid zid distance = Inr cur' \<Longrightarrow>
     matcher_step zid latitude longitude (InFor gh ((sid, distance) # new_sensors) selected cur)
       (InFor gh new_sensors (insert sid selected) cur')"
| link_error: "distance < 25 \<Longrightarrow> card selected < 25 \<Longrightarrow>
     insert_sensor_zipcode cur sid zid distance = Inl e \<Longrightarrow>
     matcher_step zid latitude longitude (InFor gh ((sid, distance) # new_sensors) selected cur)
       (Halted (Inl e))"

abbreviation matcher_steps :: "int \<Rightarrow> real \<Rightarrow> real \<Rightarrow> config \<Rightarrow> config \<Rightarrow> bool" where
  "matcher_steps zid latitude longitude \<equiv> (matcher_step zid latitude longitude)\<^sup>*\<^sup>*"

inductive_cases halted_stepE [elim!]: "matcher_step zid latitude longitude (Halted r) c"

text \<open>The step as a function: \<open>None\<close> when the function has returned or raised.\<close>

fun next_config :: "int \<Rightarrow> real \<Rightarrow> real \<Rightarrow> config \<Rightarrow> config option" where
  "next_config zid latitude longitude (Halted r) = None"
| "next_config zid latitude longitude (AtWhile gh selected cur) =
     Some (if gh = [] then Halted (Inr cur)
           else case bind_result (select_sensors cur gh selected)
                       (map_result (with_distance latitude longitude)) of
                  Inl e \<Rightarrow> Halted (Inl e)
                | Inr ds \<Rightarrow> InFor gh (sort_key snd ds) selected cur)"
| "next_config zid latitude longitude (InFor gh [] selected cur) =
     Some (AtWhile (butlast gh) selected cur)"
| "next_config zid latitude longitude (InFor gh ((sid, distance) # new_sensors) selected cur) =
     Some (if 25 \<le> distance then Halted (Inr cur)
           else if 25 \<le> card selected then Halted (Inr cur)
           else case insert_sensor_zipcode cur sid zid distance of
                  Inl e \<Rightarrow> Halted (Inl e)
                | Inr cur' \<Rightarrow> InFor gh new_sensors (insert sid selected) cur')"

fun run :: "nat \<Rightarrow> int \<Rightarrow> real \<Rightarrow> real \<Rightarrow> config \<Rightarrow> config" where
  "run 0 zid latitude longitude c = c"
| "run (Suc n) zid latitude longitude c =
     (case next_config zid latitude longitude c of
        None \<Rightarrow> c
      | Some c' \<Rightarrow> run n zid latitude longitude c')"

text \<open>
  The number of steps that are left at most: a round of the outer loop is one query,
  one step per row of the answer, which has no more rows than the table, and one step
  to pop the key.
\<close>

fun potential :: "config \<Rightarrow> nat" where
  "potential (AtWhile gh selected cur) = length gh * (length (sensors cur) + 2) + 1"
| "potential (InFor gh new_sensors selected cur) =
     (length gh - 1) * (length (sensors cur) + 2) + length new_sensors + 2"
| "potential (Halted r) = 0"

text \<open>
  What holds between the database \<open>d0\<close> at the call and the database \<open>d\<close> and the
  set \<open>selected\<close> of a configuration: \<open>d\<close> is \<open>d0\<close> with links of the postal code
  appended, each below 25 km, no sensor twice, at most 25, and \<open>selected\<close> is the set
  of their sensors.
\<close>

definition linked_so_far :: "int \<Rightarrow> db \<Rightarrow> int set \<Rightarrow> db \<Rightarrow> bool" where
  "linked_so_far zid d0 selected d \<longleftrightarrow>
     d\<lparr>sensors_zipcodes := sensors_zipcodes d0\<rparr> = d0 \<and>
     prefix (sensors_zipcodes d0) (sensors_zipcodes d) \<and>
     list_all (\<lambda>l. link_zipcode_id l = zid \<and> link_distance l < 25) (new_links d0 d) \<and>
     distinct (map link_sensor_id (new_links d0 d)) \<and>
     selected = link_sensor_id ` set (new_links d0 d) \<and>
     length (new_links d0 d) \<le> 25"

fun config_inv :: "int \<Rightarrow> db \<Rightarrow> config \<Rightarrow> bool" where
  "config_inv zid d0 (AtWhile gh selected d) \<longleftrightarrow> linked_so_far zid d0 selected d"
| "config_inv zid d0 (InFor gh new_sensors selected d) \<longleftrightarrow> linked_so_far zid d0 selected d"
| "config_inv zid d0 (Halted (Inr d)) \<longleftrightarrow>
     linked_so_far zid d0 (link_sensor_id ` set (new_links d0 d)) d"
| "config_inv zid d0 (Halted (Inl e)) \<longleftrightarrow> True"

inductive reachable :: "int \<Rightarrow> real \<Rightarrow> real \<Rightarrow> string \<Rightarrow> db \<Rightarrow> config \<Rightarrow> bool"
  for zid :: int and latitude :: real and longitude :: real and gh :: string and d0 :: db where
  start: "reachable zid latitude longitude gh d0 (AtWhile gh {} d0)"
| step: "reachable zid latitude longitude gh d0 c \<Longrightarrow> matcher_step zid latitude longitude c c' \<Longrightarrow>
     reachable zid latitude longitude gh d0 c'"

text \<open>Where the inner loop leaves the machine, from the result of \<open>insert_new_sensors\<close>.\<close>

fun after_for :: "string \<Rightarrow> (loop_exit \<times> int set \<times> db) result \<Rightarrow> config" where
  "after_for gh (Inl e) = Halted (Inl e)"
| "after_for gh (Inr (Returned, selected, cur)) = Halted (Inr cur)"
| "after_for gh (Inr (Exhausted, selected, cur)) = InFor gh [] selected cur"

section \<open>Steps are deterministic and never stuck\<close>

lemma matcher_step_iff:
  "matcher_step zid latitude longitude c c' \<longleftrightarrow> next_config zid latitude longitude c = Some c'"
proof
  assume "matcher_step zid latitude longitude c c'"
  then show "next_config zid latitude longitude c = Some c'"
    by (induction rule: matcher_step.induct) simp_all
next
  assume "next_config zid latitude longitude c = Some c'"
  then show "matcher_step zid latitude longitude c c'"
  proof (cases "(zid, latitude, longitude, c)" rule: next_config.cases)
    case (2 zid' latitude' longitude' gh selected cur)
    with \<open>next_config zid latitude longitude c = Some c'\<close> show ?thesis
      by (cases "select_sensors cur gh selected")
        (auto simp: bind_result_def split: if_splits sum.splits intro: matcher_step.intros)
  next
    case (4 zid' latitude' longitude' gh sid distance new_sensors selected cur)
    with \<open>next_config zid latitude longitude c = Some c'\<close> show ?thesis
      by (auto split: if_splits sum.splits intro: matcher_step.intros simp: not_le)
  qed (auto intro: matcher_step.intros)
qed

lemma matcher_step_deterministic:
  "matcher_step zid latitude longitude c c1 \<Longrightarrow> matcher_step zid latitude longitude c c2 \<Longrightarrow>
   c1 = c2"
  by (simp add: matcher_step_iff)

lemma matcher_step_progress:
  "(\<exists>c'. matcher_step zid latitude longitude c c') \<longleftrightarrow> (\<forall>r. c \<noteq> Halted r)"
  by (cases "(zid, latitude, longitude, c)" rule: next_config.cases)
    (simp_all add: matcher_step_iff)

lemma halted_final: "matcher_steps zid latitude longitude (Halted r) c \<Longrightarrow> c = Halted r"
  by (induction rule: rtranclp_induct) auto

lemma matcher_steps_final_unique:
  assumes "matcher_steps zid latitude longitude c (Halted r)"
    and "matcher_steps zid latitude longitude c (Halted r')"
  shows "r = r'"
  using assms
proof (induction rule: converse_rtranclp_induct)
  case base
  then show ?case by (auto dest: halted_final)
next
  case (step c c1)
  from step.prems step.hyps(1) obtain c2 where "matcher_step zid latitude longitude c c2"
    and "matcher_steps zid latitude longitude c2 (Halted r')"
    by (auto elim: converse_rtranclpE)
  with step show ?case by (auto dest: matcher_step_deterministic)
qed

section \<open>Every run ends\<close>

lemma length_select_sensors:
  "select_sensors d gh excl = Inr rows \<Longrightarrow> length rows \<le> length (sensors d)"
  by (auto simp: select_sensors_def split: if_splits)

lemma insert_sensor_zipcode_sensors:
  "insert_sensor_zipcode d sid zid distance = Inr d' \<Longrightarrow> sensors d' = sensors d"
  by (auto simp: insert_sensor_zipcode_Inr)

lemma round_bound:
  assumes "gh \<noteq> []" and "n \<le> N"
  shows "(length gh - 1) * (N + 2) + n + 2 < length gh * (N + 2) + 1"
proof -
  from assms(1) obtain k where "length gh = Suc k" by (cases gh) auto
  with assms(2) show ?thesis by simp
qed

lemma matcher_step_potential:
  "matcher_step zid latitude longitude c c' \<Longrightarrow> potential c' < potential c"
proof (induction rule: matcher_step.induct)
  case (query gh cur selected rows ds)
  from query(2,3) have "length (sort_key snd ds) \<le> length (sensors cur)"
    using length_select_sensors [OF query(2)] map_result_Inr_length [OF query(3)] by simp
  with round_bound [OF query(1), of "length (sort_key snd ds)" "length (sensors cur)"]
  show ?case by simp
next
  case (link distance selected cur sid cur' gh new_sensors)
  then show ?case by (simp add: insert_sensor_zipcode_sensors)
qed simp_all

lemma matcher_steps_potential:
  "(matcher_step zid latitude longitude ^^ n) c c' \<Longrightarrow> n + potential c' \<le> potential c"
proof (induction n arbitrary: c')
  case (Suc n)
  then obtain c1 where "(matcher_step zid latitude longitude ^^ n) c c1"
    and "matcher_step zid latitude longitude c1 c'" by auto
  with Suc.IH [of c1] matcher_step_potential [of zid latitude longitude c1 c'] show ?case
    by simp
qed simp

lemma matcher_halts: "\<exists>r. matcher_steps zid latitude longitude c (Halted r)"
proof (induction "potential c" arbitrary: c rule: less_induct)
  case less
  show ?case
  proof (cases "\<exists>r. c = Halted r")
    case True
    then show ?thesis by auto
  next
    case False
    then obtain c' where c': "matcher_step zid latitude longitude c c'"
      using matcher_step_progress [of zid latitude longitude c] by auto
    then have "potential c' < potential c" by (rule matcher_step_potential)
    then obtain r where "matcher_steps zid latitude longitude c' (Halted r)"
      using less by blast
    with c' show ?thesis by (blast intro: converse_rtranclp_into_rtranclp)
  qed
qed

lemma run_steps: "matcher_steps zid latitude longitude c (run n zid latitude longitude c)"
proof (induction n arbitrary: c)
  case (Suc n)
  show ?case
  proof (cases "next_config zid latitude longitude c")
    case (Some c')
    then have "matcher_step zid latitude longitude c c'" by (simp add: matcher_step_iff)
    with Suc [of c'] Some show ?thesis by (simp add: converse_rtranclp_into_rtranclp)
  qed simp
qed simp

section \<open>The runs and the function\<close>

lemma in_for_steps:
  "matcher_steps zid latitude longitude (InFor gh new_sensors selected cur)
     (after_for gh (insert_new_sensors zid new_sensors selected cur))"
proof (induction new_sensors arbitrary: selected cur)
  case (Cons p new_sensors)
  obtain sid distance where p: "p = (sid, distance)" by (cases p)
  show ?case
  proof (cases "25 \<le> distance \<or> 25 \<le> card selected")
    case True
    then have "matcher_step zid latitude longitude (InFor gh (p # new_sensors) selected cur)
        (Halted (Inr cur))"
      unfolding p by (cases "25 \<le> distance") (auto intro: too_far full)
    with True show ?thesis by (auto simp: p)
  next
    case False
    show ?thesis
    proof (cases "insert_sensor_zipcode cur sid zid distance")
      case (Inl e)
      with False have "matcher_step zid latitude longitude
          (InFor gh (p # new_sensors) selected cur) (Halted (Inl e))"
        unfolding p by (intro link_error) simp_all
      with False Inl show ?thesis by (simp add: p)
    next
      case (Inr cur')
      with False have "matcher_step zid latitude longitude
          (InFor gh (p # new_sensors) selected cur)
          (InFor gh new_sensors (insert sid selected) cur')"
        unfolding p by (intro link) simp_all
      with False Inr Cons [of "insert sid selected" cur'] show ?thesis
        by (simp add: p converse_rtranclp_into_rtranclp)
    qed
  qed
qed simp

text \<open>One round of the outer loop: the query, then the inner loop on its sorted answer.\<close>

lemma round_steps:
  assumes "gh \<noteq> []"
    and "bind_result (select_sensors cur gh selected)
           (map_result (with_distance latitude longitude)) = Inr ds"
  shows "matcher_steps zid latitude longitude (AtWhile gh selected cur)
     (after_for gh (insert_new_sensors zid (sort_key snd ds) selected cur))"
proof -
  from assms have "matcher_step zid latitude longitude (AtWhile gh selected cur)
      (InFor gh (sort_key snd ds) selected cur)"
    by (simp add: matcher_step_iff)
  from this in_for_steps show ?thesis by (rule converse_rtranclp_into_rtranclp)
qed

lemma round_error_step:
  assumes "gh \<noteq> []"
    and "bind_result (select_sensors cur gh selected)
           (map_result (with_distance latitude longitude)) = Inl e"
  shows "matcher_step zid latitude longitude (AtWhile gh selected cur) (Halted (Inl e))"
  using assms by (simp add: matcher_step_iff)

text \<open>The rest of the run after the inner loop, given the runs on the shorter key.\<close>

lemma after_for_steps:
  assumes "\<And>selected' cur'. matcher_steps zid latitude longitude (AtWhile gh selected' cur')
      (Halted (create_sensors_zipcodes_loop zid latitude longitude gh selected' cur'))"
  shows "matcher_steps zid latitude longitude (after_for (gh @ [x]) r)
     (Halted (bind_result r (\<lambda>(exit, selected', cur').
        case exit of Returned \<Rightarrow> Inr cur'
        | Exhausted \<Rightarrow> create_sensors_zipcodes_loop zid latitude longitude gh selected' cur')))"
proof (cases "(gh @ [x], r)" rule: after_for.cases)
  case (3 gh' selected' cur')
  have "matcher_step zid latitude longitude (InFor (gh @ [x]) [] selected' cur')
      (AtWhile gh selected' cur')"
    using pop [of zid latitude longitude "gh @ [x]" selected' cur'] by simp
  from this assms have "matcher_steps zid latitude longitude (InFor (gh @ [x]) [] selected' cur')
      (Halted (create_sensors_zipcodes_loop zid latitude longitude gh selected' cur'))"
    by (rule converse_rtranclp_into_rtranclp)
  with 3 show ?thesis by simp
qed simp_all

lemma create_sensors_zipcodes_loop_round_result:
  "create_sensors_zipcodes_loop zid latitude longitude (gh @ [x]) selected cur =
     (case bind_result (select_sensors cur (gh @ [x]) selected)
             (map_result (with_distance latitude longitude)) of
        Inl e \<Rightarrow> Inl e
      | Inr ds \<Rightarrow> bind_result (insert_new_sensors zid (sort_key snd ds) selected cur)
          (\<lambda>(exit, selected', cur').
             case exit of Returned \<Rightarrow> Inr cur'
             | Exhausted \<Rightarrow>
                 create_sensors_zipcodes_loop zid latitude longitude gh selected' cur'))"
  by (auto simp: create_sensors_zipcodes_loop_snoc bind_result_def split: sum.splits)

lemma at_while_steps:
  "matcher_steps zid latitude longitude (AtWhile gh selected cur)
     (Halted (create_sensors_zipcodes_loop zid latitude longitude gh selected cur))"
proof (induction gh arbitrary: selected cur rule: rev_induct)
  case Nil
  show ?case by (simp add: leave r_into_rtranclp)
next
  case (snoc x gh)
  let ?gh = "gh @ [x]"
  note loop = create_sensors_zipcodes_loop_round_result [of zid latitude longitude gh x selected cur]
  show ?case
  proof (cases "bind_result (select_sensors cur ?gh selected)
      (map_result (with_distance latitude longitude))")
    case (Inl e)
    with round_error_step [of ?gh cur selected latitude longitude e zid] loop
    show ?thesis by (simp add: r_into_rtranclp)
  next
    case (Inr ds)
    have "matcher_steps zid latitude longitude (AtWhile ?gh selected cur)
        (after_for ?gh (insert_new_sensors zid (sort_key snd ds) selected cur))"
      using Inr by (intro round_steps) simp_all
    also have "matcher_steps zid latitude longitude
        (after_for ?gh (insert_new_sensors zid (sort_key snd ds) selected cur))
        (Halted (create_sensors_zipcodes_loop zid latitude longitude ?gh selected cur))"
      using after_for_steps [OF snoc] Inr by (simp add: loop)
    finally show ?thesis .
  qed
qed

lemma matcher_steps_iff:
  "matcher_steps zid latitude longitude (AtWhile gh selected cur) (Halted r) \<longleftrightarrow>
     r = create_sensors_zipcodes_loop zid latitude longitude gh selected cur"
  using at_while_steps [of zid latitude longitude gh selected cur]
  by (auto dest: matcher_steps_final_unique)

lemma run_halts: "potential c \<le> n \<Longrightarrow> \<exists>r. run n zid latitude longitude c = Halted r"
proof (induction n arbitrary: c)
  case 0
  then show ?case by (cases c) simp_all
next
  case (Suc n)
  show ?case
  proof (cases "next_config zid latitude longitude c")
    case None
    then show ?thesis by (cases "(zid, latitude, longitude, c)" rule: next_config.cases) simp_all
  next
    case (Some c')
    then have "potential c' < potential c"
      by (simp add: matcher_step_potential matcher_step_iff)
    with Suc.prems have "potential c' \<le> n" by simp
    with Suc.IH [of c'] Some show ?thesis by simp
  qed
qed

lemma run_at_while:
  "run (potential (AtWhile gh selected cur)) zid latitude longitude (AtWhile gh selected cur) =
     Halted (create_sensors_zipcodes_loop zid latitude longitude gh selected cur)"
proof -
  let ?c = "AtWhile gh selected cur"
  obtain r where r: "run (potential ?c) zid latitude longitude ?c = Halted r"
    using run_halts [of ?c "potential ?c" zid latitude longitude] by blast
  have "matcher_steps zid latitude longitude ?c (Halted r)"
    using run_steps [of zid latitude longitude ?c "potential ?c"] unfolding r .
  then have "r = create_sensors_zipcodes_loop zid latitude longitude gh selected cur"
    by (simp only: matcher_steps_iff)
  with r show ?thesis by (simp only:)
qed

section \<open>The invariant of the configurations\<close>

lemma linked_so_far_start: "linked_so_far zid d {} d"
  by (simp add: linked_so_far_def new_links_def)

lemma linked_so_far_add_links:
  "linked_so_far zid d0 selected d \<Longrightarrow>
   d = add_links d0 zid (map (\<lambda>l. (link_sensor_id l, link_distance l)) (new_links d0 d))"
proof -
  assume inv: "linked_so_far zid d0 selected d"
  then have frame: "d\<lparr>sensors_zipcodes := sensors_zipcodes d0\<rparr> = d0"
    by (simp add: linked_so_far_def)
  from inv have "sensors_zipcodes d0 @ new_links d0 d = sensors_zipcodes d"
    by (auto simp: linked_so_far_def new_links_def prefix_def)
  moreover from inv have "map (link_of zid \<circ> (\<lambda>l. (link_sensor_id l, link_distance l)))
      (new_links d0 d) = new_links d0 d"
    by (intro map_idI) (auto simp: linked_so_far_def list_all_iff link_of_def)
  moreover have "d0\<lparr>sensors_zipcodes := sensors_zipcodes d\<rparr> = d"
    by (subst frame [symmetric]) simp
  ultimately show ?thesis by (simp add: add_links_def)
qed

lemma new_links_snoc:
  "prefix (sensors_zipcodes d0) (sensors_zipcodes d) \<Longrightarrow>
   new_links d0 (d\<lparr>sensors_zipcodes := sensors_zipcodes d @ [l]\<rparr>) = new_links d0 d @ [l]"
  by (simp add: new_links_def prefix_length_le)

lemma linked_so_far_link:
  assumes "linked_so_far zid d0 selected d" and "distance < 25" and "card selected < 25"
    and "insert_sensor_zipcode d sid zid distance = Inr d'"
  shows "linked_so_far zid d0 (insert sid selected) d'"
proof -
  let ?l = "\<lparr>link_sensor_id = sid, link_zipcode_id = zid, link_distance = distance\<rparr>"
  from assms(1) have ids: "selected = link_sensor_id ` set (new_links d0 d)"
    and dist: "distinct (map link_sensor_id (new_links d0 d))"
    and pre: "prefix (sensors_zipcodes d0) (sensors_zipcodes d)"
    and zip: "list_all (\<lambda>l. link_zipcode_id l = zid \<and> link_distance l < 25) (new_links d0 d)"
    by (simp_all add: linked_so_far_def)
  from assms(4) have key: "(sid, zid) \<notin> link_key ` set (sensors_zipcodes d)"
    and d': "d' = d\<lparr>sensors_zipcodes := sensors_zipcodes d @ [?l]\<rparr>"
    by (simp_all add: insert_sensor_zipcode_Inr)
  have fresh: "sid \<notin> selected"
  proof
    assume "sid \<in> selected"
    with ids obtain l where l: "l \<in> set (new_links d0 d)" "link_sensor_id l = sid" by auto
    with zip have "link_zipcode_id l = zid" by (simp add: list_all_iff)
    moreover from l(1) have "l \<in> set (sensors_zipcodes d)"
      by (auto simp: new_links_def dest: in_set_dropD)
    ultimately show False using key l(2) by (auto simp: image_iff)
  qed
  from dist ids have card: "card selected = length (new_links d0 d)"
    by (metis distinct_card length_map set_map)
  from assms(1) have "d'\<lparr>sensors_zipcodes := sensors_zipcodes d0\<rparr> = d0"
    unfolding d' by (simp add: linked_so_far_def)
  moreover from pre have "prefix (sensors_zipcodes d0) (sensors_zipcodes d')"
    unfolding d' by (simp add: prefix_prefix)
  ultimately show ?thesis
    using assms(2,3) ids dist zip fresh card
    by (simp add: linked_so_far_def d' new_links_snoc [OF pre])
qed

lemma matcher_step_inv:
  "matcher_step zid latitude longitude c c' \<Longrightarrow> config_inv zid d0 c \<Longrightarrow> config_inv zid d0 c'"
proof (induction rule: matcher_step.induct)
  case (link distance selected cur sid cur' gh new_sensors)
  then show ?case by (simp add: linked_so_far_link)
qed (auto simp: linked_so_far_def)

lemma reachable_inv: "reachable zid latitude longitude gh d0 c \<Longrightarrow> config_inv zid d0 c"
proof (induction rule: reachable.induct)
  case start
  show ?case by (simp add: linked_so_far_start)
next
  case (step c c')
  then show ?case by (blast intro: matcher_step_inv)
qed

lemma reachable_iff_steps:
  "reachable zid latitude longitude gh d0 c \<longleftrightarrow>
     matcher_steps zid latitude longitude (AtWhile gh {} d0) c"
proof
  assume "reachable zid latitude longitude gh d0 c"
  then show "matcher_steps zid latitude longitude (AtWhile gh {} d0) c"
    by (induction rule: reachable.induct) auto
next
  assume "matcher_steps zid latitude longitude (AtWhile gh {} d0) c"
  then show "reachable zid latitude longitude gh d0 c"
    by (induction rule: rtranclp_induct) (auto intro: reachable.intros)
qed

end
