(* ===== verification/Machine_Properties.thy ===== *)
theory Machine_Properties
  imports Matcher_Machine Matcher_Properties
begin

text \<open>
  Properties of the state machine of the proximity matcher (\<^verbatim>\<open>create_sensors_zipcodes\<close>,
  \<^verbatim>\<open>src/src/build.py\<close>, lines 156 to 184): its runs end in the result of the function,
  every run is bounded, every configuration leads to a halt, and every reachable
  configuration satisfies the invariant. The instances are a run of three steps on the
  empty database and the run on the five sensors of \<open>Matcher_Properties\<close>.
\<close>

section \<open>Runs and the function\<close>

text \<open>
  Claim C8. The machine and the function agree: a run from the start of
  \<^verbatim>\<open>create_sensors_zipcodes\<close> halts in a result exactly when this is the result of the
  function, the database it returns or the exception it raises; and the step function,
  run for as many steps as the potential of the start, computes it.
\<close>

theorem matcher_machine_equivalence:
  "(matcher_steps zid latitude longitude (AtWhile gh {} d) (Halted r) \<longleftrightarrow>
      r = create_sensors_zipcodes d zid zipcode latitude longitude gh) \<and>
   run (length gh * (length (sensors d) + 2) + 1) zid latitude longitude (AtWhile gh {} d) =
     Halted (create_sensors_zipcodes d zid zipcode latitude longitude gh)"
  using run_at_while [of gh "{}" d zid latitude longitude]
  by (simp add: matcher_steps_iff create_sensors_zipcodes_def)

text \<open>
  Claim C13. Termination: a run of \<open>n\<close> steps from the start of
  \<^verbatim>\<open>create_sensors_zipcodes\<close> has at most \<open>k * (m + 2) + 1\<close> steps, for a key of \<open>k\<close>
  symbols and a table \<^verbatim>\<open>sensors\<close> of \<open>m\<close> rows: one query, one step per row of its
  answer and one to pop the key in every round, and one to leave the loop. No run goes on
  for ever, whatever the tables hold.
\<close>

theorem matcher_machine_terminates:
  assumes "(matcher_step zid latitude longitude ^^ n) (AtWhile gh {} d) c"
  shows "n \<le> length gh * (length (sensors d) + 2) + 1"
  using matcher_steps_potential [OF assms] by simp

theorem matcher_machine_terminates_witness:
  "(matcher_step 1 0 0 ^^ 3) (AtWhile ''s'' {} empty_db) (Halted (Inr empty_db)) \<and>
   (3 :: nat) \<le> length ''s'' * (length (sensors empty_db) + 2) + 1"
proof -
  have "matcher_step 1 0 0 (AtWhile ''s'' {} empty_db) (InFor ''s'' [] {} empty_db)"
    and "matcher_step 1 0 0 (InFor ''s'' [] {} empty_db) (AtWhile [] {} empty_db)"
    and "matcher_step 1 0 0 (AtWhile [] {} empty_db) (Halted (Inr empty_db))"
    by (simp_all add: matcher_step_iff select_sensors_def)
  then have run: "(matcher_step 1 0 0 ^^ 3) (AtWhile ''s'' {} empty_db) (Halted (Inr empty_db))"
    by (auto simp: numeral_3_eq_3 intro: relcomppI)
  from matcher_machine_terminates [OF run] run show ?thesis by simp
qed

text \<open>
  Claim C18. Liveness: from every configuration, at the test of the outer loop or inside
  the inner loop, with any key, any set of selected sensors and any tables, the machine
  reaches a halt: the function returns a database or raises.
\<close>

theorem matcher_machine_halts:
  "\<exists>r. matcher_steps zid latitude longitude c (Halted r)"
  by (rule matcher_halts)

section \<open>The invariant\<close>

text \<open>
  Claim C17. In every configuration that a run of \<^verbatim>\<open>create_sensors_zipcodes\<close> reaches,
  the database is the one of the call with links of the postal code appended, each
  shorter than 25 km, no sensor twice and at most 25 of them, and the set
  \<^verbatim>\<open>sensors\<close> of the code is exactly the set of the sensors linked so far.
\<close>

theorem matcher_machine_invariant:
  assumes "reachable zid latitude longitude gh d0 c"
  shows "config_inv zid d0 c"
  using assms by (rule reachable_inv)

theorem matcher_machine_invariant_witness:
  "reachable 1 0 (1 / 25) ''s0000bj0h040'' example_db
     (Halted (Inr (add_links example_db 1 example_links))) \<and>
   config_inv 1 example_db (Halted (Inr (add_links example_db 1 example_links)))"
proof -
  have "reachable 1 0 (1 / 25) ''s0000bj0h040'' example_db
     (Halted (Inr (add_links example_db 1 example_links)))"
    using at_while_steps [of 1 0 "1 / 25" "''s0000bj0h040''" "{}" example_db] example_run
    by (simp add: reachable_iff_steps create_sensors_zipcodes_def)
  with matcher_machine_invariant [OF this] show ?thesis by simp
qed

end
