(* ===== verification/Spec2Isabelle.thy ===== *)
theory Spec2Isabelle
  imports AirQ_Prelude Haversine Database Matcher Matcher_Properties Geohash Zipcodes
    Zipcodes_Properties Sensors Sensors_Properties Feeds Feeds_Properties Matcher_Machine
    Machine_Properties
begin

text \<open>
  \<^bold>\<open>A verification development for airq-data\<close> (\<^verbatim>\<open>src/src/build.py\<close>).

  \<^bold>\<open>The program.\<close> \<^verbatim>\<open>build.py\<close> builds an SQLite database that links every US postal
  code to the air-quality sensors around it. \<^verbatim>\<open>generate\<close> deletes the old files
  (\<^verbatim>\<open>refresh_data\<close>), creates four tables (\<^verbatim>\<open>create_db\<close>), loads the sensors of a
  JSON feed (\<^verbatim>\<open>create_sensors\<close>), then loads the postal codes of a tab-separated
  file and, for each of them, looks up or creates its city (\<^verbatim>\<open>create_city\<close>),
  inserts its row and links it to at most 25 sensors closer than 25 km
  (\<^verbatim>\<open>create_sensors_zipcodes\<close>, with \<^verbatim>\<open>haversine_distance\<close>). The database has no
  spatial index: every row stores the 12 symbols of the geohash of its coordinates in
  12 columns, and the matcher asks for the rows that agree with the postal code on the
  first \<open>L\<close> columns, for \<open>L\<close> from 12 down to 1.

  \<^bold>\<open>Theories.\<close>
  \<^descr>[\<open>AirQ_Prelude\<close>] exceptions as values (\<open>error\<close>, \<open>'a result\<close>, \<open>bind_result\<close>,
    \<open>map_result\<close>), facts on stable sorting, on cutting a list with \<open>take\<close> and
    \<open>takeWhile\<close>, on key prefixes and on partitions of a list by a key, and Python's
    \<^verbatim>\<open>round\<close>.
  \<^descr>[\<open>Haversine\<close>] \<^verbatim>\<open>haversine_distance\<close> (lines 13-30) with the domain errors of
    \<^verbatim>\<open>math.sqrt\<close> and \<^verbatim>\<open>math.asin\<close>; the reference \<open>great_circle_km\<close>; the proof
    that the code computes it and never raises; symmetry, bounds, the law of cosines,
    closed forms on a meridian and on the equator, and the comparisons with 25 km that
    the examples need.
  \<^descr>[\<open>Database\<close>] the four tables of \<^verbatim>\<open>create_db\<close> (lines 54-131) as a record \<open>db\<close> of
    lists of rows in rowid order, and one definition per SQL statement of the program:
    \<open>insert_sensor\<close> (lines 275-288), \<open>insert_zipcode\<close> (211-227), \<open>select_city\<close>
    (188-191), \<open>insert_city\<close> (194-197), \<open>insert_sensor_zipcode\<close> (180-183),
    \<open>select_sensors\<close> (161-170). A statement returns the new database or the exception
    of \<^verbatim>\<open>sqlite3\<close>: \<open>IntegrityError\<close> for a primary key or the UNIQUE column,
    \<open>ProgrammingError\<close> for a wrong number of bindings, \<open>OperationalError\<close> for a
    column or a table that does not fit. The invariant \<open>db_inv\<close> is \<open>schema_inv\<close> (what
    SQLite enforces) and \<open>program_inv\<close> (what only the program keeps: foreign keys, which
    the connection does not enforce, one city per name and state, the bounds on links).
  \<^descr>[\<open>Matcher\<close>] \<^verbatim>\<open>create_sensors_zipcodes\<close> (lines 156-184): the inner loop
    \<open>insert_new_sensors\<close>, the outer loop \<open>create_sensors_zipcodes_loop\<close> on the
    shrinking key, the specification \<open>nearest_sensors\<close>, and the lemmas that connect
    them: the closed form of both loops, what every successful run does, the candidates
    as a set and as an ordered list, the invariant.
  \<^descr>[\<open>Matcher_Properties\<close>] the properties of the matcher and their instances on a
    database of five sensors on the equator.
  \<^descr>[\<open>Matcher_Machine\<close>] the same function as a state machine: \<open>config\<close> are the
    points of the code with the values of the variables, \<open>matcher_step\<close> is an
    inductive step relation with one rule per branch (the query and its two errors, the
    three ways out of the inner loop, the insert and its error, the pop of the key, the
    end of the outer loop), \<open>next_config\<close> the same step as a function and \<open>run\<close> its
    iteration. The lemmas show determinism and progress, that \<open>potential\<close> falls with
    every step, that the runs from the start end in the result of
    \<open>create_sensors_zipcodes_loop\<close>, and the invariant \<open>config_inv\<close> of the reachable
    configurations by rule induction.
  \<^descr>[\<open>Machine_Properties\<close>] equivalence of machine and function, termination, liveness
    and the invariant, with a run of three steps on the empty database.
  \<^descr>[\<open>Geohash\<close>] the encoder of spatial keys behind \<^verbatim>\<open>geohash.encode\<close> (called on
    lines 210 and 272). The library is not part of the repository: the theory models it
    from the specification of the SpatialKey component, as 60 steps of bisection and 12
    symbols of the base-32 alphabet, and proves the length of a key, the prefix
    property, and that the rectangle of every prefix contains the point and halves with
    every bit.
  \<^descr>[\<open>Zipcodes\<close>] \<^verbatim>\<open>create_city\<close> (lines 187-197) and \<^verbatim>\<open>create_zipcodes\<close> (lines
    200-229): \<open>create_city\<close>, the loop body \<open>create_zipcode\<close>, the loop
    \<open>create_zipcodes\<close> with one commit per record, the closed form \<open>zipcode_added\<close> of
    a successful iteration, and an induction rule for complete runs. The encoder is an
    argument of the loader; its lemmas assume \<open>encoder_wf\<close> only.
  \<^descr>[\<open>Zipcodes_Properties\<close>] the properties of the city registry and of the loader,
    with \<open>geohash_encode\<close> as the encoder in their instances.
  \<^descr>[\<open>Sensors\<close>] \<^verbatim>\<open>create_sensors\<close> (lines 242-292): the values of \<^verbatim>\<open>json.load\<close>
    (\<open>json\<close>, \<open>pyfloat\<close>), Python's truth test, comparison and \<^verbatim>\<open>float\<close> on them with
    their exceptions, the loop body \<open>create_sensor\<close> with every \<^verbatim>\<open>continue\<close> and every
    exception of the source, the loop \<open>create_sensors\<close>, and the filter as a predicate
    (\<open>accepted\<close>). The library functions whose grammar is their own are arguments
    (\<open>library\<close>): \<^verbatim>\<open>float\<close> on a string, SQLite's conversion of a text to an integer
    key, the encoder, and \<^verbatim>\<open>Decimal\<close> on a string for the feed of postal codes.
  \<^descr>[\<open>Sensors_Properties\<close>] the properties of the sensor loader and their instances on
    records in the format of the feed.
  \<^descr>[\<open>Feeds\<close>] the files and the servers. \<open>files\<close> is what the program keeps on
    disk (the database, the archive \<^verbatim>\<open>US.zip\<close>, the cache \<^verbatim>\<open>purpleair.json\<close>), \<open>web\<close>
    what the two servers answer. \<^verbatim>\<open>refresh_data\<close> (lines 33-47) removes the three
    files; \<^verbatim>\<open>get_purpleair_data\<close> (lines 232-239) reads the cache or downloads and
    writes it; \<^verbatim>\<open>get_zipcodes_from_geonames\<close> (lines 134-153) is \<open>download_zip\<close>,
    \<open>read_us_txt\<close>, and \<open>parse_line\<close> on every line, with \<^verbatim>\<open>strip\<close> and \<^verbatim>\<open>split\<close> on
    strings. \<open>create_sensors_json\<close> is the loop of \<^verbatim>\<open>create_sensors\<close> on any JSON value,
    \<open>create_zipcodes_lines\<close> the loop of \<^verbatim>\<open>create_zipcodes\<close> on the lines, in the order
    in which the generator is consumed; \<open>load_sensors\<close> and \<open>load_zipcodes\<close> are the two
    functions with the reads of their feeds. The lemmas reduce both loops to the loops
    over records of \<open>Sensors\<close> and \<open>Zipcodes\<close>.
  \<^descr>[\<open>Feeds_Properties\<close>] the round trip of a line, the equivalence of the lazy and the
    staged loop, the loader on a feed of the expected type, the cache after a response
    without results.
  \<^descr>[\<open>Spec2Isabelle\<close>] (this theory) \<^verbatim>\<open>generate\<close> (lines 295-299), the properties of a
    whole run, and a run on two sensors and one postal code that is evaluated from the
    answers of the servers to the files it leaves.

  \<^bold>\<open>Bounds.\<close> The outer loop of the matcher is a \<open>function\<close> whose termination is
  proved by the length of the key, which every round shortens by one symbol; the loops
  over the feeds are structural recursions on the list of records or lines. The only
  fuel is the number of steps of \<open>run\<close> in \<open>Matcher_Machine\<close>: \<open>potential\<close> of the start,
  \<open>k * (m + 2) + 1\<close> for a key of \<open>k\<close> symbols and a table of \<open>m\<close> sensors, is proved to
  be enough for every run, and a run of three steps on the empty table shows that the
  bound is reached. 12 is the number of key columns of the tables, 25 both the radius in
  km and the number of links, as in the code. The matcher is proved correct for every
  key of at most 12 symbols and every sensor table with distinct ids and 12 symbols per
  row; a longer key is proved to raise.

  \<^bold>\<open>Numbers.\<close> Finite floats and decimals are exact reals (see \<open>AirQ_Prelude\<close>):
  rounding errors of the floating-point operations are not modelled, so a sensor within
  one rounding error of 25 km may be classified differently by the program. The values
  of the sensor feed also have the infinities and NaN. \<^verbatim>\<open>Decimal\<close> on a column of the
  archive is \<open>decimal_of_str\<close>, with \<open>None\<close> where it raises; the texts it reads as an
  infinity or as NaN have no real value and are outside the model. Integers are
  unbounded, as in Python; an id outside the 64 bits of a rowid raises.

  \<^bold>\<open>Texts.\<close> Strings are lists of code points below 256. The lines of the archive are
  taken as decoded; \<^verbatim>\<open>line.decode()\<close> and its \<^verbatim>\<open>UnicodeDecodeError\<close> are not modelled.

  \<^bold>\<open>Time.\<close> \<^verbatim>\<open>create_sensors\<close> reads the clock in every iteration; \<open>clock i\<close> is the
  time read by iteration \<open>i\<close>, and no lemma assumes anything of it.

  \<^bold>\<open>Libraries.\<close> \<^verbatim>\<open>math\<close>, \<^verbatim>\<open>round\<close>, \<^verbatim>\<open>str.strip\<close>, \<^verbatim>\<open>str.split\<close> and the statements of
  \<^verbatim>\<open>sqlite3\<close> are modelled at the places the source calls them, from their documented
  behaviour; rows come back in rowid order, as SQLite scans a table without an index.
  The functions whose grammar is their own (\<^verbatim>\<open>float\<close> and \<^verbatim>\<open>Decimal\<close> on a string,
  SQLite's reading of a text as an integer) and the encoder are arguments of the model
  (\<open>library\<close>). \<^verbatim>\<open>requests\<close>, \<^verbatim>\<open>zipfile\<close> and \<^verbatim>\<open>json\<close> are modelled by their results: a
  download is what the server answers (\<open>web\<close>), an archive its members, and
  \<^verbatim>\<open>json.load\<close> returns the value that \<^verbatim>\<open>json.dump\<close> wrote.

  \<^bold>\<open>Transactions.\<close> Every iteration of a loader opens a connection, writes and
  commits. An exception ends the program before the commit of the iteration, so the
  database on disk is the one the last complete iteration committed: the loaders and
  \<open>generate\<close> return that database together with the exception, if any.

  \<^bold>\<open>Not modelled.\<close> The progress messages. \<^verbatim>\<open>get_connection\<close> (lines 50-51): the
  model passes the database explicitly, and \<open>None\<close> in \<open>airq_db\<close> stands for a file
  without tables, so the loaders are defined on a database that \<^verbatim>\<open>create_db\<close> has made.
  Failures of the file system other than a missing file (permissions, a full disk).
  The bytes of the files: the text of the JSON cache and the compression of the archive.
\<close>

section \<open>The pipeline\<close>

text \<open>
  \<^verbatim>\<open>generate\<close> (lines 295 to 299) runs the steps in order: it removes the files,
  creates the tables, loads the sensors and then the postal codes. The result is the
  files it leaves, with the database as committed, and the exception that ended the run,
  if any.
\<close>

definition generate :: "library \<Rightarrow> (nat \<Rightarrow> real) \<Rightarrow> web \<Rightarrow> files \<Rightarrow> files \<times> error option" where
  "generate lib clock w fs =
     (let fs0 = refresh_data fs in
      case create_db (airq_db fs0) of
        Inl e \<Rightarrow> (fs0, Some e)
      | Inr d0 \<Rightarrow>
          (case load_sensors lib clock w d0 fs0 of
             (d1, fs1, Some e) \<Rightarrow> (fs1\<lparr>airq_db := Some d1\<rparr>, Some e)
           | (d1, fs1, None) \<Rightarrow>
               (case load_zipcodes lib w d1 fs1 of
                  (d2, fs2, err) \<Rightarrow> (fs2\<lparr>airq_db := Some d2\<rparr>, err))))"

section \<open>A run on the meridian of 0.04 degrees\<close>

text \<open>
  Two sensors at the latitudes 1.41 (id 7) and 0.99 (id 8) and one postal code at the
  latitude 1.40, all at the longitude 0.04. Sensor 7 is 0.01 degrees from the postal
  code, about 1.1 km, and shares two key symbols with it; sensor 8 is 0.41 degrees
  away, more than 25 km, and shares three. \<open>meridian_web\<close> is what the two servers
  answer: a response with the two sensors under \<^verbatim>\<open>results\<close>, and an archive whose member
  \<^verbatim>\<open>US.txt\<close> has one line.
\<close>

definition meridian_results :: json where
  "meridian_results = JList [example_object 7 (141 / 100), example_object 8 (99 / 100)]"

definition meridian_line :: string where
  "meridian_line = join_tab [''US'', ''00000'', ''Meridian'', ''Mississippi'', ''MS'', [], [], [],
     [], ''1.4'', ''0.04'', ''4''] @ [newline]"

definition meridian_zipcodes :: "zip_record list" where
  "meridian_zipcodes = [(''00000'', ''Meridian'', ''MS'', 7 / 5, 1 / 25)]"

definition meridian_web :: web where
  "meridian_web =
     \<lparr>geonames = Complete (Zip [(''US.txt'', [meridian_line])]),
      purpleair = Inr \<lparr>status_ok = True,
                       body = Some (JObject [(''results'', meridian_results)])\<rparr>\<rparr>"

definition no_files :: files where
  "no_files = \<lparr>airq_db = None, us_zip = None, purpleair_json = None\<rparr>"

definition meridian_sensors :: db where
  "meridian_sensors = empty_db
     \<lparr>sensors := [\<lparr>sensor_id = 7, sensor_latitude = 141 / 100, sensor_longitude = 1 / 25,
                    sensor_geohash = ''s0200btju541''\<rparr>,
                   \<lparr>sensor_id = 8, sensor_latitude = 99 / 100, sensor_longitude = 1 / 25,
                    sensor_geohash = ''s00j8ujphj6h''\<rparr>]\<rparr>"

definition meridian_db :: db where
  "meridian_db = meridian_sensors
     \<lparr>zipcodes := [\<lparr>zipcode_id = 1, zipcode_city_id = 1, zipcode_code = ''00000'',
                     zipcode_latitude = 7 / 5, zipcode_longitude = 1 / 25,
                     zipcode_geohash = ''s00pbyv5s4fj''\<rparr>],
      zipcodes_seq := 1,
      cities := [\<lparr>city_id = 1, city_name = ''Meridian'', city_state_code = ''MS''\<rparr>],
      cities_seq := 1\<rparr>"

definition meridian_files :: files where
  "meridian_files =
     \<lparr>airq_db = Some meridian_db, us_zip = Some (Zip [(''US.txt'', [meridian_line])]),
      purpleair_json = Some (Dumped meridian_results)\<rparr>"

section \<open>The steps of the pipeline\<close>

lemma generate_cases:
  obtains (sensors_failed) d1 fs1 e where
      "load_sensors lib clock w empty_db (refresh_data fs) = (d1, fs1, Some e)"
      "generate lib clock w fs = (fs1\<lparr>airq_db := Some d1\<rparr>, Some e)"
  | (sensors_loaded) d1 fs1 d2 fs2 err where
      "load_sensors lib clock w empty_db (refresh_data fs) = (d1, fs1, None)"
      "load_zipcodes lib w d1 fs1 = (d2, fs2, err)"
      "generate lib clock w fs = (fs2\<lparr>airq_db := Some d2\<rparr>, err)"
proof (cases "load_sensors lib clock w empty_db (refresh_data fs)")
  case (fields d1 fs1 err1)
  show ?thesis
  proof (cases err1)
    case None
    obtain d2 fs2 err where "load_zipcodes lib w d1 fs1 = (d2, fs2, err)"
      by (cases "load_zipcodes lib w d1 fs1")
    with fields None show ?thesis
      by (intro sensors_loaded [of d1 fs1 d2 fs2 err]) (simp_all add: generate_def create_db_fresh)
  next
    case (Some e)
    with fields show ?thesis
      by (intro sensors_failed [of d1 fs1 e]) (simp_all add: generate_def create_db_fresh)
  qed
qed

lemma load_sensors_empty_db:
  assumes "load_sensors lib clock w empty_db fs = (d1, fs1, err)"
  shows "db_inv d1" and "zipcodes d1 = []" and "sensors_zipcodes d1 = []"
proof -
  from load_sensors_db_inv [OF db_inv_empty_db, of lib clock w fs] assms
  show "db_inv d1" by simp
  show "zipcodes d1 = []" and "sensors_zipcodes d1 = []"
    using assms
    by (cases rule: load_sensors_cases [of w fs lib clock empty_db];
        auto dest: create_sensors_json_frame)+
qed

text \<open>
  Claim C5. Whatever the servers answer and wherever the run ends, the database that
  \<^verbatim>\<open>generate\<close> leaves satisfies the invariant: keys are unique, every link names a
  sensor and a postal code of the tables and is shorter than 25 km, and no postal code
  has more than 25 links.
\<close>

theorem generate_db_inv:
  assumes "encoder_wf (encode_key lib)"
  shows "\<exists>d. airq_db (fst (generate lib clock w fs)) = Some d \<and> db_inv d"
proof (cases rule: generate_cases [of lib clock w fs])
  case (sensors_failed d1 fs1 e)
  then show ?thesis by (simp add: load_sensors_empty_db(1))
next
  case (sensors_loaded d1 fs1 d2 fs2 err)
  from load_zipcodes_db_inv [OF load_sensors_empty_db(1) [OF sensors_loaded(1)] assms, of w fs1]
    sensors_loaded(2,3)
  show ?thesis by simp
qed

theorem generate_db_inv_witness:
  "encoder_wf (encode_key example_library) \<and>
   (\<exists>d. airq_db (fst (generate example_library (\<lambda>i. example_now) meridian_web no_files)) =
          Some d \<and> db_inv d)"
proof -
  have wf: "encoder_wf (encode_key example_library)"
    by (simp add: example_library_def geohash_encoder_wf)
  from generate_db_inv [OF wf, of "\<lambda>i. example_now" meridian_web no_files] wf
  show ?thesis by simp
qed

section \<open>The run on the meridian\<close>

lemma meridian_keys:
  "geohash_encode (141 / 100) (1 / 25) = Inr ''s0200btju541''"
  "geohash_encode (99 / 100) (1 / 25) = Inr ''s00j8ujphj6h''"
  "geohash_encode (7 / 5) (1 / 25) = Inr ''s00pbyv5s4fj''"
  by (simp_all add: geohash_eval)

lemma meridian_records:
  "records_of meridian_results = [example_record 7 (141 / 100), example_record 8 (99 / 100)]"
  by (auto simp: records_of_def meridian_results_def example_object_def example_record_def)

lemma meridian_feed:
  "get_purpleair_data meridian_web (refresh_data fs) =
     ((refresh_data fs)\<lparr>purpleair_json := Some (Dumped meridian_results)\<rparr>, Inr meridian_results)"
  by (rule get_purpleair_data_download [where kvs = "[(''results'', meridian_results)]"])
    (simp_all add: meridian_web_def)+

lemma meridian_sensors_loaded:
  "create_sensors_json example_library (\<lambda>i. example_now) empty_db meridian_results =
     (meridian_sensors, None)"
proof -
  have "feed_wf meridian_results"
    by (simp add: meridian_results_def example_object_def)
  then show ?thesis
    by (simp add: create_sensors_json_feed_wf meridian_records create_sensors_def
        meridian_sensors_def example_record_created meridian_keys rowid_range_def py_round_def
        round_half_even_def empty_db_def)
qed

lemma meridian_parsed:
  "parse_line example_library meridian_line = Inr (Some (''00000'', ''Meridian'', ''MS'', 7 / 5, 1 / 25))"
proof -
  have "fields_of meridian_line = [''US'', ''00000'', ''Meridian'', ''Mississippi'', ''MS'', [], [],
     [], [], ''1.4'', ''0.04'', ''4'']"
    unfolding meridian_line_def by (rule fields_of_join_tab) (simp_all add: py_space_def)
  moreover have "strip ''1.4'' = ''1.4''" "strip ''0.04'' = ''0.04''" "strip ''00000'' = ''00000''"
    "strip ''Meridian'' = ''Meridian''" "strip ''MS'' = ''MS''"
    by (simp_all add: strip_def py_space_def)
  ultimately show ?thesis
    using parse_line_fields [of meridian_line example_library "7 / 5" "1 / 25"]
    by (simp add: example_library_def army_def)
qed

lemma meridian_nearest:
  "nearest_sensors (7 / 5) (1 / 25) ''s00pbyv5s4fj'' (sensors meridian_sensors) = []"
  by (simp add: nearest_sensors_def candidates_def cell_ring_def shared_level_def
      sensor_distance_def meridian_sensors_def great_circle_km_meridian arc_ge_25 not_less
      upt_rec)

lemma meridian_zipcodes_loaded:
  "create_zipcodes geohash_encode meridian_sensors meridian_zipcodes = (meridian_db, None)"
proof -
  have inv: "db_inv meridian_sensors"
    using create_sensors_json_db_inv [OF db_inv_empty_db, of example_library "\<lambda>i. example_now"
        meridian_results]
    by (simp add: meridian_sensors_loaded)
  have new: "''00000'' \<notin> zipcode_code ` set (zipcodes meridian_sensors)"
    by (simp add: meridian_sensors_def empty_db_def)
  have "zipcode_added meridian_sensors (''00000'', ''Meridian'', ''MS'', 7 / 5, 1 / 25)
      ''s00pbyv5s4fj'' = meridian_db"
    by (simp add: zipcode_added_def meridian_nearest)
      (simp add: create_city_def select_city_def insert_city_def next_rowid_def
        zipcode_row_of_def py_round_def round_half_even_def Let_def meridian_sensors_def
        meridian_db_def empty_db_def)
  with create_zipcode_closed_form [where encode = geohash_encode and name = "''Meridian''"
      and state = "''MS''", OF inv meridian_keys(3) _ new]
  show ?thesis by (simp add: meridian_zipcodes_def)
qed

lemma meridian_archive:
  "get_zipcodes_from_geonames example_library meridian_web fs =
     (fs\<lparr>us_zip := Some (Zip [(''US.txt'', [meridian_line])])\<rparr>, meridian_zipcodes, None)"
  by (simp add: get_zipcodes_from_geonames_def open_geonames_Complete [of _ "Zip [(''US.txt'',
      [meridian_line])]"] read_us_txt_def meridian_web_def meridian_parsed meridian_zipcodes_def)

lemma meridian_run:
  "generate example_library (\<lambda>i. example_now) meridian_web fs = (meridian_files, None)"
proof -
  have "load_sensors example_library (\<lambda>i. example_now) meridian_web empty_db (refresh_data fs) =
      (meridian_sensors, (refresh_data fs)\<lparr>purpleair_json := Some (Dumped meridian_results)\<rparr>,
       None)"
    by (simp add: load_sensors_def meridian_feed meridian_sensors_loaded)
  moreover have "encode_key example_library = geohash_encode"
    by (simp add: example_library_def)
  ultimately show ?thesis
    by (simp add: generate_def create_db_fresh load_zipcodes_staged meridian_archive
        meridian_zipcodes_loaded meridian_files_def refresh_data_def)
qed

text \<open>
  Claim C6. When \<^verbatim>\<open>generate\<close> runs to the end, the sensors of the database are the ones
  the loader made of the results the server sent, and every record that the generator
  yields from the archive is in the table of postal codes with the key of its
  coordinates and with links that are exactly its nearest sensors, in the sense of
  \<open>nearest_sensors\<close>, among these sensors.
\<close>

theorem generate_links:
  assumes "encoder_wf (encode_key lib)"
    and "generate lib clock w fs = (fs', None)"
  shows "\<exists>d results. airq_db fs' = Some d \<and>
     snd (get_purpleair_data w (refresh_data fs)) = Inr results \<and>
     sensors d = sensors (fst (create_sensors_json lib clock empty_db results)) \<and>
     list_all (\<lambda>(zipcode, name, state, latitude, longitude).
        zipcode_linked (encode_key lib) d zipcode latitude longitude)
       (fst (snd (get_zipcodes_from_geonames lib w (refresh_data fs))))"
proof (cases rule: generate_cases [of lib clock w fs])
  case (sensors_failed d1 fs1 e)
  with assms(2) show ?thesis by simp
next
  case (sensors_loaded d1 fs1 d2 fs2 err)
  note inv = load_sensors_empty_db(1) [OF sensors_loaded(1)]
  obtain fs3 recs gerr where gen: "get_zipcodes_from_geonames lib w fs1 = (fs3, recs, gerr)"
    by (cases "get_zipcodes_from_geonames lib w fs1")
  with sensors_loaded(2,3) assms(2)
  have run: "create_zipcodes (encode_key lib) d1 recs = (d2, None)" and fs': "airq_db fs' = Some d2"
    by (cases "create_zipcodes (encode_key lib) d1 recs"; cases gerr;
        auto simp: load_zipcodes_staged and_then_def split: option.splits)+
  from sensors_loaded(1) obtain results
    where feed: "snd (get_purpleair_data w (refresh_data fs)) = Inr results"
      and d1: "d1 = fst (create_sensors_json lib clock empty_db results)"
    by (cases rule: load_sensors_cases [of w "refresh_data fs" lib clock empty_db]) auto
  from get_zipcodes_from_geonames_records [of lib w "refresh_data fs" fs1] gen
  have "snd (get_zipcodes_from_geonames lib w (refresh_data fs)) = (recs, gerr)" by simp
  then have "fst (snd (get_zipcodes_from_geonames lib w (refresh_data fs))) = recs" by simp
  with create_zipcodes_linked [OF inv assms(1) run] create_zipcodes_codes [OF inv assms(1) run]
    fs' feed d1
  show ?thesis by simp
qed

theorem generate_links_witness:
  "encoder_wf (encode_key example_library) \<and>
   generate example_library (\<lambda>i. example_now) meridian_web no_files = (meridian_files, None) \<and>
   airq_db meridian_files = Some meridian_db \<and>
   zipcode_linked geohash_encode meridian_db ''00000'' (7 / 5) (1 / 25)"
proof -
  have enc: "encode_key example_library = geohash_encode"
    by (simp add: example_library_def)
  then have wf: "encoder_wf (encode_key example_library)"
    by (simp add: geohash_encoder_wf)
  from generate_links [OF wf meridian_run [of no_files]] wf meridian_run [of no_files]
  show ?thesis
    by (auto simp: enc meridian_archive meridian_zipcodes_def meridian_files_def)
qed



text \<open>
  Claim C37. A reload replaces everything: the files that \<^verbatim>\<open>generate\<close> leaves and the
  exception that ends it depend on the answers of the servers only, not on the database,
  the archive or the cache that were on disk before, because \<^verbatim>\<open>refresh_data\<close> removes
  all three.
\<close>

theorem generate_reload:
  "generate lib clock w fs = generate lib clock w no_files"
  unfolding generate_def refresh_data_const [of fs no_files] ..

end
